(* ===== verification/Runflow_Prelude.thy ===== *)
theory Runflow_Prelude
  imports Complex_Main
begin

text \<open>
  Shared vocabulary of the RunFlow development: the names of the model's base
  types, the fact collections the component theories feed, and the two bounded
  FIFO idioms the program uses (\<^verbatim>\<open>push\<close> followed by a guarded \<^verbatim>\<open>shift\<close>, and
  \<^verbatim>\<open>slice(-n)\<close>), with the list lemmas every client of a bounded window needs.
\<close>

section \<open>Base types\<close>

text \<open>
  \<^verbatim>\<open>Date.now()\<close> is an integral number of milliseconds; distances are kilometres.
  Finite JavaScript numbers are idealised as reals (no rounding error).
\<close>

type_synonym ms = int
type_synonym km = real

section \<open>Fact collections\<close>

named_theorems js_defs \<open>definitions of the JavaScript primitives, unfolded to evaluate\<close>
named_theorems handler_defs \<open>definitions of the event handlers of app.js\<close>
named_theorems frame \<open>fields an operation leaves unchanged\<close>

section \<open>Bounded FIFO windows\<close>

text \<open>
  \<^verbatim>\<open>xs.push(x); if (xs.length > cap) xs.shift();\<close>: append, then drop the oldest
  element when the capacity is exceeded. One element at most is dropped, so the
  bound is only re-established, never forced.
\<close>

definition push_shift :: "nat \<Rightarrow> 'a \<Rightarrow> 'a list \<Rightarrow> 'a list" where
  "push_shift cap x xs = (if cap < length (xs @ [x]) then tl (xs @ [x]) else xs @ [x])"

text \<open>\<^verbatim>\<open>xs.slice(-n)\<close> for \<open>n > 0\<close>: the last \<open>n\<close> elements (all of them if fewer).\<close>

definition slice_last :: "nat \<Rightarrow> 'a list \<Rightarrow> 'a list" where
  "slice_last n xs = drop (length xs - n) xs"

lemma push_shift_Nil [simp]: "push_shift cap x [] = (if cap = 0 then [] else [x])"
  by (simp add: push_shift_def)

lemma push_shift_not_full: "length xs < cap \<Longrightarrow> push_shift cap x xs = xs @ [x]"
  by (simp add: push_shift_def)

lemma push_shift_full: "cap \<le> length xs \<Longrightarrow> push_shift cap x xs = tl (xs @ [x])"
  by (simp add: push_shift_def)

lemma push_shift_Cons_full:
  "cap \<le> Suc (length xs) \<Longrightarrow> push_shift cap x (y # xs) = xs @ [x]"
  by (simp add: push_shift_def)

lemma length_push_shift:
  "length (push_shift cap x xs) = (if cap \<le> length xs then length xs else Suc (length xs))"
  by (simp add: push_shift_def)

lemma length_push_shift_le: "length xs \<le> cap \<Longrightarrow> length (push_shift cap x xs) \<le> cap"
  by (simp add: length_push_shift)

lemma push_shift_neq_Nil [simp]: "0 < cap \<Longrightarrow> push_shift cap x xs \<noteq> []"
  by (cases xs) (auto simp: push_shift_def)

lemma last_push_shift [simp]: "0 < cap \<Longrightarrow> last (push_shift cap x xs) = x"
  by (cases xs) (auto simp: push_shift_def)

lemma set_push_shift_subset: "set (push_shift cap x xs) \<subseteq> insert x (set xs)"
  by (cases xs) (auto simp: push_shift_def)

lemma length_slice_last [simp]: "length (slice_last n xs) = min n (length xs)"
  by (simp add: slice_last_def)

lemma slice_last_all: "length xs \<le> n \<Longrightarrow> slice_last n xs = xs"
  by (simp add: slice_last_def)

lemma slice_last_snoc_full:
  "length xs = n \<Longrightarrow> 0 < n \<Longrightarrow> slice_last n (xs @ [x]) = tl xs @ [x]"
  by (cases xs) (simp_all add: slice_last_def)

lemma slice_last_neq_Nil [simp]: "0 < n \<Longrightarrow> xs \<noteq> [] \<Longrightarrow> slice_last n xs \<noteq> []"
  by (cases xs) (auto simp: slice_last_def)

lemma last_slice_last [simp]: "0 < n \<Longrightarrow> xs \<noteq> [] \<Longrightarrow> last (slice_last n xs) = last xs"
  by (simp add: slice_last_def)

text \<open>
  On a window that respects its capacity the two idioms agree: pushing and
  shifting once (the position window) yields the last \<open>cap\<close> elements of the extended
  list (the run history).
\<close>

theorem push_shift_eq_slice_last:
  "length xs \<le> cap \<Longrightarrow> 0 < cap \<Longrightarrow> push_shift cap x xs = slice_last cap (xs @ [x])"
  by (cases xs) (auto simp: push_shift_def slice_last_def Suc_diff_le)

theorem push_shift_eq_slice_last_witness:
  "push_shift 3 (4::nat) [1, 2, 3] = [2, 3, 4] \<and> slice_last 3 ([1, 2, 3] @ [4::nat]) = [2, 3, 4]"
  using push_shift_eq_slice_last [of "[1, 2, 3::nat]" 3 4]
  by (simp add: slice_last_def)

section \<open>Options and lists\<close>

text \<open>\<^verbatim>\<open>xs[xs.length - 1]\<close>, which is \<^verbatim>\<open>undefined\<close> on an empty array.\<close>

definition last_opt :: "'a list \<Rightarrow> 'a option" where
  "last_opt xs = (if xs = [] then None else Some (last xs))"

lemma last_opt_Nil [simp]: "last_opt [] = None"
  by (simp add: last_opt_def)

lemma last_opt_snoc [simp]: "last_opt (xs @ [x]) = Some x"
  by (simp add: last_opt_def)

lemma last_opt_eq_None [simp]: "last_opt xs = None \<longleftrightarrow> xs = []"
  by (simp add: last_opt_def)

lemma last_opt_push_shift [simp]: "0 < cap \<Longrightarrow> last_opt (push_shift cap x xs) = Some x"
  by (simp add: last_opt_def)

end
