(* ===== verification/JS_Number.thy ===== *)
theory JS_Number
  imports Runflow_Prelude
begin

text \<open>
  The JavaScript number operations \<^verbatim>\<open>src/app.js\<close> relies on, as far as they differ
  from HOL's: division (which yields \<^verbatim>\<open>Infinity\<close> or \<^verbatim>\<open>NaN\<close> on a zero divisor,
  where HOL's \<open>x / 0\<close> is \<open>0\<close>), comparison against such a quotient, the logical
  \<^verbatim>\<open>||\<close> on numbers, \<^verbatim>\<open>Math.floor\<close>, \<^verbatim>\<open>Math.round\<close>, the remainder \<^verbatim>\<open>%\<close> (truncating,
  where HOL's \<open>mod\<close> floors), and the printing of numbers (\<^verbatim>\<open>toString\<close>, \<^verbatim>\<open>padStart\<close>,
  \<^verbatim>\<open>toFixed\<close>). Finite values are reals; signed zeros, rounding error and the exponent
  notation of \<^verbatim>\<open>toString\<close> beyond \<open>10\<^sup>2\<^sup>1\<close> are outside the model.
\<close>

section \<open>Quotients\<close>

datatype jsnum = Fin real | PosInf | NegInf | NaN

text \<open>\<^verbatim>\<open>a / b\<close> for finite \<open>a\<close> and \<open>b\<close> (the zero divisor is \<open>+0\<close>).\<close>

definition js_div :: "real \<Rightarrow> real \<Rightarrow> jsnum" where
  "js_div a b =
     (if b \<noteq> 0 then Fin (a / b)
      else if 0 < a then PosInf
      else if a < 0 then NegInf
      else NaN)"

text \<open>\<^verbatim>\<open>q < c\<close> for a finite bound \<open>c\<close>: every comparison with \<^verbatim>\<open>NaN\<close> is false.\<close>

fun js_less :: "jsnum \<Rightarrow> real \<Rightarrow> bool" where
  "js_less (Fin x) c = (x < c)"
| "js_less NegInf c = True"
| "js_less PosInf c = False"
| "js_less NaN c = False"

text \<open>\<^verbatim>\<open>q || 0\<close>: \<^verbatim>\<open>NaN\<close> and \<open>0\<close> are falsy, the infinities are not.\<close>

fun js_or_zero :: "jsnum \<Rightarrow> jsnum" where
  "js_or_zero NaN = Fin 0"
| "js_or_zero q = q"

lemma js_div_nonzero [simp]: "b \<noteq> 0 \<Longrightarrow> js_div a b = Fin (a / b)"
  by (simp add: js_div_def)

lemma js_div_zero: "js_div a 0 = (if 0 < a then PosInf else if a < 0 then NegInf else NaN)"
  by (simp add: js_div_def)

lemma js_less_div_iff:
  "js_less (js_div a b) c \<longleftrightarrow> (if b = 0 then a < 0 else a / b < c)"
  by (simp add: js_div_def)

lemma js_less_div_nonneg: "0 \<le> a \<Longrightarrow> js_less (js_div a b) c \<longleftrightarrow> b \<noteq> 0 \<and> a / b < c"
  by (auto simp: js_less_div_iff)

lemma js_or_zero_Fin [simp]: "js_or_zero (Fin x) = Fin x"
  by simp

section \<open>Rounding and remainder\<close>

text \<open>\<^verbatim>\<open>Math.round\<close> rounds half-way cases towards \<open>+\<infinity>\<close>.\<close>

definition js_round :: "real \<Rightarrow> int" where
  "js_round x = \<lfloor>x + 1 / 2\<rfloor>"

text \<open>\<^verbatim>\<open>a % b\<close> on integral values: the remainder has the sign of the dividend.\<close>

definition js_rem :: "int \<Rightarrow> int \<Rightarrow> int" where
  "js_rem a b = sgn a * (\<bar>a\<bar> mod \<bar>b\<bar>)"

lemma floor_of_int_div_numeral [simp]:
  "\<lfloor>real_of_int k / numeral n\<rfloor> = k div numeral n"
  using floor_divide_of_int_eq [where ?'a = real, of k "numeral n"] by simp

lemma js_round_of_int [simp]: "js_round (of_int n) = n"
  unfolding js_round_def by linarith

lemma js_round_bounds: "x - 1 / 2 < of_int (js_round x) \<and> of_int (js_round x) \<le> x + 1 / 2"
  unfolding js_round_def by linarith

lemma js_round_mono: "x \<le> y \<Longrightarrow> js_round x \<le> js_round y"
  unfolding js_round_def by (simp add: floor_mono)

lemma js_round_frac_range:
  "0 \<le> js_round ((x - of_int \<lfloor>x\<rfloor>) * 60) \<and> js_round ((x - of_int \<lfloor>x\<rfloor>) * 60) \<le> 60"
proof -
  have "0 \<le> x - of_int \<lfloor>x\<rfloor>" and "x - of_int \<lfloor>x\<rfloor> < 1"
    by linarith+
  then have "0 \<le> (x - of_int \<lfloor>x\<rfloor>) * 60 + 1 / 2" and "(x - of_int \<lfloor>x\<rfloor>) * 60 + 1 / 2 < 61"
    by simp_all
  then show ?thesis
    unfolding js_round_def by (simp add: floor_less_iff le_floor_iff)
qed

lemma js_rem_nonneg [simp]: "0 \<le> a \<Longrightarrow> js_rem a b = a mod \<bar>b\<bar>"
  by (cases "a = 0") (simp_all add: js_rem_def)

lemma js_rem_pos_range: "0 \<le> a \<Longrightarrow> 0 < b \<Longrightarrow> 0 \<le> js_rem a b \<and> js_rem a b < b"
  by simp

lemma js_rem_neg: "a < 0 \<Longrightarrow> js_rem a b = - ((- a) mod \<bar>b\<bar>)"
  by (simp add: js_rem_def)

section \<open>Printing integers\<close>

definition digit_char :: "nat \<Rightarrow> char" where
  "digit_char d = ''0123456789'' ! d"

fun show_nat :: "nat \<Rightarrow> string" where
  "show_nat n = (if n < 10 then [digit_char n] else show_nat (n div 10) @ [digit_char (n mod 10)])"

declare show_nat.simps [simp del]

text \<open>\<^verbatim>\<open>n.toString()\<close> for an integral \<open>n\<close>.\<close>

definition show_int :: "int \<Rightarrow> string" where
  "show_int i = (if i < 0 then CHR ''-'' # show_nat (nat (- i)) else show_nat (nat i))"

text \<open>\<^verbatim>\<open>s.padStart(n, c)\<close> for a one-character filler.\<close>

definition padStart :: "nat \<Rightarrow> char \<Rightarrow> string \<Rightarrow> string" where
  "padStart n c s = replicate (n - length s) c @ s"

lemmas show_defs [js_defs] = show_int_def padStart_def

lemma show_nat_digit: "n < 10 \<Longrightarrow> show_nat n = [digit_char n]"
  by (simp add: show_nat.simps)

lemma show_nat_step: "10 \<le> n \<Longrightarrow> show_nat n = show_nat (n div 10) @ [digit_char (n mod 10)]"
  by (subst show_nat.simps) simp

text \<open>Evaluation on literals: the recursive equation is used on numerals only.\<close>

lemma digit_char_simps [simp]:
  "digit_char 0 = CHR ''0''" "digit_char 1 = CHR ''1''" "digit_char (Suc 0) = CHR ''1''"
  "digit_char 2 = CHR ''2''" "digit_char 3 = CHR ''3''" "digit_char 4 = CHR ''4''"
  "digit_char 5 = CHR ''5''" "digit_char 6 = CHR ''6''" "digit_char 7 = CHR ''7''"
  "digit_char 8 = CHR ''8''" "digit_char 9 = CHR ''9''"
  by (simp_all add: digit_char_def)

lemma show_nat_0 [simp]: "show_nat 0 = ''0''"
  by (simp add: show_nat_digit)

lemma show_nat_1 [simp]: "show_nat 1 = ''1''" "show_nat (Suc 0) = ''1''"
  by (simp_all add: show_nat_digit)

lemma show_nat_numeral [simp]:
  "show_nat (numeral k) =
     (if (numeral k :: nat) < 10 then [digit_char (numeral k)]
      else show_nat (numeral k div 10) @ [digit_char (numeral k mod 10)])"
  by (rule show_nat.simps)

lemma show_nat_neq_Nil [simp]: "show_nat n \<noteq> []"
  by (subst show_nat.simps) simp

lemma length_show_nat_small: "n < 10 \<Longrightarrow> length (show_nat n) = 1"
  by (simp add: show_nat_digit)

lemma length_show_nat_two: "10 \<le> n \<Longrightarrow> n < 100 \<Longrightarrow> length (show_nat n) = 2"
  by (simp add: show_nat_step show_nat_digit)

lemma length_show_nat_ge_two: "10 \<le> n \<Longrightarrow> 2 \<le> length (show_nat n)"
  using show_nat_neq_Nil [of "n div 10"]
  by (simp add: show_nat_step Suc_le_eq)

lemma show_int_nonneg: "0 \<le> i \<Longrightarrow> show_int i = show_nat (nat i)"
  by (simp add: show_int_def)

lemma length_padStart: "length (padStart n c s) = max n (length s)"
  by (simp add: padStart_def)

lemma padStart_long [simp]: "n \<le> length s \<Longrightarrow> padStart n c s = s"
  by (simp add: padStart_def)

lemma padStart2_show_nat_small:
  "n < 10 \<Longrightarrow> padStart 2 c (show_nat n) = [c, digit_char n]"
  by (simp add: padStart_def show_nat_digit)

lemma length_padStart2_show_nat: "n < 100 \<Longrightarrow> length (padStart 2 c (show_nat n)) = 2"
  by (cases "n < 10") (simp_all add: length_padStart length_show_nat_small length_show_nat_two)

section \<open>Printing decimals\<close>

text \<open>
  \<^verbatim>\<open>x.toFixed(f)\<close>: the integer \<open>n\<close> nearest to \<open>x \<sqdot> 10\<^sup>f\<close> (the larger one on a tie)
  printed with \<open>f\<close> digits after the point; a negative \<open>x\<close> prints as \<^verbatim>\<open>-\<close> followed
  by the digits of \<open>-x\<close>.
\<close>

definition fixed_digits :: "nat \<Rightarrow> nat \<Rightarrow> string" where
  "fixed_digits f n =
     show_nat (n div 10 ^ f) @
     (if f = 0 then [] else CHR ''.'' # padStart f CHR ''0'' (show_nat (n mod 10 ^ f)))"

definition toFixed :: "nat \<Rightarrow> real \<Rightarrow> string" where
  "toFixed f x =
     (if x < 0 then CHR ''-'' # fixed_digits f (nat (js_round (- x * 10 ^ f)))
      else fixed_digits f (nat (js_round (x * 10 ^ f))))"

lemmas toFixed_defs [js_defs] = toFixed_def fixed_digits_def js_round_def

lemma toFixed_nonneg:
  "0 \<le> x \<Longrightarrow> toFixed f x = fixed_digits f (nat \<lfloor>x * 10 ^ f + 1 / 2\<rfloor>)"
  by (simp add: toFixed_def js_round_def)

lemma toFixed_neq_Nil [simp]: "toFixed f x \<noteq> []"
  by (simp add: toFixed_def fixed_digits_def)

end
