(* ===== verification/Haversine.thy ===== *)
theory Haversine
  imports JS_Number
begin

text \<open>
  The great-circle distance of \<^verbatim>\<open>calculateDistance\<close> (\<^verbatim>\<open>src/app.js\<close>, lines 404-418),
  over the reals: \<open>hav_a\<close> is the haversine term \<^verbatim>\<open>a\<close>, \<open>atan2\<close> is \<^verbatim>\<open>Math.atan2\<close>
  (without signed zeros). The lemmas show that \<^verbatim>\<open>a\<close> always lies in \<open>[0, 1]\<close>, so that
  both square roots are real; that the routine agrees with the textbook formula
  \<open>2 R arcsin \<surd>a\<close>; symmetry, the zero distance of a point to itself, the range
  \<open>[0, \<pi> R]\<close>; and the exact arc length along the equator and along a meridian,
  which with \<open>3.12 < \<pi> < 3.16\<close> gives the 111.2 km of one degree of longitude.
\<close>

section \<open>Definitions\<close>

text \<open>\<^verbatim>\<open>Math.atan2(y, x)\<close>: the angle of the point \<open>(x, y)\<close>, in \<open>(-\<pi>, \<pi>]\<close>.\<close>

definition atan2 :: "real \<Rightarrow> real \<Rightarrow> real" where
  "atan2 y x =
     (if 0 < x then arctan (y / x)
      else if x < 0 then (if 0 \<le> y then arctan (y / x) + pi else arctan (y / x) - pi)
      else if 0 < y then pi / 2
      else if y < 0 then - (pi / 2)
      else 0)"

text \<open>The term \<^verbatim>\<open>a\<close> of lines 406-414.\<close>

definition hav_a :: "real \<Rightarrow> real \<Rightarrow> real \<Rightarrow> real \<Rightarrow> real" where
  "hav_a lat1 lon1 lat2 lon2 =
     (let dLat = ((lat2 - lat1) * pi) / 180;
          dLon = ((lon2 - lon1) * pi) / 180
      in sin (dLat / 2) * sin (dLat / 2) +
         cos ((lat1 * pi) / 180) * cos ((lat2 * pi) / 180) * sin (dLon / 2) * sin (dLon / 2))"

text \<open>Lines 404-418; the Earth's radius is 6371 km.\<close>

definition calculateDistance :: "real \<Rightarrow> real \<Rightarrow> real \<Rightarrow> real \<Rightarrow> km" where
  "calculateDistance lat1 lon1 lat2 lon2 =
     (let R = 6371;
          a = hav_a lat1 lon1 lat2 lon2;
          c = 2 * atan2 (sqrt a) (sqrt (1 - a))
      in R * c)"

section \<open>Bounds on \<open>\<pi>\<close>\<close>

text \<open>
  The library gives \<open>2 \<le> \<pi> < 4\<close> only. The cosine's Taylor polynomial of degree 8
  with its Lagrange remainder fixes the sign of the cosine at 1.56 and at 1.58,
  which encloses \<open>\<pi> / 2\<close>.
\<close>

lemma cos_poly10:
  fixes x :: real
  shows "(\<Sum>m<10. cos_coeff m * x ^ m) = 1 - x\<^sup>2 / 2 + x ^ 4 / 24 - x ^ 6 / 720 + x ^ 8 / 40320"
  by (simp add: eval_nat_numeral cos_coeff_Suc sin_coeff_Suc)

lemma cos_taylor10:
  fixes x :: real
  assumes "0 < x"
  shows "\<bar>cos x - (1 - x\<^sup>2 / 2 + x ^ 4 / 24 - x ^ 6 / 720 + x ^ 8 / 40320)\<bar> \<le> x ^ 10 / 3628800"
proof -
  from Maclaurin_cos_expansion2 [OF assms, of 10]
  obtain t where "cos x = (\<Sum>m<10. cos_coeff m * x ^ m) + cos (t + 1 / 2 * real 10 * pi) / fact 10 * x ^ 10"
    by auto
  then have E: "cos x - (1 - x\<^sup>2 / 2 + x ^ 4 / 24 - x ^ 6 / 720 + x ^ 8 / 40320) =
      cos (t + 1 / 2 * real 10 * pi) * (x ^ 10 / 3628800)"
    by (simp add: cos_poly10 fact_numeral)
  have "\<bar>cos (t + 1 / 2 * real 10 * pi) * (x ^ 10 / 3628800)\<bar> \<le> 1 * (x ^ 10 / 3628800)"
    unfolding abs_mult using assms by (intro mult_mono) simp_all
  then have B: "\<bar>cos (t + 1 / 2 * real 10 * pi) * (x ^ 10 / 3628800)\<bar> \<le> x ^ 10 / 3628800"
    by (simp only: mult_1)
  show ?thesis unfolding E by (rule B)
qed

lemma cos_158_neg: "cos (79 / 50 :: real) < 0"
proof -
  have "cos (79 / 50 :: real) \<le>
      (1 - (79 / 50)\<^sup>2 / 2 + (79 / 50) ^ 4 / 24 - (79 / 50) ^ 6 / 720 + (79 / 50) ^ 8 / 40320) +
      (79 / 50) ^ 10 / 3628800"
    using cos_taylor10 [of "79 / 50"] unfolding abs_le_iff by linarith
  also have "\<dots> < 0" by (simp add: power_divide)
  finally show ?thesis .
qed

lemma cos_156_pos: "0 < cos (39 / 25 :: real)"
proof -
  have "(0::real) <
      (1 - (39 / 25)\<^sup>2 / 2 + (39 / 25) ^ 4 / 24 - (39 / 25) ^ 6 / 720 + (39 / 25) ^ 8 / 40320) -
      (39 / 25) ^ 10 / 3628800"
    by (simp add: power_divide)
  also have "\<dots> \<le> cos (39 / 25 :: real)"
    using cos_taylor10 [of "39 / 25"] unfolding abs_le_iff by linarith
  finally show ?thesis .
qed

lemma pi_bounds: "78 / 25 < pi \<and> pi < 79 / 25"
proof
  show "78 / 25 < pi"
  proof (rule ccontr)
    assume "\<not> 78 / 25 < pi"
    then have "pi / 2 \<le> 39 / 25" by simp
    moreover have "39 / 25 \<le> pi" using pi_ge_two by simp
    ultimately have "cos (39 / 25) \<le> cos (pi / 2)"
      by (intro cos_monotone_0_pi_le) simp_all
    with cos_156_pos show False by simp
  qed
  show "pi < 79 / 25"
  proof (rule ccontr)
    assume "\<not> pi < 79 / 25"
    then have "79 / 50 \<le> pi / 2" by simp
    then have "0 \<le> cos (79 / 50 :: real)"
      by (intro cos_ge_zero) simp_all
    with cos_158_neg show False by simp
  qed
qed

section \<open>The haversine term\<close>

lemma hav_mix:
  fixes c k s :: real
  assumes "\<bar>c\<bar> \<le> 1" "\<bar>k\<bar> \<le> 1" "0 \<le> s" "s \<le> 1"
  shows "0 \<le> (1 - c) / 2 + s * (c + k) / 2 \<and> (1 - c) / 2 + s * (c + k) / 2 \<le> 1"
proof -
  define u v where "u = (1 - s) * c" and "v = s * k"
  have eq: "(1 - c) / 2 + s * (c + k) / 2 = (1 - u + v) / 2"
    by (simp add: u_def v_def field_simps)
  have "\<bar>u\<bar> \<le> 1 - s" and "\<bar>v\<bar> \<le> s"
    using assms by (simp_all add: u_def v_def abs_mult mult_left_le)
  then show ?thesis unfolding eq abs_le_iff by auto
qed

lemma sin_half_sq: "sin (x / 2) * sin (x / 2) = (1 - cos x) / 2" for x :: real
  using cos_double_sin [of "x / 2"] by (simp add: power2_eq_square)

lemma hav_a_alt:
  "hav_a lat1 lon1 lat2 lon2 =
     (1 - cos ((lat2 - lat1) * pi / 180)) / 2 +
     (sin ((lon2 - lon1) * pi / 180 / 2))\<^sup>2 *
       (cos ((lat2 - lat1) * pi / 180) + cos ((lat1 + lat2) * pi / 180)) / 2"
proof -
  let ?S = "sin ((lon2 - lon1) * pi / 180 / 2)"
  have P: "cos (lat1 * pi / 180) * cos (lat2 * pi / 180) =
      (cos ((lat2 - lat1) * pi / 180) + cos ((lat1 + lat2) * pi / 180)) / 2"
    using cos_times_cos [of "lat2 * pi / 180" "lat1 * pi / 180"]
    by (simp add: algebra_simps diff_divide_distrib add_divide_distrib)
  have A: "sin ((lat2 - lat1) * pi / 180 / 2) * sin ((lat2 - lat1) * pi / 180 / 2) =
      (1 - cos ((lat2 - lat1) * pi / 180)) / 2"
    by (rule sin_half_sq)
  show ?thesis
    unfolding hav_a_def Let_def A P by (simp add: power2_eq_square)
qed

lemma hav_a_range: "0 \<le> hav_a lat1 lon1 lat2 lon2 \<and> hav_a lat1 lon1 lat2 lon2 \<le> 1"
  unfolding hav_a_alt by (rule hav_mix) (simp_all add: abs_square_le_1)

lemma atan2_pos: "0 < x \<Longrightarrow> atan2 y x = arctan (y / x)"
  by (simp add: atan2_def)

lemma atan2_sqrt_arcsin:
  assumes "0 \<le> a" "a \<le> 1"
  shows "atan2 (sqrt a) (sqrt (1 - a)) = arcsin (sqrt a)"
proof (cases "a = 1")
  case True
  then show ?thesis by (simp add: atan2_def)
next
  case False
  with assms have a: "a < 1" by simp
  from assms have "0 \<le> sqrt a" by simp
  then have "- 1 < sqrt a" by linarith
  moreover from a have "sqrt a < 1" by simp
  ultimately have "arcsin (sqrt a) = arctan (sqrt a / sqrt (1 - (sqrt a)\<^sup>2))"
    by (rule arcsin_arctan)
  also have "(sqrt a)\<^sup>2 = a"
    using assms by simp
  finally have "arcsin (sqrt a) = arctan (sqrt a / sqrt (1 - a))" .
  moreover have "0 < sqrt (1 - a)"
    using a by simp
  ultimately show ?thesis by (simp only: atan2_pos)
qed

lemma calculateDistance_arcsin:
  "calculateDistance lat1 lon1 lat2 lon2 = 2 * 6371 * arcsin (sqrt (hav_a lat1 lon1 lat2 lon2))"
  using hav_a_range [of lat1 lon1 lat2 lon2]
  by (simp add: calculateDistance_def Let_def atan2_sqrt_arcsin)

lemma hav_a_sym: "hav_a lat2 lon2 lat1 lon1 = hav_a lat1 lon1 lat2 lon2"
proof -
  have e1: "(lat1 - lat2) * pi / 180 = - ((lat2 - lat1) * pi / 180)"
    and e2: "(lon1 - lon2) * pi / 180 / 2 = - ((lon2 - lon1) * pi / 180 / 2)"
    by (simp_all add: field_simps)
  show ?thesis
    unfolding hav_a_alt e1 e2
    by (simp only: cos_minus sin_minus power2_minus add.commute [of lat2 lat1])
qed

lemma hav_a_same [simp]: "hav_a lat lon lat lon = 0"
  by (simp add: hav_a_def)

text \<open>
  C34. The distance is symmetric: swapping the two points does not change it.
\<close>

theorem calculateDistance_sym:
  "calculateDistance lat2 lon2 lat1 lon1 = calculateDistance lat1 lon1 lat2 lon2"
  unfolding calculateDistance_def hav_a_sym [of lat1 lon1 lat2 lon2] ..

text \<open>
  C35. The distance from a point to itself is zero.
\<close>

theorem calculateDistance_same: "calculateDistance lat lon lat lon = 0"
  by (simp add: calculateDistance_def atan2_def)

text \<open>
  C33. The result is a real distance between zero and half the Earth's circumference,
  for every four input angles: the haversine term never leaves \<open>[0, 1]\<close>, so neither
  square root is taken of a negative number.
\<close>

theorem calculateDistance_range:
  "0 \<le> calculateDistance lat1 lon1 lat2 lon2 \<and> calculateDistance lat1 lon1 lat2 lon2 \<le> 6371 * pi"
proof -
  let ?r = "sqrt (hav_a lat1 lon1 lat2 lon2)"
  from hav_a_range [of lat1 lon1 lat2 lon2] have r: "0 \<le> ?r" "?r \<le> 1" by simp_all
  have "arcsin 0 \<le> arcsin ?r"
    using r by (intro arcsin_le_arcsin) simp_all
  moreover have "arcsin ?r \<le> pi / 2"
    using r by (intro arcsin_ubound) linarith+
  ultimately show ?thesis unfolding calculateDistance_arcsin by simp
qed

section \<open>Arcs along the equator and along a meridian\<close>

lemma arcsin_sqrt_sin_sq:
  fixes x :: real
  assumes "\<bar>x\<bar> \<le> pi / 2"
  shows "arcsin (sqrt (sin x * sin x)) = \<bar>x\<bar>"
proof -
  have "sqrt (sin x * sin x) = \<bar>sin x\<bar>"
    by simp
  also have "\<dots> = sin \<bar>x\<bar>"
  proof (cases "0 \<le> x")
    case True
    with assms have "0 \<le> sin x" by (intro sin_ge_zero) simp_all
    with True show ?thesis by simp
  next
    case False
    with assms have "0 \<le> sin (- x)" by (intro sin_ge_zero) simp_all
    with False show ?thesis by simp
  qed
  finally show ?thesis
    using assms by (simp add: arcsin_sin)
qed

lemma half_angle_le:
  fixes d :: real
  assumes "\<bar>d\<bar> \<le> 180"
  shows "\<bar>d * pi / 180 / 2\<bar> \<le> pi / 2"
proof -
  have "\<bar>d * pi / 180 / 2\<bar> = \<bar>d\<bar> * (pi / 360)"
    by (simp add: abs_mult)
  also have "\<dots> \<le> 180 * (pi / 360)"
    using assms by (intro mult_right_mono) simp_all
  finally show ?thesis by simp
qed

lemma calculateDistance_arc:
  assumes a: "hav_a lat1 lon1 lat2 lon2 = sin (d * pi / 180 / 2) * sin (d * pi / 180 / 2)"
    and d: "\<bar>d\<bar> \<le> 180"
  shows "calculateDistance lat1 lon1 lat2 lon2 = 6371 * (\<bar>d\<bar> * pi / 180)"
proof -
  from d have "\<bar>d * pi / 180 / 2\<bar> \<le> pi / 2"
    by (rule half_angle_le)
  then have "calculateDistance lat1 lon1 lat2 lon2 = 2 * 6371 * \<bar>d * pi / 180 / 2\<bar>"
    unfolding calculateDistance_arcsin a by (simp only: arcsin_sqrt_sin_sq)
  also have "\<dots> = 6371 * (\<bar>d\<bar> * pi / 180)"
    by (simp add: abs_mult)
  finally show ?thesis .
qed

text \<open>
  Along the equator the distance between two longitudes at most 180 degrees
  apart is the arc length \<open>R \<sqdot> |\<Delta>\<lambda>| \<sqdot> \<pi> / 180\<close>.
\<close>

theorem calculateDistance_equator:
  assumes "\<bar>lon2 - lon1\<bar> \<le> 180"
  shows "calculateDistance 0 lon1 0 lon2 = 6371 * (\<bar>lon2 - lon1\<bar> * pi / 180)"
  using assms by (intro calculateDistance_arc) (simp_all add: hav_a_def)

theorem calculateDistance_equator_witness:
  "\<bar>180 - 0 :: real\<bar> \<le> 180 \<and> calculateDistance 0 0 0 180 = 6371 * pi"
  using calculateDistance_equator [of 180 0] by simp

text \<open>
  Along a meridian the distance between two latitudes is the arc length
  \<open>R \<sqdot> |\<Delta>\<phi>| \<sqdot> \<pi> / 180\<close>.
\<close>

theorem calculateDistance_meridian:
  assumes "\<bar>lat2 - lat1\<bar> \<le> 180"
  shows "calculateDistance lat1 lon lat2 lon = 6371 * (\<bar>lat2 - lat1\<bar> * pi / 180)"
  using assms by (intro calculateDistance_arc) (simp_all add: hav_a_def)

theorem calculateDistance_meridian_witness:
  "\<bar>45 - (- 45) :: real\<bar> \<le> 180 \<and> calculateDistance (- 45) 7 45 7 = 6371 * pi / 2"
  using calculateDistance_meridian [of 45 "- 45" 7] by simp

text \<open>
  C36. One degree of longitude on the equator is 111.2 km to within one per cent.
\<close>

theorem calculateDistance_one_degree:
  "\<bar>calculateDistance 0 0 0 1 - 1112 / 10\<bar> \<le> 1112 / 1000"
proof -
  have d: "calculateDistance 0 0 0 1 = 6371 * pi / 180"
    using calculateDistance_arc [of 0 0 0 1 1] by (simp add: hav_a_def)
  from pi_bounds have "78 / 25 < pi" and "pi < 79 / 25"
    by simp_all
  then show ?thesis
    unfolding d abs_le_iff by (intro conjI) linarith+
qed

end
