(* ===== verification/JS_String.thy ===== *)
theory JS_String
  imports Runflow_Prelude "HOL-Library.Sublist"
begin

text \<open>
  The string operations of \<^verbatim>\<open>src/app.js\<close> on transcripts and labels:
  \<^verbatim>\<open>includes\<close>, \<^verbatim>\<open>toLowerCase\<close>, \<^verbatim>\<open>trim\<close> and \<^verbatim>\<open>substring(0, n)\<close>. A string is a list of
  8-bit characters, so the model covers ASCII transcripts (the recogniser runs with
  \<^verbatim>\<open>lang = "en-US"\<close>): \<^verbatim>\<open>toLowerCase\<close> maps \<open>A\<close>-\<open>Z\<close> only and \<^verbatim>\<open>trim\<close> strips the ASCII
  white space. \<open>js_includes\<close> is proved equal to the library's \<open>sublist\<close>.
\<close>

section \<open>Definitions\<close>

text \<open>\<^verbatim>\<open>s.includes(t)\<close>: \<open>t\<close> occurs in \<open>s\<close> as a contiguous block.\<close>

fun js_includes :: "string \<Rightarrow> string \<Rightarrow> bool" where
  "js_includes [] t = (t = [])"
| "js_includes (c # s) t = (prefix t (c # s) \<or> js_includes s t)"

definition lower_char :: "char \<Rightarrow> char" where
  "lower_char c =
     (case map_of (zip ''ABCDEFGHIJKLMNOPQRSTUVWXYZ'' ''abcdefghijklmnopqrstuvwxyz'') c of
        Some d \<Rightarrow> d
      | None \<Rightarrow> c)"

definition toLowerCase :: "string \<Rightarrow> string" where
  "toLowerCase s = map lower_char s"

definition is_space :: "char \<Rightarrow> bool" where
  "is_space c \<longleftrightarrow> c \<in> set [CHR '' '', CHR 0x09, CHR 0x0A, CHR 0x0B, CHR 0x0C, CHR 0x0D]"

definition trim :: "string \<Rightarrow> string" where
  "trim s = rev (dropWhile is_space (rev (dropWhile is_space s)))"

text \<open>\<^verbatim>\<open>s.substring(0, n)\<close>.\<close>

definition substring0 :: "nat \<Rightarrow> string \<Rightarrow> string" where
  "substring0 n s = take n s"

lemmas string_defs [js_defs] = toLowerCase_def lower_char_def trim_def is_space_def substring0_def

section \<open>Substrings\<close>

lemma js_includes_iff_sublist: "js_includes s t \<longleftrightarrow> sublist t s"
  by (induction s) (simp_all add: sublist_Cons_right)

lemma js_includes_Nil [simp]: "js_includes s []"
  by (simp add: js_includes_iff_sublist)

lemma js_includes_self [simp]: "js_includes s s"
  by (simp add: js_includes_iff_sublist)

lemma js_includes_appendI [simp]: "js_includes (p @ t @ q) t"
  by (simp add: js_includes_iff_sublist)

lemma js_includes_length: "js_includes s t \<Longrightarrow> length t \<le> length s"
  by (simp add: js_includes_iff_sublist sublist_length_le)

lemma js_includes_trans: "js_includes s t \<Longrightarrow> js_includes t u \<Longrightarrow> js_includes s u"
  unfolding js_includes_iff_sublist by (rule sublist_order.order.trans)

lemma js_includes_append_left: "js_includes s t \<Longrightarrow> js_includes (p @ s) t"
  unfolding js_includes_iff_sublist sublist_def by (metis append.assoc)

lemma js_includes_append_right: "js_includes s t \<Longrightarrow> js_includes (s @ q) t"
  unfolding js_includes_iff_sublist sublist_def by (metis append.assoc)

lemma js_includes_short: "length s < length t \<Longrightarrow> \<not> js_includes s t"
  using js_includes_length [of s t] by auto

section \<open>Case and white space\<close>

lemma length_toLowerCase [simp]: "length (toLowerCase s) = length s"
  by (simp add: toLowerCase_def)

lemma toLowerCase_Nil [simp]: "toLowerCase [] = []"
  by (simp add: toLowerCase_def)

lemma toLowerCase_append [simp]: "toLowerCase (s @ t) = toLowerCase s @ toLowerCase t"
  by (simp add: toLowerCase_def)

lemma toLowerCase_eq_Nil [simp]: "toLowerCase s = [] \<longleftrightarrow> s = []"
  by (simp add: toLowerCase_def)

lemma lower_char_idem [simp]: "lower_char (lower_char c) = lower_char c"
  by (auto simp: lower_char_def split: if_splits)

lemma toLowerCase_idem [simp]: "toLowerCase (toLowerCase s) = toLowerCase s"
  by (simp add: toLowerCase_def)

lemma toLowerCase_mono_includes:
  "js_includes s t \<Longrightarrow> js_includes (toLowerCase s) (toLowerCase t)"
  unfolding js_includes_iff_sublist toLowerCase_def by (rule map_mono_sublist)

lemma trim_Nil [simp]: "trim [] = []"
  by (simp add: trim_def)

lemma length_trim: "length (trim s) \<le> length s"
proof -
  have "length (dropWhile is_space (rev (dropWhile is_space s))) \<le> length (dropWhile is_space s)"
    using length_dropWhile_le [of is_space "rev (dropWhile is_space s)"] by simp
  also have "\<dots> \<le> length s"
    by (rule length_dropWhile_le)
  finally show ?thesis by (simp add: trim_def)
qed

lemma trim_sublist: "js_includes s (trim s)"
proof -
  have "sublist (dropWhile is_space (rev (dropWhile is_space s))) (rev (dropWhile is_space s))"
    by simp
  then have "sublist (trim s) (dropWhile is_space s)"
    by (simp add: trim_def sublist_rev_left)
  moreover have "sublist (dropWhile is_space s) s"
    by simp
  ultimately show ?thesis
    unfolding js_includes_iff_sublist by (rule sublist_order.order.trans)
qed

lemma trim_no_leading: "trim s \<noteq> [] \<Longrightarrow> \<not> is_space (hd (trim s))"
proof -
  let ?d = "dropWhile is_space s"
  assume ne: "trim s \<noteq> []"
  have d: "?d \<noteq> []"
  proof
    assume "?d = []"
    then have "trim s = []"
      unfolding trim_def by (simp only: rev.simps dropWhile.simps)
    with ne show False ..
  qed
  then have h: "\<not> is_space (hd ?d)" by (rule hd_dropWhile)
  have "\<exists>zs. ?d = trim s @ zs"
  proof -
    have "suffix (dropWhile is_space (rev ?d)) (rev ?d)"
      by (rule suffix_dropWhile)
    then obtain ys where "rev ?d = ys @ dropWhile is_space (rev ?d)"
      by (auto simp: suffix_def)
    then have "?d = rev (dropWhile is_space (rev ?d)) @ rev ys"
      by (metis rev_append rev_rev_ident)
    then show ?thesis by (auto simp: trim_def)
  qed
  then obtain zs where "?d = trim s @ zs" ..
  with ne have "hd ?d = hd (trim s)" by (metis hd_append2)
  with h show ?thesis by simp
qed

text \<open>Lower case and trimming commute, and trimming twice is trimming once.\<close>

lemma is_space_lower_char [simp]: "is_space (lower_char c) = is_space c"
  by (cases c) (auto simp: lower_char_def is_space_def)

lemma trim_toLowerCase: "trim (toLowerCase s) = toLowerCase (trim s)"
  by (simp add: trim_def toLowerCase_def dropWhile_map rev_map comp_def)

lemma trim_idem [simp]: "trim (trim s) = trim s"
proof -
  have "dropWhile is_space (trim s) = trim s"
    using trim_no_leading [of s] by (cases "trim s") simp_all
  then have "trim (trim s) = rev (dropWhile is_space (rev (trim s)))"
    by (simp add: trim_def)
  also have "\<dots> = trim s"
    by (simp add: trim_def)
  finally show ?thesis .
qed

lemma length_substring0 [simp]: "length (substring0 n s) = min (length s) n"
  by (simp add: substring0_def)

lemma substring0_all [simp]: "length s \<le> n \<Longrightarrow> substring0 n s = s"
  by (simp add: substring0_def)

end
