(* ===== verification/App_State.thy ===== *)
theory App_State
  imports JS_Number JS_String
begin

text \<open>
  The state of the application: the module-level variables of \<^verbatim>\<open>src/app.js\<close>
  (lines 13-33) under their own names, and beside them the browser-side resources
  the handlers create and read, which the script holds only by reference: the
  geolocation watches with the \<^verbatim>\<open>lastUpdateTime\<close> variable each callback closes over,
  the speech recognisers, the pending timers, the asynchronous requests in flight,
  the utterances handed to the speech synthesiser, the two \<^verbatim>\<open>localStorage\<close> entries,
  and the parts of the page that guard or display something. All handlers of the
  later theories are functions on this one record, as all functions of the script
  act on the same globals.
\<close>

section \<open>Data\<close>

text \<open>An entry of \<^verbatim>\<open>positions\<close> (lines 243-248, 301-306).\<close>

record position =
  lat :: real
  lon :: real
  time :: ms
  accuracy :: real

text \<open>\<^verbatim>\<open>position.coords\<close> as the geolocation API delivers it.\<close>

record coords =
  latitude :: real
  longitude :: real
  coords_accuracy :: real

text \<open>An entry of \<^verbatim>\<open>conversationHistory\<close> (lines 779-783).\<close>

record turn =
  user :: string
  ai :: string
  turn_time :: ms

text \<open>The fields of an \<^verbatim>\<open>AICoach\<close> object (lines 713-717).\<close>

record coach =
  apiKey :: string
  isOnline :: bool
  conversationHistory :: "turn list"

text \<open>A record of \<^verbatim>\<open>runHistory\<close> (lines 958-963).\<close>

record run =
  date :: ms
  distance :: real
  run_time :: ms
  pace :: string

text \<open>A speech-synthesis voice and an utterance passed to \<^verbatim>\<open>speechSynthesis.speak\<close>.\<close>

record voice =
  voice_lang :: string
  voice_name :: string

record utterance =
  utt_text :: string
  utt_voice :: "voice option"

text \<open>
  A \<^verbatim>\<open>SpeechRecognition\<close> object is idle, listening, or stopping (after \<^verbatim>\<open>stop()\<close>,
  until its \<^verbatim>\<open>end\<close> event); \<^verbatim>\<open>start()\<close> throws unless it is idle. The recogniser of
  a run carries the handlers of \<^verbatim>\<open>startVoiceMonitoring\<close>. The one-shot recogniser that
  the voice button makes carries those of \<^verbatim>\<open>startManualVoiceCommand\<close>; it is never
  stopped or started again, so it is listening (\<open>RecManual\<close>) or idle.
\<close>

datatype rec_phase = RecIdle | RecListening | RecStopping | RecManual

text \<open>The callbacks handed to \<^verbatim>\<open>setTimeout\<close> that touch the state.\<close>

datatype timer_action = RestartVoice | DelayedStop | Tick

text \<open>
  What runs when a request to the assistant settles: the caller's continuation,
  with the values it has captured.
\<close>

datatype ai_cont =
    TestConnection
  | MilestoneReply int string
  | CommandReply string
  | SummaryReply ms

record ai_request =
  prompt :: string
  cont :: ai_cont

text \<open>What the browser offers; fixed during a session of the page.\<close>

record capabilities =
  hasGeolocation :: bool
  hasSpeechSynthesis :: bool
  hasSpeechRecognition :: bool
  hasDeviceMotion :: bool
  motionNeedsPermission :: bool
  voices :: "voice list"
  configApiKey :: "string option"

section \<open>The state\<close>

record app =
  isRunning :: bool
  startTime :: "ms option"
  totalDistance :: km
  positions :: "position list"
  watchId :: "nat option"
  stepCount :: nat
  estimatedDistanceFromSteps :: km
  lastAnnouncedKm :: int
  voiceRecognition :: "nat option"
  wakeLock :: "unit option"
  useAI :: bool
  aiCoach :: "coach option"
  watchers :: "(nat \<times> ms) list"
  nextWatchId :: nat
  recognizers :: "rec_phase list"
  motionListener :: bool
  timers :: "(ms \<times> timer_action) list"
  pendingFix :: nat
  pendingMotionPermission :: nat
  pendingAI :: "ai_request list"
  spoken :: "utterance list"
  runHistory :: "run list"
  aiModePref :: "string option"
  navigatorOnLine :: bool
  caps :: capabilities
  startBtnDisabled :: bool
  stopBtnDisabled :: bool
  voiceBtnDisabled :: bool
  distanceText :: string
  timeText :: string
  paceText :: string
  speedText :: string
  caloriesText :: string

text \<open>The constants of lines 26-29 and the literals of the handlers.\<close>

definition MIN_DISTANCE :: km where "MIN_DISTANCE = 5 / 1000"
definition MAX_SPEED_KPH :: real where "MAX_SPEED_KPH = 25"
definition STEP_LENGTH :: km where "STEP_LENGTH = 75 / 100000"
definition GPS_UPDATE_INTERVAL :: ms where "GPS_UPDATE_INTERVAL = 2000"
definition MAX_ACCURACY :: real where "MAX_ACCURACY = 100"
definition MAX_JUMP :: km where "MAX_JUMP = 1 / 10"
definition WINDOW_CAP :: nat where "WINDOW_CAP = 20"
definition STALE_MS :: ms where "STALE_MS = 5000"
definition NOISE_FLOOR :: km where "NOISE_FLOOR = 1 / 1000"

lemmas const_defs [js_defs] =
  MIN_DISTANCE_def MAX_SPEED_KPH_def STEP_LENGTH_def GPS_UPDATE_INTERVAL_def
  MAX_ACCURACY_def MAX_JUMP_def WINDOW_CAP_def STALE_MS_def NOISE_FLOOR_def

text \<open>
  A page on which nothing has happened yet, in a browser with capabilities \<open>c\<close>:
  the base of the initial state and of the closed examples of the later theories.
  The script sets the state of a button only where it disables or enables one;
  what the markup gives the buttons at load is not part of \<^verbatim>\<open>src\<close>, and all three are
  taken as enabled. For the stop button this is harmless: \<^verbatim>\<open>stopRun\<close> returns at once
  when no run is in progress.
\<close>

definition blank_page :: "capabilities \<Rightarrow> app" where
  "blank_page c =
     \<lparr> isRunning = False, startTime = None, totalDistance = 0, positions = [],
       watchId = None, stepCount = 0, estimatedDistanceFromSteps = 0,
       lastAnnouncedKm = 0, voiceRecognition = None, wakeLock = None,
       useAI = False, aiCoach = None,
       watchers = [], nextWatchId = 0, recognizers = [], motionListener = False,
       timers = [], pendingFix = 0, pendingMotionPermission = 0, pendingAI = [],
       spoken = [], runHistory = [], aiModePref = None, navigatorOnLine = True,
       caps = c,
       startBtnDisabled = False, stopBtnDisabled = False, voiceBtnDisabled = False,
       distanceText = [], timeText = [], paceText = [], speedText = [], caloriesText = [] \<rparr>"

text \<open>
  Loading the script (lines 14-33) gives the module-level variables their initial
  values; the page and the browser-side resources are as they were.
\<close>

definition load_script :: "app \<Rightarrow> app" where
  "load_script s =
     s\<lparr> isRunning := False, startTime := None, totalDistance := 0, positions := [],
        watchId := None, stepCount := 0, estimatedDistanceFromSteps := 0,
        lastAnnouncedKm := 0, voiceRecognition := None, wakeLock := None,
        useAI := True, aiCoach := None \<rparr>"

text \<open>A browser that offers everything, with no voice installed and no API key.\<close>

definition full_caps :: capabilities where
  "full_caps =
     \<lparr> hasGeolocation = True, hasSpeechSynthesis = True, hasSpeechRecognition = True,
       hasDeviceMotion = True, motionNeedsPermission = False, voices = [],
       configApiKey = None \<rparr>"

lemmas fixture_defs = blank_page_def load_script_def full_caps_def

end
