(* ===== verification/Metrics.thy ===== *)
theory Metrics
  imports App_State
begin

text \<open>
  The derived metrics of \<^verbatim>\<open>src/app.js\<close>, lines 910-927: the elapsed time, the pace
  label and the clock label. \<open>pace_fields\<close> names the two numbers the pace label
  prints. Its lemmas show that the label encodes the pace rounded to whole seconds
  per kilometre, that the seconds field lies between 0 and 60, and exactly when it
  reads 60: in the last half second of every minute, because rounding the seconds
  does not carry into the minutes. The clock label of a non-negative duration is minutes and seconds below
  60, each of two digits or more.
\<close>

section \<open>Definitions\<close>

text \<open>
  Lines 910-912. \<^verbatim>\<open>startTime\<close> is \<^verbatim>\<open>null\<close> or a \<^verbatim>\<open>Date\<close> object (line 250), which is
  truthy whatever its value and reads as its time stamp in the subtraction; \<open>now\<close> is
  \<^verbatim>\<open>Date.now()\<close>.
\<close>

definition calculateTimeElapsed :: "ms \<Rightarrow> app \<Rightarrow> ms" where
  "calculateTimeElapsed now s = (case startTime s of Some t \<Rightarrow> now - t | None \<Rightarrow> 0)"

text \<open>Lines 916-918: \<^verbatim>\<open>min\<close> and \<^verbatim>\<open>sec\<close>.\<close>

definition pace_fields :: "km \<Rightarrow> ms \<Rightarrow> int \<times> int" where
  "pace_fields distanceKm timeMs =
     (let minPerKm = real_of_int timeMs / 60000 / distanceKm;
          mins = \<lfloor>minPerKm\<rfloor>;
          sec = js_round ((minPerKm - of_int mins) * 60)
      in (mins, sec))"

text \<open>Lines 914-920.\<close>

definition calculatePace :: "km \<Rightarrow> ms \<Rightarrow> string" where
  "calculatePace distanceKm timeMs =
     (if distanceKm < 1 / 100 then ''0:00''
      else case pace_fields distanceKm timeMs of
             (mins, sec) \<Rightarrow> show_int mins @ '':'' @ padStart 2 CHR ''0'' (show_int sec))"

text \<open>Lines 922-927.\<close>

definition formatTime :: "ms \<Rightarrow> string" where
  "formatTime t =
     (let totalSeconds = \<lfloor>real_of_int t / 1000\<rfloor>;
          minutes = \<lfloor>real_of_int totalSeconds / 60\<rfloor>;
          seconds = js_rem totalSeconds 60
      in padStart 2 CHR ''0'' (show_int minutes) @ '':'' @ padStart 2 CHR ''0'' (show_int seconds))"

lemmas metric_defs [js_defs] = calculatePace_def pace_fields_def formatTime_def

section \<open>Elapsed time\<close>

lemma calculateTimeElapsed_None [simp]: "startTime s = None \<Longrightarrow> calculateTimeElapsed now s = 0"
  by (simp add: calculateTimeElapsed_def)

lemma calculateTimeElapsed_Some [simp]:
  "startTime s = Some t \<Longrightarrow> calculateTimeElapsed now s = now - t"
  by (simp add: calculateTimeElapsed_def)

lemma calculateTimeElapsed_cong:
  "startTime s = startTime s' \<Longrightarrow> calculateTimeElapsed now s = calculateTimeElapsed now s'"
  by (simp add: calculateTimeElapsed_def)

section \<open>Pace\<close>

lemma calculatePace_sentinel: "d < 1 / 100 \<Longrightarrow> calculatePace d t = ''0:00''"
  by (simp add: calculatePace_def)

lemma calculatePace_fields:
  "1 / 100 \<le> d \<Longrightarrow>
   calculatePace d t =
     show_int (fst (pace_fields d t)) @ '':'' @ padStart 2 CHR ''0'' (show_int (snd (pace_fields d t)))"
  by (simp add: calculatePace_def split: prod.split)

lemma pace_fields_sum:
  "60 * fst (pace_fields d t) + snd (pace_fields d t) = js_round (real_of_int t / 1000 / d)"
proof -
  let ?m = "real_of_int t / 60000 / d"
  have "(?m - of_int \<lfloor>?m\<rfloor>) * 60 + 1 / 2 =
      (real_of_int t / 1000 / d + 1 / 2) - of_int (60 * \<lfloor>?m\<rfloor>)"
    by (simp add: algebra_simps)
  then have "js_round ((?m - of_int \<lfloor>?m\<rfloor>) * 60) =
      js_round (real_of_int t / 1000 / d) - 60 * \<lfloor>?m\<rfloor>"
    unfolding js_round_def by (simp only: floor_diff_of_int)
  then show ?thesis by (simp add: pace_fields_def Let_def)
qed

lemma pace_fields_sec_range: "0 \<le> snd (pace_fields d t) \<and> snd (pace_fields d t) \<le> 60"
  using js_round_frac_range [of "real_of_int t / 60000 / d"]
  by (simp add: pace_fields_def Let_def)

lemma pace_fields_min_nonneg: "0 < d \<Longrightarrow> 0 \<le> t \<Longrightarrow> 0 \<le> fst (pace_fields d t)"
  by (simp add: pace_fields_def Let_def)

text \<open>
  C31. Below the distance floor of 0.01 km the pace label is \<^verbatim>\<open>0:00\<close>. From the floor
  on it is the minutes, a colon and the seconds padded to two characters, where
  minutes and seconds together are the pace rounded to whole seconds per kilometre
  and the seconds lie between 0 and 60.
\<close>

theorem calculatePace_rounds_seconds:
  "calculatePace d t =
     (if d < 1 / 100 then ''0:00''
      else show_int (fst (pace_fields d t)) @ '':'' @
           padStart 2 CHR ''0'' (show_int (snd (pace_fields d t)))) \<and>
   60 * fst (pace_fields d t) + snd (pace_fields d t) = js_round (real_of_int t / 1000 / d) \<and>
   0 \<le> snd (pace_fields d t) \<and> snd (pace_fields d t) \<le> 60"
  using pace_fields_sec_range [of d t]
  by (simp add: calculatePace_fields calculatePace_sentinel pace_fields_sum)

theorem calculatePace_rounds_seconds_witness:
  "calculatePace 5 1500000 = ''5:00'' \<and> pace_fields 5 1500000 = (5, 0) \<and>
   calculatePace (1 / 200) 1500000 = ''0:00''"
  using calculatePace_rounds_seconds [of 5 1500000] calculatePace_rounds_seconds [of "1 / 200" 1500000]
  by (simp add: js_defs Let_def)

lemma pace_fields_sixty:
  "snd (pace_fields d t) = 60 \<longleftrightarrow>
     119 / 2 \<le> real_of_int t / 1000 / d - 60 * of_int \<lfloor>real_of_int t / 60000 / d\<rfloor>"
proof -
  let ?m = "real_of_int t / 60000 / d"
  have "(?m - of_int \<lfloor>?m\<rfloor>) * 60 = real_of_int t / 1000 / d - 60 * of_int \<lfloor>?m\<rfloor>"
    by (simp add: algebra_simps)
  moreover have "?m - of_int \<lfloor>?m\<rfloor> < 1"
    by linarith
  ultimately show ?thesis
    unfolding pace_fields_def Let_def js_round_def snd_conv by (simp add: floor_eq_iff) linarith
qed

text \<open>
  C37. The seconds field reads 60 exactly when the pace lies in the last half
  second of a minute, and the label is then the minutes followed by \<^verbatim>\<open>:60\<close>: the
  rounded seconds are not carried into the minutes. A kilometre in 299.99 s is
  labelled \<^verbatim>\<open>4:60\<close>.
\<close>

theorem calculatePace_sixty_seconds:
  assumes "1 / 100 \<le> d"
  shows "(snd (pace_fields d t) = 60 \<longleftrightarrow>
      119 / 2 \<le> real_of_int t / 1000 / d - 60 * of_int \<lfloor>real_of_int t / 60000 / d\<rfloor>) \<and>
    (snd (pace_fields d t) = 60 \<longrightarrow>
      calculatePace d t = show_int \<lfloor>real_of_int t / 60000 / d\<rfloor> @ '':60'')"
proof (intro conjI impI)
  show "snd (pace_fields d t) = 60 \<longleftrightarrow>
      119 / 2 \<le> real_of_int t / 1000 / d - 60 * of_int \<lfloor>real_of_int t / 60000 / d\<rfloor>"
    by (rule pace_fields_sixty)
next
  assume sec: "snd (pace_fields d t) = 60"
  have "fst (pace_fields d t) = \<lfloor>real_of_int t / 60000 / d\<rfloor>"
    by (simp add: pace_fields_def Let_def)
  moreover have "padStart 2 CHR ''0'' (show_int 60) = ''60''"
    by (simp add: show_int_def padStart_def)
  ultimately show "calculatePace d t = show_int \<lfloor>real_of_int t / 60000 / d\<rfloor> @ '':60''"
    using assms by (simp add: calculatePace_fields sec)
qed

theorem calculatePace_sixty_seconds_witness: "calculatePace 1 299990 = ''4:60''"
proof -
  have "(119 / 2 :: real) \<le> real_of_int 299990 / 1000 / 1 - 60 * of_int \<lfloor>real_of_int 299990 / 60000 / (1::real)\<rfloor>"
    by simp
  with calculatePace_sixty_seconds [of 1 299990] show ?thesis
    by (simp add: show_int_def)
qed

section \<open>Clock label\<close>

lemma formatTime_nonneg:
  assumes "0 \<le> t"
  shows "formatTime t =
    padStart 2 CHR ''0'' (show_nat (nat (t div 60000))) @ '':'' @
    padStart 2 CHR ''0'' (show_nat (nat (t div 1000 mod 60)))"
proof -
  have 1: "\<lfloor>real_of_int t / 1000\<rfloor> = t div 1000"
    by simp
  have 2: "\<lfloor>real_of_int (t div 1000) / 60\<rfloor> = t div 60000"
    using zdiv_zmult2_eq [of 60 t 1000] by simp
  from assms have 3: "0 \<le> t div 1000" "0 \<le> t div 60000"
    by (simp_all add: pos_imp_zdiv_nonneg_iff)
  then show ?thesis
    unfolding formatTime_def Let_def 1 2 by (simp add: show_int_nonneg)
qed

lemma length_pad2_show_nat_ge: "2 \<le> length (padStart 2 c (show_nat n))"
  by (simp add: length_padStart)

text \<open>
  For a non-negative duration the clock label is the whole minutes, a colon
  and the seconds of the last minute (below 60), each padded to two digits; for
  less than 100 minutes it has exactly five characters.
\<close>

theorem formatTime_minutes_seconds:
  assumes "0 \<le> t"
  shows "formatTime t =
      padStart 2 CHR ''0'' (show_nat (nat (t div 60000))) @ '':'' @
      padStart 2 CHR ''0'' (show_nat (nat (t div 1000 mod 60))) \<and>
    nat (t div 1000 mod 60) < 60 \<and>
    (t < 6000000 \<longrightarrow> length (formatTime t) = 5)"
proof -
  have s: "nat (t div 1000 mod 60) < 60"
    by simp
  moreover have "length (formatTime t) = 5" if "t < 6000000"
  proof -
    from that assms have "nat (t div 60000) < 100" by simp
    with s show ?thesis
      by (simp add: formatTime_nonneg [OF assms] length_padStart2_show_nat)
  qed
  ultimately show ?thesis
    using formatTime_nonneg [OF assms] by simp
qed

theorem formatTime_minutes_seconds_witness:
  "(0::int) \<le> 1500000 \<and> formatTime 1500000 = ''25:00'' \<and> length (formatTime 1500000) = 5"
  using formatTime_minutes_seconds [of 1500000]
  by (simp add: js_defs Let_def)

end
