(* ===== verification/Speech.thy ===== *)
theory Speech
  imports App_State
begin

text \<open>
  Speech output, \<^verbatim>\<open>speak\<close> of \<^verbatim>\<open>src/app.js\<close> (lines 929-954). The synthesiser is
  outside the model; what the script does to it is recorded: every call appends
  the utterance, with the voice chosen for it, to \<open>spoken\<close>. Since each call
  cancels the speech in progress first, the utterance that can be heard is the
  last one of the list (\<open>audible\<close>).
\<close>

section \<open>Definitions\<close>

text \<open>
  Lines 944-951: the first English voice named female, else the first English
  voice, else the first voice; no voice is set when none is installed.
\<close>

definition preferredVoice :: "voice list \<Rightarrow> voice option" where
  "preferredVoice vs =
     (case find (\<lambda>v. js_includes (voice_lang v) ''en'' \<and> js_includes (voice_name v) ''Female'') vs of
        Some v \<Rightarrow> Some v
      | None \<Rightarrow>
          (case find (\<lambda>v. js_includes (voice_lang v) ''en'') vs of
             Some v \<Rightarrow> Some v
           | None \<Rightarrow> (case vs of [] \<Rightarrow> None | v # _ \<Rightarrow> Some v)))"

definition speak :: "string \<Rightarrow> app \<Rightarrow> app" where
  "speak text s =
     (if \<not> hasSpeechSynthesis (caps s) then s
      else s\<lparr>spoken := spoken s @
             [\<lparr>utt_text = text, utt_voice = preferredVoice (voices (caps s))\<rparr>]\<rparr>)"

text \<open>What is being said: the text of the utterance that cancelled all others.\<close>

definition audible :: "app \<Rightarrow> string option" where
  "audible s = map_option utt_text (last_opt (spoken s))"

text \<open>The texts handed to the synthesiser, in order.\<close>

definition said :: "app \<Rightarrow> string list" where
  "said s = map utt_text (spoken s)"

lemmas speech_defs [handler_defs] = speak_def

section \<open>Voice selection\<close>

lemma preferredVoice_Nil [simp]: "preferredVoice [] = None"
  by (simp add: preferredVoice_def)

lemma preferredVoice_member: "preferredVoice vs = Some v \<Longrightarrow> v \<in> set vs"
  by (auto simp: preferredVoice_def find_Some_iff split: option.splits list.splits)

lemma preferredVoice_Some: "vs \<noteq> [] \<Longrightarrow> \<exists>v. preferredVoice vs = Some v"
  by (cases vs) (auto simp: preferredVoice_def split: option.splits)

lemma preferredVoice_english:
  "\<exists>v \<in> set vs. js_includes (voice_lang v) ''en'' \<Longrightarrow>
   \<exists>v. preferredVoice vs = Some v \<and> js_includes (voice_lang v) ''en''"
  by (auto simp: preferredVoice_def find_Some_iff find_None_iff split: option.splits)

section \<open>What \<open>speak\<close> changes\<close>

lemma said_speak:
  "said (speak text s) = (if hasSpeechSynthesis (caps s) then said s @ [text] else said s)"
  by (simp add: said_def speak_def)

lemma audible_speak: "hasSpeechSynthesis (caps s) \<Longrightarrow> audible (speak text s) = Some text"
  by (simp add: audible_def speak_def)

lemma speak_frame [frame, simp]:
  "isRunning (speak text s) = isRunning s"
  "startTime (speak text s) = startTime s"
  "totalDistance (speak text s) = totalDistance s"
  "positions (speak text s) = positions s"
  "watchId (speak text s) = watchId s"
  "stepCount (speak text s) = stepCount s"
  "estimatedDistanceFromSteps (speak text s) = estimatedDistanceFromSteps s"
  "lastAnnouncedKm (speak text s) = lastAnnouncedKm s"
  "voiceRecognition (speak text s) = voiceRecognition s"
  "wakeLock (speak text s) = wakeLock s"
  "useAI (speak text s) = useAI s"
  "aiCoach (speak text s) = aiCoach s"
  "watchers (speak text s) = watchers s"
  "nextWatchId (speak text s) = nextWatchId s"
  "recognizers (speak text s) = recognizers s"
  "motionListener (speak text s) = motionListener s"
  "timers (speak text s) = timers s"
  "pendingFix (speak text s) = pendingFix s"
  "pendingMotionPermission (speak text s) = pendingMotionPermission s"
  "pendingAI (speak text s) = pendingAI s"
  "runHistory (speak text s) = runHistory s"
  "aiModePref (speak text s) = aiModePref s"
  "navigatorOnLine (speak text s) = navigatorOnLine s"
  "caps (speak text s) = caps s"
  "startBtnDisabled (speak text s) = startBtnDisabled s"
  "stopBtnDisabled (speak text s) = stopBtnDisabled s"
  "voiceBtnDisabled (speak text s) = voiceBtnDisabled s"
  "distanceText (speak text s) = distanceText s"
  "timeText (speak text s) = timeText s"
  "paceText (speak text s) = paceText s"
  "speedText (speak text s) = speedText s"
  "caloriesText (speak text s) = caloriesText s"
  by (simp_all add: speak_def)

lemma length_spoken_speak:
  "length (spoken (speak text s)) = length (spoken s) + (if hasSpeechSynthesis (caps s) then 1 else 0)"
  by (simp add: speak_def)

end
