(* ===== verification/AICoach.thy ===== *)
theory AICoach
  imports Metrics Speech
begin

text \<open>
  The assistant gateway, class \<^verbatim>\<open>AICoach\<close> of \<^verbatim>\<open>src/app.js\<close> (lines 712-841).
  The HTTP exchange itself is outside the model. A query is modelled in the two
  parts the \<^verbatim>\<open>await\<close> separates: \<open>queryGemini_begin\<close> is what runs before the request
  is sent (the two checks that throw), \<open>queryGemini_settle\<close> what runs when the
  response, or the failure, has arrived: the checks on the response, and on success
  the entry in the conversation history, which keeps the last ten turns. The
  prompts are the script's templates, character by character.
\<close>

section \<open>Definitions\<close>

text \<open>The conditions under which \<^verbatim>\<open>queryGemini\<close> rejects.\<close>

datatype ai_error = NoInternet | NoApiKey | ApiError nat string | InvalidFormat | FetchFailed

text \<open>
  What \<^verbatim>\<open>fetch\<close> and \<^verbatim>\<open>response.json()\<close> deliver: a network failure, a status that is
  not \<^verbatim>\<open>ok\<close> with the body text, or a parsed body, which has the text of the first
  candidate or lacks it.
\<close>

datatype fetch_result = NetworkDown | HttpStatus nat string | Body "string option"

definition HISTORY_CAP :: nat where "HISTORY_CAP = 10"

text \<open>Lines 733-739.\<close>

definition queryGemini_begin :: "coach \<Rightarrow> ai_error + unit" where
  "queryGemini_begin c =
     (if \<not> isOnline c then Inl NoInternet
      else if apiKey c = [] then Inl NoApiKey
      else Inr ())"

text \<open>
  Lines 765-794. An empty text is falsy, so it counts as an invalid response;
  a text of white space only passes the check and is trimmed to the empty string.
\<close>

definition queryGemini_settle :: "ms \<Rightarrow> string \<Rightarrow> fetch_result \<Rightarrow> coach \<Rightarrow> (ai_error + string) \<times> coach" where
  "queryGemini_settle now p r c =
     (case r of
        NetworkDown \<Rightarrow> (Inl FetchFailed, c)
      | HttpStatus code body \<Rightarrow> (Inl (ApiError code body), c)
      | Body None \<Rightarrow> (Inl InvalidFormat, c)
      | Body (Some t) \<Rightarrow>
          if t = [] then (Inl InvalidFormat, c)
          else let aiResponse = trim t
               in (Inr aiResponse,
                   c\<lparr>conversationHistory :=
                       push_shift HISTORY_CAP
                         \<lparr>user = substring0 100 p, ai = aiResponse, turn_time = now\<rparr>
                         (conversationHistory c)\<rparr>))"

text \<open>Lines 834-840.\<close>

definition getStatsText :: "km \<Rightarrow> ms \<Rightarrow> bool \<Rightarrow> string" where
  "getStatsText d t running =
     ''Distance: '' @ toFixed 2 d @ '' km, Time: '' @ formatTime t @ '', Pace: '' @
     calculatePace d t @ ''/km, Status: '' @ (if running then ''Running'' else ''Stopped'')"

text \<open>Lines 800-814.\<close>

definition handleCommand_prompt :: "string \<Rightarrow> string \<Rightarrow> string" where
  "handleCommand_prompt stats command =

     ''You are Coach Flow, an enthusiastic AI running coach. Be motivational, concise, and helpful.'' @
     [CHR 0x0A] @ [CHR 0x0A] @ ''Current run stats: '' @ stats @ [CHR 0x0A] @ [CHR 0x0A] @
     ''User says: '' @ [CHR 0x22] @ command @ [CHR 0x22] @ [CHR 0x0A] @ [CHR 0x0A] @
     ''Important rules:'' @ [CHR 0x0A] @
     ''1. If user wants to stop/end the run, respond with exactly: '' @ [CHR 0x22] @
     ''Stopping your run now! Great job today!'' @ [CHR 0x22] @ [CHR 0x0A] @
     ''2. If asking for distance/pace/time, include the exact numbers from stats above'' @
     [CHR 0x0A] @ ''3. Keep responses under 2 sentences'' @ [CHR 0x0A] @
     ''4. Be positive and encouraging'' @ [CHR 0x0A] @
     ''5. If user asks for advice, give specific, actionable tips'' @ [CHR 0x0A] @
     ''6. End with a motivational phrase or emoji if appropriate'' @ [CHR 0x0A] @ [CHR 0x0A] @
     ''Response:''"

text \<open>Lines 797-817: the prompt \<^verbatim>\<open>handleCommand\<close> sends for a command in a context.\<close>

definition handleCommand :: "string \<Rightarrow> km \<Rightarrow> ms \<Rightarrow> bool \<Rightarrow> string" where
  "handleCommand command d t running = handleCommand_prompt (getStatsText d t running) command"

text \<open>Lines 819-832: the prompt of \<^verbatim>\<open>getRunSummary\<close>.\<close>

definition getRunSummary :: "km \<Rightarrow> ms \<Rightarrow> string \<Rightarrow> string" where
  "getRunSummary d t p =
     ''The user just completed a run. Give a motivational summary.'' @ [CHR 0x0A] @
     [CHR 0x0A] @ ''Run completed:'' @ [CHR 0x0A] @ ''- Distance: '' @ toFixed 2 d @ '' km'' @
     [CHR 0x0A] @ ''- Time: '' @ formatTime t @ [CHR 0x0A] @ ''- Pace: '' @ p @ '' per km'' @
     [CHR 0x0A] @ [CHR 0x0A] @ ''Give a 2-sentence summary that'' @ [CHR 0x27] @
     ''s positive and encouraging. Include a fun fact or achievement if appropriate. End with a motivational phrase.'' @
     [CHR 0x0A] @ [CHR 0x0A] @ ''Summary:''"

text \<open>Lines 720-730: the coach's own network listeners.\<close>

definition coach_online :: "bool \<Rightarrow> coach \<Rightarrow> coach" where
  "coach_online b c = c\<lparr>isOnline := b\<rparr>"

text \<open>Lines 713-718: the constructor.\<close>

definition new_coach :: "string \<Rightarrow> bool \<Rightarrow> coach" where
  "new_coach key online = \<lparr>apiKey = key, isOnline = online, conversationHistory = []\<rparr>"

lemmas coach_defs [handler_defs] =
  queryGemini_begin_def queryGemini_settle_def coach_online_def new_coach_def

section \<open>Before the request\<close>

lemma queryGemini_begin_ok:
  "queryGemini_begin c = Inr () \<longleftrightarrow> isOnline c \<and> apiKey c \<noteq> []"
  by (simp add: queryGemini_begin_def)

lemma queryGemini_begin_offline: "\<not> isOnline c \<Longrightarrow> queryGemini_begin c = Inl NoInternet"
  by (simp add: queryGemini_begin_def)

section \<open>When the response arrives\<close>

lemma queryGemini_settle_fields [simp]:
  "apiKey (snd (queryGemini_settle now p r c)) = apiKey c"
  "isOnline (snd (queryGemini_settle now p r c)) = isOnline c"
  by (simp_all add: queryGemini_settle_def Let_def split: fetch_result.split option.split)

lemma queryGemini_settle_error:
  "fst (queryGemini_settle now p r c) = Inl e \<Longrightarrow> snd (queryGemini_settle now p r c) = c"
  by (auto simp: queryGemini_settle_def Let_def split: fetch_result.splits option.splits if_splits)

lemma queryGemini_settle_success:
  "fst (queryGemini_settle now p r c) = Inr a \<longleftrightarrow> (\<exists>t. r = Body (Some t) \<and> t \<noteq> [] \<and> a = trim t)"
  by (auto simp: queryGemini_settle_def Let_def split: fetch_result.splits option.splits)

lemma queryGemini_settle_history:
  "fst (queryGemini_settle now p r c) = Inr a \<Longrightarrow>
   conversationHistory (snd (queryGemini_settle now p r c)) =
     push_shift HISTORY_CAP \<lparr>user = substring0 100 p, ai = a, turn_time = now\<rparr> (conversationHistory c)"
  by (auto simp: queryGemini_settle_def Let_def split: fetch_result.splits option.splits if_splits)

lemma queryGemini_settle_length:
  "length (conversationHistory c) \<le> HISTORY_CAP \<Longrightarrow>
   length (conversationHistory (snd (queryGemini_settle now p r c))) \<le> HISTORY_CAP"
  by (auto simp: queryGemini_settle_def Let_def length_push_shift_le
      split: fetch_result.splits option.splits)

section \<open>Prompts\<close>

lemma handleCommand_prompt_prefix:
  "\<exists>rest. handleCommand_prompt stats command =
     ''You are Coach Flow, an enthusiastic AI running coach. Be motivational, concise, and helpful.'' @
     [CHR 0x0A, CHR 0x0A] @ ''Current'' @ rest"
  by (simp add: handleCommand_prompt_def)

end
