(* ===== verification/Display.thy ===== *)
theory Display
  imports AICoach
begin

text \<open>
  The display refresh and the kilometre announcements of \<^verbatim>\<open>src/app.js\<close>:
  \<^verbatim>\<open>updateUI\<close> (lines 846-873), \<^verbatim>\<open>checkAudioCues\<close> (876-901) and \<^verbatim>\<open>speakBasicMilestone\<close>
  (903-907). Every handler takes the value of \<^verbatim>\<open>Date.now()\<close> as its argument \<open>now\<close>; a
  handler runs to its end at one instant.

  A call to the assistant is split at its \<^verbatim>\<open>await\<close>: the caller runs \<open>queryGemini_begin\<close>
  and, if that does not throw, leaves a request with its continuation in \<open>pendingAI\<close>;
  the continuation runs when the request settles (theory \<open>Session\<close>). The lemmas show
  what a refresh leaves alone, that an announcement is made exactly when a whole
  kilometre above the last announced one has been reached, that it is made once,
  and that while the run lasts \<open>lastAnnouncedKm\<close> is the whole part of the distance.
\<close>

section \<open>Definitions\<close>

text \<open>Lines 903-907.\<close>

definition speakBasicMilestone :: "int \<Rightarrow> string \<Rightarrow> app \<Rightarrow> app" where
  "speakBasicMilestone k p s =
     speak (show_int k @ '' kilometer'' @ (if k > 1 then ''s'' else []) @
            '' completed! Current pace: '' @ p @ ''.'') s"

text \<open>A request that has passed the checks of \<^verbatim>\<open>queryGemini\<close> waits for its response.\<close>

definition enqueue_query :: "string \<Rightarrow> ai_cont \<Rightarrow> app \<Rightarrow> app" where
  "enqueue_query p k s = s\<lparr>pendingAI := pendingAI s @ [\<lparr>prompt = p, cont = k\<rparr>]\<rparr>"

text \<open>Line 888: the command sent for a milestone.\<close>

definition milestone_command :: "int \<Rightarrow> string" where
  "milestone_command k = ''I just reached '' @ show_int k @ '' kilometers''"

text \<open>
  Lines 885-897: the announcement of kilometre \<open>k\<close>. When the call is rejected
  before the request is sent, the \<^verbatim>\<open>catch\<close> handler speaks the basic announcement; it
  runs once the handler has ended, and the assignment to \<^verbatim>\<open>lastAnnouncedKm\<close> that
  precedes it touches nothing it reads.
\<close>

definition announce :: "ms \<Rightarrow> int \<Rightarrow> string \<Rightarrow> app \<Rightarrow> app" where
  "announce now k p s =
     (case aiCoach s of
        Some c \<Rightarrow>
          if useAI s \<and> isOnline c then
            (case queryGemini_begin c of
               Inr _ \<Rightarrow>
                 enqueue_query
                   (handleCommand (milestone_command k) (totalDistance s)
                      (calculateTimeElapsed now s) True)
                   (MilestoneReply k p) s
             | Inl _ \<Rightarrow> speakBasicMilestone k p s)
          else speakBasicMilestone k p s
      | None \<Rightarrow> speakBasicMilestone k p s)"

text \<open>Lines 876-901.\<close>

definition checkAudioCues :: "ms \<Rightarrow> app \<Rightarrow> app" where
  "checkAudioCues now s =
     (if \<not> isRunning s then s
      else
        let currentKm = \<lfloor>totalDistance s\<rfloor> in
        if currentKm > lastAnnouncedKm s \<and> currentKm > 0 then
          let p = calculatePace (totalDistance s) (calculateTimeElapsed now s)
          in (announce now currentKm p s)\<lparr>lastAnnouncedKm := currentKm\<rparr>
        else s)"

text \<open>Lines 861-863: the speed label.\<close>

definition speed_label :: "km \<Rightarrow> ms \<Rightarrow> string" where
  "speed_label d t =
     (let hours = real_of_int t / 3600000;
          speed = (if hours > 0 then d / hours else 0)
      in toFixed 1 speed)"

text \<open>Lines 846-873.\<close>

definition updateUI :: "ms \<Rightarrow> app \<Rightarrow> app" where
  "updateUI now s =
     (let s1 = s\<lparr>distanceText := toFixed 2 (totalDistance s)\<rparr>;
          s2 = (case startTime s1 of
                  None \<Rightarrow> s1
                | Some _ \<Rightarrow>
                    let t = calculateTimeElapsed now s1;
                        s2 = s1\<lparr>timeText := formatTime t\<rparr>
                    in if totalDistance s2 > 1 / 100 then
                         s2\<lparr>paceText := calculatePace (totalDistance s2) t,
                            speedText := speed_label (totalDistance s2) t,
                            caloriesText := show_int (js_round (totalDistance s2 * 60))\<rparr>
                       else s2)
      in checkAudioCues now s2)"

text \<open>
  The announcement \<^verbatim>\<open>checkAudioCues\<close> is about to make: the kilometre reached,
  if there is one to announce.
\<close>

definition due_milestone :: "app \<Rightarrow> int option" where
  "due_milestone s =
     (if isRunning s \<and> \<lfloor>totalDistance s\<rfloor> > lastAnnouncedKm s \<and> \<lfloor>totalDistance s\<rfloor> > 0
      then Some \<lfloor>totalDistance s\<rfloor> else None)"

lemmas display_defs [handler_defs] =
  speakBasicMilestone_def enqueue_query_def announce_def checkAudioCues_def updateUI_def

section \<open>What the announcements leave alone\<close>

lemma speakBasicMilestone_frame [frame, simp]:
  "isRunning (speakBasicMilestone k p s) = isRunning s"
  "startTime (speakBasicMilestone k p s) = startTime s"
  "totalDistance (speakBasicMilestone k p s) = totalDistance s"
  "positions (speakBasicMilestone k p s) = positions s"
  "watchId (speakBasicMilestone k p s) = watchId s"
  "stepCount (speakBasicMilestone k p s) = stepCount s"
  "estimatedDistanceFromSteps (speakBasicMilestone k p s) = estimatedDistanceFromSteps s"
  "lastAnnouncedKm (speakBasicMilestone k p s) = lastAnnouncedKm s"
  "voiceRecognition (speakBasicMilestone k p s) = voiceRecognition s"
  "wakeLock (speakBasicMilestone k p s) = wakeLock s"
  "useAI (speakBasicMilestone k p s) = useAI s"
  "aiCoach (speakBasicMilestone k p s) = aiCoach s"
  "watchers (speakBasicMilestone k p s) = watchers s"
  "nextWatchId (speakBasicMilestone k p s) = nextWatchId s"
  "recognizers (speakBasicMilestone k p s) = recognizers s"
  "motionListener (speakBasicMilestone k p s) = motionListener s"
  "timers (speakBasicMilestone k p s) = timers s"
  "pendingFix (speakBasicMilestone k p s) = pendingFix s"
  "pendingMotionPermission (speakBasicMilestone k p s) = pendingMotionPermission s"
  "pendingAI (speakBasicMilestone k p s) = pendingAI s"
  "runHistory (speakBasicMilestone k p s) = runHistory s"
  "aiModePref (speakBasicMilestone k p s) = aiModePref s"
  "navigatorOnLine (speakBasicMilestone k p s) = navigatorOnLine s"
  "caps (speakBasicMilestone k p s) = caps s"
  "startBtnDisabled (speakBasicMilestone k p s) = startBtnDisabled s"
  "stopBtnDisabled (speakBasicMilestone k p s) = stopBtnDisabled s"
  "voiceBtnDisabled (speakBasicMilestone k p s) = voiceBtnDisabled s"
  "distanceText (speakBasicMilestone k p s) = distanceText s"
  "timeText (speakBasicMilestone k p s) = timeText s"
  "paceText (speakBasicMilestone k p s) = paceText s"
  "speedText (speakBasicMilestone k p s) = speedText s"
  "caloriesText (speakBasicMilestone k p s) = caloriesText s"
  by (simp_all add: speakBasicMilestone_def)

lemma enqueue_query_frame [frame, simp]:
  "isRunning (enqueue_query p k s) = isRunning s"
  "startTime (enqueue_query p k s) = startTime s"
  "totalDistance (enqueue_query p k s) = totalDistance s"
  "positions (enqueue_query p k s) = positions s"
  "watchId (enqueue_query p k s) = watchId s"
  "stepCount (enqueue_query p k s) = stepCount s"
  "estimatedDistanceFromSteps (enqueue_query p k s) = estimatedDistanceFromSteps s"
  "lastAnnouncedKm (enqueue_query p k s) = lastAnnouncedKm s"
  "voiceRecognition (enqueue_query p k s) = voiceRecognition s"
  "wakeLock (enqueue_query p k s) = wakeLock s"
  "useAI (enqueue_query p k s) = useAI s"
  "aiCoach (enqueue_query p k s) = aiCoach s"
  "watchers (enqueue_query p k s) = watchers s"
  "nextWatchId (enqueue_query p k s) = nextWatchId s"
  "recognizers (enqueue_query p k s) = recognizers s"
  "motionListener (enqueue_query p k s) = motionListener s"
  "timers (enqueue_query p k s) = timers s"
  "pendingFix (enqueue_query p k s) = pendingFix s"
  "pendingMotionPermission (enqueue_query p k s) = pendingMotionPermission s"
  "spoken (enqueue_query p k s) = spoken s"
  "runHistory (enqueue_query p k s) = runHistory s"
  "aiModePref (enqueue_query p k s) = aiModePref s"
  "navigatorOnLine (enqueue_query p k s) = navigatorOnLine s"
  "caps (enqueue_query p k s) = caps s"
  "startBtnDisabled (enqueue_query p k s) = startBtnDisabled s"
  "stopBtnDisabled (enqueue_query p k s) = stopBtnDisabled s"
  "voiceBtnDisabled (enqueue_query p k s) = voiceBtnDisabled s"
  "distanceText (enqueue_query p k s) = distanceText s"
  "timeText (enqueue_query p k s) = timeText s"
  "paceText (enqueue_query p k s) = paceText s"
  "speedText (enqueue_query p k s) = speedText s"
  "caloriesText (enqueue_query p k s) = caloriesText s"
  by (simp_all add: enqueue_query_def)

lemma announce_frame [frame, simp]:
  "isRunning (announce now k p s) = isRunning s"
  "startTime (announce now k p s) = startTime s"
  "totalDistance (announce now k p s) = totalDistance s"
  "positions (announce now k p s) = positions s"
  "watchId (announce now k p s) = watchId s"
  "stepCount (announce now k p s) = stepCount s"
  "estimatedDistanceFromSteps (announce now k p s) = estimatedDistanceFromSteps s"
  "lastAnnouncedKm (announce now k p s) = lastAnnouncedKm s"
  "voiceRecognition (announce now k p s) = voiceRecognition s"
  "wakeLock (announce now k p s) = wakeLock s"
  "useAI (announce now k p s) = useAI s"
  "aiCoach (announce now k p s) = aiCoach s"
  "watchers (announce now k p s) = watchers s"
  "nextWatchId (announce now k p s) = nextWatchId s"
  "recognizers (announce now k p s) = recognizers s"
  "motionListener (announce now k p s) = motionListener s"
  "timers (announce now k p s) = timers s"
  "pendingFix (announce now k p s) = pendingFix s"
  "pendingMotionPermission (announce now k p s) = pendingMotionPermission s"
  "runHistory (announce now k p s) = runHistory s"
  "aiModePref (announce now k p s) = aiModePref s"
  "navigatorOnLine (announce now k p s) = navigatorOnLine s"
  "caps (announce now k p s) = caps s"
  "startBtnDisabled (announce now k p s) = startBtnDisabled s"
  "stopBtnDisabled (announce now k p s) = stopBtnDisabled s"
  "voiceBtnDisabled (announce now k p s) = voiceBtnDisabled s"
  "distanceText (announce now k p s) = distanceText s"
  "timeText (announce now k p s) = timeText s"
  "paceText (announce now k p s) = paceText s"
  "speedText (announce now k p s) = speedText s"
  "caloriesText (announce now k p s) = caloriesText s"
  by (simp_all add: announce_def split: option.split sum.split)

lemma checkAudioCues_cases:
  "checkAudioCues now s =
     (case due_milestone s of
        None \<Rightarrow> s
      | Some k \<Rightarrow>
          (announce now k (calculatePace (totalDistance s) (calculateTimeElapsed now s)) s)
            \<lparr>lastAnnouncedKm := k\<rparr>)"
  by (simp add: checkAudioCues_def due_milestone_def Let_def)

lemma checkAudioCues_idle: "due_milestone s = None \<Longrightarrow> checkAudioCues now s = s"
  by (simp add: checkAudioCues_cases)

lemma checkAudioCues_frame [frame, simp]:
  "isRunning (checkAudioCues now s) = isRunning s"
  "startTime (checkAudioCues now s) = startTime s"
  "totalDistance (checkAudioCues now s) = totalDistance s"
  "positions (checkAudioCues now s) = positions s"
  "watchId (checkAudioCues now s) = watchId s"
  "stepCount (checkAudioCues now s) = stepCount s"
  "estimatedDistanceFromSteps (checkAudioCues now s) = estimatedDistanceFromSteps s"
  "voiceRecognition (checkAudioCues now s) = voiceRecognition s"
  "wakeLock (checkAudioCues now s) = wakeLock s"
  "useAI (checkAudioCues now s) = useAI s"
  "aiCoach (checkAudioCues now s) = aiCoach s"
  "watchers (checkAudioCues now s) = watchers s"
  "nextWatchId (checkAudioCues now s) = nextWatchId s"
  "recognizers (checkAudioCues now s) = recognizers s"
  "motionListener (checkAudioCues now s) = motionListener s"
  "timers (checkAudioCues now s) = timers s"
  "pendingFix (checkAudioCues now s) = pendingFix s"
  "pendingMotionPermission (checkAudioCues now s) = pendingMotionPermission s"
  "runHistory (checkAudioCues now s) = runHistory s"
  "aiModePref (checkAudioCues now s) = aiModePref s"
  "navigatorOnLine (checkAudioCues now s) = navigatorOnLine s"
  "caps (checkAudioCues now s) = caps s"
  "startBtnDisabled (checkAudioCues now s) = startBtnDisabled s"
  "stopBtnDisabled (checkAudioCues now s) = stopBtnDisabled s"
  "voiceBtnDisabled (checkAudioCues now s) = voiceBtnDisabled s"
  "distanceText (checkAudioCues now s) = distanceText s"
  "timeText (checkAudioCues now s) = timeText s"
  "paceText (checkAudioCues now s) = paceText s"
  "speedText (checkAudioCues now s) = speedText s"
  "caloriesText (checkAudioCues now s) = caloriesText s"
  by (simp_all add: checkAudioCues_cases split: option.split)

lemma updateUI_frame [frame, simp]:
  "isRunning (updateUI now s) = isRunning s"
  "startTime (updateUI now s) = startTime s"
  "totalDistance (updateUI now s) = totalDistance s"
  "positions (updateUI now s) = positions s"
  "watchId (updateUI now s) = watchId s"
  "stepCount (updateUI now s) = stepCount s"
  "estimatedDistanceFromSteps (updateUI now s) = estimatedDistanceFromSteps s"
  "voiceRecognition (updateUI now s) = voiceRecognition s"
  "wakeLock (updateUI now s) = wakeLock s"
  "useAI (updateUI now s) = useAI s"
  "aiCoach (updateUI now s) = aiCoach s"
  "watchers (updateUI now s) = watchers s"
  "nextWatchId (updateUI now s) = nextWatchId s"
  "recognizers (updateUI now s) = recognizers s"
  "motionListener (updateUI now s) = motionListener s"
  "timers (updateUI now s) = timers s"
  "pendingFix (updateUI now s) = pendingFix s"
  "pendingMotionPermission (updateUI now s) = pendingMotionPermission s"
  "runHistory (updateUI now s) = runHistory s"
  "aiModePref (updateUI now s) = aiModePref s"
  "navigatorOnLine (updateUI now s) = navigatorOnLine s"
  "caps (updateUI now s) = caps s"
  "startBtnDisabled (updateUI now s) = startBtnDisabled s"
  "stopBtnDisabled (updateUI now s) = stopBtnDisabled s"
  "voiceBtnDisabled (updateUI now s) = voiceBtnDisabled s"
  by (simp_all add: updateUI_def Let_def split: option.split)

section \<open>Refreshing the labels\<close>

lemma updateUI_not_running: "\<not> isRunning s \<Longrightarrow> spoken (updateUI now s) = spoken s"
  by (simp add: updateUI_def checkAudioCues_def Let_def split: option.split)

lemma updateUI_distanceText [simp]: "distanceText (updateUI now s) = toFixed 2 (totalDistance s)"
  by (simp add: updateUI_def Let_def split: option.split)

lemma updateUI_timeText:
  "startTime s = Some t \<Longrightarrow> timeText (updateUI now s) = formatTime (now - t)"
  by (simp add: updateUI_def Let_def)

lemma updateUI_before_start:
  "startTime s = None \<Longrightarrow> updateUI now s = checkAudioCues now (s\<lparr>distanceText := toFixed 2 (totalDistance s)\<rparr>)"
  by (simp add: updateUI_def Let_def)

lemma updateUI_short_distance:
  "totalDistance s \<le> 1 / 100 \<Longrightarrow>
   paceText (updateUI now s) = paceText s \<and> speedText (updateUI now s) = speedText s \<and>
   caloriesText (updateUI now s) = caloriesText s"
  by (simp add: updateUI_def Let_def split: option.split)

lemma updateUI_lastAnnouncedKm:
  "lastAnnouncedKm (updateUI now s) =
     lastAnnouncedKm (checkAudioCues now s)"
  by (simp add: updateUI_def checkAudioCues_def Let_def split: option.split)

section \<open>Milestones\<close>

lemma due_milestone_SomeD:
  "due_milestone s = Some k \<Longrightarrow>
   isRunning s \<and> k = \<lfloor>totalDistance s\<rfloor> \<and> lastAnnouncedKm s < k \<and> 0 < k"
  by (auto simp: due_milestone_def split: if_splits)

lemma due_milestone_cong:
  "isRunning s = isRunning s' \<Longrightarrow> totalDistance s = totalDistance s' \<Longrightarrow>
   lastAnnouncedKm s = lastAnnouncedKm s' \<Longrightarrow> due_milestone s = due_milestone s'"
  by (simp add: due_milestone_def)

lemma checkAudioCues_lastAnnouncedKm:
  "lastAnnouncedKm (checkAudioCues now s) =
     (case due_milestone s of Some k \<Rightarrow> k | None \<Rightarrow> lastAnnouncedKm s)"
  by (simp add: checkAudioCues_def due_milestone_def Let_def)

lemma due_milestone_checkAudioCues [simp]: "due_milestone (checkAudioCues now s) = None"
  by (simp add: due_milestone_def checkAudioCues_lastAnnouncedKm)

lemma lastAnnouncedKm_mono: "lastAnnouncedKm s \<le> lastAnnouncedKm (checkAudioCues now s)"
  by (auto simp: checkAudioCues_lastAnnouncedKm due_milestone_def)

lemma checkAudioCues_due:
  "due_milestone s = Some k \<Longrightarrow>
   checkAudioCues now s =
     (announce now k (calculatePace (totalDistance s) (calculateTimeElapsed now s)) s)
       \<lparr>lastAnnouncedKm := k\<rparr>"
  by (simp add: checkAudioCues_cases)

lemma announce_basic:
  "aiCoach s = None \<or> \<not> useAI s \<Longrightarrow> announce now k p s = speakBasicMilestone k p s"
  by (auto simp: announce_def split: option.split)

lemma announce_assistant:
  assumes "aiCoach s = Some c" and "useAI s" and "queryGemini_begin c = Inr ()"
  shows "announce now k p s =
     enqueue_query
       (handleCommand (milestone_command k) (totalDistance s) (calculateTimeElapsed now s) True)
       (MilestoneReply k p) s"
proof -
  from assms(3) have "isOnline c"
    by (simp add: queryGemini_begin_ok)
  with assms show ?thesis
    by (simp add: announce_def)
qed

text \<open>
  The number of things set in motion: utterances handed to the synthesiser plus
  requests sent to the assistant.
\<close>

definition announcements :: "app \<Rightarrow> nat" where
  "announcements s = length (spoken s) + length (pendingAI s)"

lemma announcements_speakBasicMilestone:
  "hasSpeechSynthesis (caps s) \<Longrightarrow> announcements (speakBasicMilestone k p s) = Suc (announcements s)"
  by (simp add: announcements_def speakBasicMilestone_def speak_def)

lemma announcements_enqueue_query: "announcements (enqueue_query p k s) = Suc (announcements s)"
  by (simp add: announcements_def enqueue_query_def)

lemma announcements_lastAnnouncedKm [simp]:
  "announcements (s\<lparr>lastAnnouncedKm := k\<rparr>) = announcements s"
  by (simp add: announcements_def)

lemma announcements_checkAudioCues:
  assumes "hasSpeechSynthesis (caps s)"
  shows "announcements (checkAudioCues now s) =
    announcements s + (if due_milestone s = None then 0 else 1)"
proof (cases "due_milestone s")
  case None
  then show ?thesis by (simp add: checkAudioCues_idle)
next
  case (Some k)
  from assms have "announcements (announce now k p s) = Suc (announcements s)" for p
    by (simp add: announce_def announcements_speakBasicMilestone announcements_enqueue_query
        split: option.split sum.split)
  then show ?thesis
    by (simp add: checkAudioCues_due [OF Some] Some)
qed

text \<open>
  While a run lasts, the last announced kilometre is the whole part of the distance.
\<close>

definition milestone_inv :: "app \<Rightarrow> bool" where
  "milestone_inv s \<longleftrightarrow>
     0 \<le> totalDistance s \<and> 0 \<le> lastAnnouncedKm s \<and> lastAnnouncedKm s \<le> \<lfloor>totalDistance s\<rfloor>"

lemma milestone_inv_checkAudioCues:
  "milestone_inv s \<Longrightarrow> milestone_inv (checkAudioCues now s)"
  by (auto simp: milestone_inv_def checkAudioCues_lastAnnouncedKm due_milestone_def)

lemma milestone_inv_updateUI: "milestone_inv s \<Longrightarrow> milestone_inv (updateUI now s)"
  by (auto simp: milestone_inv_def updateUI_lastAnnouncedKm checkAudioCues_lastAnnouncedKm
      due_milestone_def)

lemma milestone_inv_grow:
  "milestone_inv s \<Longrightarrow> totalDistance s \<le> d \<Longrightarrow> milestone_inv (s\<lparr>totalDistance := d\<rparr>)"
  using floor_mono [of "totalDistance s" d] by (simp add: milestone_inv_def)

lemma checkAudioCues_catches_up:
  "milestone_inv s \<Longrightarrow> isRunning s \<Longrightarrow>
   lastAnnouncedKm (checkAudioCues now s) = \<lfloor>totalDistance s\<rfloor>"
  by (auto simp: milestone_inv_def checkAudioCues_lastAnnouncedKm due_milestone_def
      simp del: zero_less_floor)

text \<open>
  A kilometre is announced once: after \<^verbatim>\<open>checkAudioCues\<close> has run, running it
  again, at any later time, changes nothing.
\<close>

theorem checkAudioCues_once:
  "checkAudioCues now' (checkAudioCues now s) = checkAudioCues now s"
  by (rule checkAudioCues_idle) simp

text \<open>
  C6. With a synthesiser present, \<^verbatim>\<open>checkAudioCues\<close> sets exactly one announcement in
  motion (an utterance, or a request to the assistant) when the whole part of the
  distance is positive and above \<^verbatim>\<open>lastAnnouncedKm\<close> during a run, and none otherwise;
  and afterwards \<^verbatim>\<open>lastAnnouncedKm\<close> is the kilometre announced.
\<close>

theorem checkAudioCues_announces:
  assumes "hasSpeechSynthesis (caps s)"
  shows "announcements (checkAudioCues now s) =
      announcements s +
        (if isRunning s \<and> lastAnnouncedKm s < \<lfloor>totalDistance s\<rfloor> \<and> 0 < \<lfloor>totalDistance s\<rfloor> then 1 else 0)
    \<and> lastAnnouncedKm (checkAudioCues now s) =
        (if isRunning s \<and> lastAnnouncedKm s < \<lfloor>totalDistance s\<rfloor> \<and> 0 < \<lfloor>totalDistance s\<rfloor>
         then \<lfloor>totalDistance s\<rfloor> else lastAnnouncedKm s)"
  using announcements_checkAudioCues [OF assms, of now]
  by (simp add: checkAudioCues_lastAnnouncedKm due_milestone_def)

text \<open>A run in progress at 1.02 km after five minutes, basic mode.\<close>

definition at_one_km :: app where
  "at_one_km = (load_script (blank_page full_caps))
     \<lparr>isRunning := True, startTime := Some 1000, totalDistance := 102 / 100, useAI := False\<rparr>"

theorem checkAudioCues_announces_witness:
  "hasSpeechSynthesis (caps at_one_km) \<and>
   announcements (checkAudioCues 301000 at_one_km) = 1 \<and>
   lastAnnouncedKm (checkAudioCues 301000 at_one_km) = 1"
  using checkAudioCues_announces [of at_one_km 301000]
  by (simp add: at_one_km_def fixture_defs announcements_def)

text \<open>
  In basic mode the kilometre announcement names the kilometre, with the plural
  from two on, and the pace at that moment.
\<close>

theorem checkAudioCues_basic_text:
  "said (checkAudioCues 301000 at_one_km) = [''1 kilometer completed! Current pace: 4:54.'']"
  by (simp add: at_one_km_def fixture_defs said_def handler_defs js_defs Let_def)

end
