(* ===== verification/Fusion.thy ===== *)
theory Fusion
  imports Haversine Display "HOL-Library.AList"
begin

text \<open>
  Distance fusion, \<^verbatim>\<open>src/app.js\<close> lines 274-401: the geolocation watch with its two
  callbacks (\<open>startGPSTracking\<close>, \<open>onPosition\<close>, \<open>onPositionError\<close>), and the step
  detector (\<open>startStepDetection\<close>, \<open>handleMotion\<close>). A watch is an entry of \<open>watchers\<close>:
  its id and the \<^verbatim>\<open>lastUpdateTime\<close> its callback closes over; a callback of a watch
  that has been cleared does not run.

  The lemmas give the filter chain of a fix branch by branch (throttle, accuracy,
  first fix, the three-way test on the step from the last accepted position), the
  bounds of an accepted step, the bound of the position window, the exact effect
  of a counted step, and that no fix and no motion event ever lowers the distance.
  \<open>step_gap\<close> is the lag of the distance behind the steps counted; over any sequence
  of blended steps it follows a geometric law, which is how the blend compounds.
  The quotient \<^verbatim>\<open>distance / timeDiffHours\<close> is the one place where the script can
  divide by zero; it is modelled by \<open>js_div\<close>.
\<close>

section \<open>The geolocation watch\<close>

text \<open>Lines 274-283 and 350-352: a new watch, whose id is stored.\<close>

definition startGPSTracking :: "app \<Rightarrow> app" where
  "startGPSTracking s =
     s\<lparr>watchers := watchers s @ [(nextWatchId s, 0)],
       watchId := Some (nextWatchId s),
       nextWatchId := nextWatchId s + 1\<rparr>"

text \<open>\<^verbatim>\<open>navigator.geolocation.clearWatch(id)\<close>.\<close>

definition clearWatch :: "nat \<Rightarrow> app \<Rightarrow> app" where
  "clearWatch w s = s\<lparr>watchers := AList.delete w (watchers s)\<rparr>"

text \<open>Lines 301-306.\<close>

definition newPos :: "ms \<Rightarrow> coords \<Rightarrow> position" where
  "newPos now c = \<lparr>lat = latitude c, lon = longitude c, time = now, accuracy = coords_accuracy c\<rparr>"

text \<open>Lines 314-319: the step from the last accepted position to the fix.\<close>

definition step_distance :: "position \<Rightarrow> position \<Rightarrow> km" where
  "step_distance lastPos p = calculateDistance (lat lastPos) (lon lastPos) (lat p) (lon p)"

text \<open>Lines 322-333: the three-way test.\<close>

definition plausible :: "position \<Rightarrow> position \<Rightarrow> bool" where
  "plausible lastPos p \<longleftrightarrow>
     (let distance = step_distance lastPos p;
          timeDiffHours = real_of_int (time p - time lastPos) / 3600000;
          speedKph = js_div distance timeDiffHours
      in distance > MIN_DISTANCE \<and> js_less speedKph MAX_SPEED_KPH \<and> distance < MAX_JUMP)"

text \<open>Lines 284-342: the success callback of watch \<open>w\<close>.\<close>

definition onPosition :: "nat \<Rightarrow> ms \<Rightarrow> coords \<Rightarrow> app \<Rightarrow> app" where
  "onPosition w now c s =
     (case map_of (watchers s) w of
        None \<Rightarrow> s
      | Some lastUpdateTime \<Rightarrow>
          if now - lastUpdateTime < GPS_UPDATE_INTERVAL then s
          else
            let s1 = s\<lparr>watchers := AList.update w now (watchers s)\<rparr> in
            if coords_accuracy c > MAX_ACCURACY then s1
            else
              (case last_opt (positions s1) of
                 None \<Rightarrow> s1\<lparr>positions := positions s1 @ [newPos now c]\<rparr>
               | Some lastPos \<Rightarrow>
                   if plausible lastPos (newPos now c) then
                     updateUI now
                       (s1\<lparr>totalDistance := totalDistance s1 + step_distance lastPos (newPos now c),
                           positions := push_shift WINDOW_CAP (newPos now c) (positions s1)\<rparr>)
                   else s1))"

text \<open>Lines 343-349: the error callback of watch \<open>w\<close>.\<close>

definition onPositionError :: "nat \<Rightarrow> app \<Rightarrow> app" where
  "onPositionError w s =
     (case map_of (watchers s) w of
        None \<Rightarrow> s
      | Some _ \<Rightarrow> if isRunning s then speak ''GPS signal weak. Using step estimation.'' s else s)"

section \<open>The step detector\<close>

text \<open>
  Lines 355-371. Where permission must be asked, the listener is added when the
  answer arrives (\<open>motionPermission\<close>); adding the same listener again has no effect.
\<close>

definition startStepDetection :: "app \<Rightarrow> app" where
  "startStepDetection s =
     (if hasDeviceMotion (caps s) then
        if motionNeedsPermission (caps s)
        then s\<lparr>pendingMotionPermission := pendingMotionPermission s + 1\<rparr>
        else s\<lparr>motionListener := True\<rparr>
      else s)"

text \<open>Lines 360-365: the answer to a permission request.\<close>

definition motionPermission :: "bool \<Rightarrow> app \<Rightarrow> app" where
  "motionPermission granted s =
     (if pendingMotionPermission s = 0 then s
      else
        let s1 = s\<lparr>pendingMotionPermission := pendingMotionPermission s - 1\<rparr>
        in if granted then s1\<lparr>motionListener := True\<rparr> else s1)"

text \<open>
  A \<^verbatim>\<open>devicemotion\<close> event: \<^verbatim>\<open>accelerationIncludingGravity\<close> may be missing, and so may
  its \<^verbatim>\<open>y\<close>, whose absolute value is then \<open>0\<close> or \<^verbatim>\<open>NaN\<close> and outside every range.
\<close>

type_synonym motion = "real option option"

text \<open>Line 382: the range of a step.\<close>

definition is_step :: "real \<Rightarrow> bool" where
  "is_step y \<longleftrightarrow> (let verticalAccel = \<bar>y\<bar> in verticalAccel > 105 / 10 \<and> verticalAccel < 15)"

text \<open>Lines 391-392.\<close>

definition blendedDistance :: "app \<Rightarrow> km" where
  "blendedDistance s = totalDistance s * (7 / 10) + estimatedDistanceFromSteps s * (3 / 10)"

text \<open>Lines 373-401.\<close>

definition handleMotion :: "ms \<Rightarrow> motion \<Rightarrow> app \<Rightarrow> app" where
  "handleMotion now ev s =
     (if \<not> isRunning s then s
      else case ev of
        None \<Rightarrow> s
      | Some None \<Rightarrow> s
      | Some (Some y) \<Rightarrow>
          if is_step y then
            let s1 = s\<lparr>stepCount := stepCount s + 1\<rparr>;
                s2 = s1\<lparr>estimatedDistanceFromSteps := real (stepCount s1) * STEP_LENGTH\<rparr>;
                lastGpsTime = (case last_opt (positions s2) of Some p \<Rightarrow> time p | None \<Rightarrow> 0)
            in if now - lastGpsTime > STALE_MS then
                 if blendedDistance s2 > totalDistance s2 + NOISE_FLOOR
                 then updateUI now (s2\<lparr>totalDistance := blendedDistance s2\<rparr>)
                 else s2
               else s2
          else s)"

lemmas fusion_defs [handler_defs] =
  startGPSTracking_def clearWatch_def newPos_def step_distance_def plausible_def
  onPosition_def onPositionError_def startStepDetection_def motionPermission_def
  is_step_def blendedDistance_def handleMotion_def

lemma startGPSTracking_frame [frame, simp]:
  "isRunning (startGPSTracking s) = isRunning s"
  "startTime (startGPSTracking s) = startTime s"
  "totalDistance (startGPSTracking s) = totalDistance s"
  "positions (startGPSTracking s) = positions s"
  "stepCount (startGPSTracking s) = stepCount s"
  "estimatedDistanceFromSteps (startGPSTracking s) = estimatedDistanceFromSteps s"
  "lastAnnouncedKm (startGPSTracking s) = lastAnnouncedKm s"
  "voiceRecognition (startGPSTracking s) = voiceRecognition s"
  "wakeLock (startGPSTracking s) = wakeLock s"
  "useAI (startGPSTracking s) = useAI s"
  "aiCoach (startGPSTracking s) = aiCoach s"
  "recognizers (startGPSTracking s) = recognizers s"
  "motionListener (startGPSTracking s) = motionListener s"
  "timers (startGPSTracking s) = timers s"
  "pendingFix (startGPSTracking s) = pendingFix s"
  "pendingMotionPermission (startGPSTracking s) = pendingMotionPermission s"
  "pendingAI (startGPSTracking s) = pendingAI s"
  "spoken (startGPSTracking s) = spoken s"
  "runHistory (startGPSTracking s) = runHistory s"
  "aiModePref (startGPSTracking s) = aiModePref s"
  "navigatorOnLine (startGPSTracking s) = navigatorOnLine s"
  "caps (startGPSTracking s) = caps s"
  "startBtnDisabled (startGPSTracking s) = startBtnDisabled s"
  "stopBtnDisabled (startGPSTracking s) = stopBtnDisabled s"
  "voiceBtnDisabled (startGPSTracking s) = voiceBtnDisabled s"
  "distanceText (startGPSTracking s) = distanceText s"
  "timeText (startGPSTracking s) = timeText s"
  "paceText (startGPSTracking s) = paceText s"
  "speedText (startGPSTracking s) = speedText s"
  "caloriesText (startGPSTracking s) = caloriesText s"
  by (simp_all add: startGPSTracking_def)

lemma clearWatch_frame [frame, simp]:
  "isRunning (clearWatch w s) = isRunning s"
  "startTime (clearWatch w s) = startTime s"
  "totalDistance (clearWatch w s) = totalDistance s"
  "positions (clearWatch w s) = positions s"
  "watchId (clearWatch w s) = watchId s"
  "stepCount (clearWatch w s) = stepCount s"
  "estimatedDistanceFromSteps (clearWatch w s) = estimatedDistanceFromSteps s"
  "lastAnnouncedKm (clearWatch w s) = lastAnnouncedKm s"
  "voiceRecognition (clearWatch w s) = voiceRecognition s"
  "wakeLock (clearWatch w s) = wakeLock s"
  "useAI (clearWatch w s) = useAI s"
  "aiCoach (clearWatch w s) = aiCoach s"
  "nextWatchId (clearWatch w s) = nextWatchId s"
  "recognizers (clearWatch w s) = recognizers s"
  "motionListener (clearWatch w s) = motionListener s"
  "timers (clearWatch w s) = timers s"
  "pendingFix (clearWatch w s) = pendingFix s"
  "pendingMotionPermission (clearWatch w s) = pendingMotionPermission s"
  "pendingAI (clearWatch w s) = pendingAI s"
  "spoken (clearWatch w s) = spoken s"
  "runHistory (clearWatch w s) = runHistory s"
  "aiModePref (clearWatch w s) = aiModePref s"
  "navigatorOnLine (clearWatch w s) = navigatorOnLine s"
  "caps (clearWatch w s) = caps s"
  "startBtnDisabled (clearWatch w s) = startBtnDisabled s"
  "stopBtnDisabled (clearWatch w s) = stopBtnDisabled s"
  "voiceBtnDisabled (clearWatch w s) = voiceBtnDisabled s"
  "distanceText (clearWatch w s) = distanceText s"
  "timeText (clearWatch w s) = timeText s"
  "paceText (clearWatch w s) = paceText s"
  "speedText (clearWatch w s) = speedText s"
  "caloriesText (clearWatch w s) = caloriesText s"
  by (simp_all add: clearWatch_def)

lemma onPositionError_frame [frame, simp]:
  "isRunning (onPositionError w s) = isRunning s"
  "startTime (onPositionError w s) = startTime s"
  "totalDistance (onPositionError w s) = totalDistance s"
  "positions (onPositionError w s) = positions s"
  "watchId (onPositionError w s) = watchId s"
  "stepCount (onPositionError w s) = stepCount s"
  "estimatedDistanceFromSteps (onPositionError w s) = estimatedDistanceFromSteps s"
  "lastAnnouncedKm (onPositionError w s) = lastAnnouncedKm s"
  "voiceRecognition (onPositionError w s) = voiceRecognition s"
  "wakeLock (onPositionError w s) = wakeLock s"
  "useAI (onPositionError w s) = useAI s"
  "aiCoach (onPositionError w s) = aiCoach s"
  "watchers (onPositionError w s) = watchers s"
  "nextWatchId (onPositionError w s) = nextWatchId s"
  "recognizers (onPositionError w s) = recognizers s"
  "motionListener (onPositionError w s) = motionListener s"
  "timers (onPositionError w s) = timers s"
  "pendingFix (onPositionError w s) = pendingFix s"
  "pendingMotionPermission (onPositionError w s) = pendingMotionPermission s"
  "pendingAI (onPositionError w s) = pendingAI s"
  "runHistory (onPositionError w s) = runHistory s"
  "aiModePref (onPositionError w s) = aiModePref s"
  "navigatorOnLine (onPositionError w s) = navigatorOnLine s"
  "caps (onPositionError w s) = caps s"
  "startBtnDisabled (onPositionError w s) = startBtnDisabled s"
  "stopBtnDisabled (onPositionError w s) = stopBtnDisabled s"
  "voiceBtnDisabled (onPositionError w s) = voiceBtnDisabled s"
  "distanceText (onPositionError w s) = distanceText s"
  "timeText (onPositionError w s) = timeText s"
  "paceText (onPositionError w s) = paceText s"
  "speedText (onPositionError w s) = speedText s"
  "caloriesText (onPositionError w s) = caloriesText s"
  by (simp_all add: onPositionError_def split: option.split)

lemma startStepDetection_frame [frame, simp]:
  "isRunning (startStepDetection s) = isRunning s"
  "startTime (startStepDetection s) = startTime s"
  "totalDistance (startStepDetection s) = totalDistance s"
  "positions (startStepDetection s) = positions s"
  "watchId (startStepDetection s) = watchId s"
  "stepCount (startStepDetection s) = stepCount s"
  "estimatedDistanceFromSteps (startStepDetection s) = estimatedDistanceFromSteps s"
  "lastAnnouncedKm (startStepDetection s) = lastAnnouncedKm s"
  "voiceRecognition (startStepDetection s) = voiceRecognition s"
  "wakeLock (startStepDetection s) = wakeLock s"
  "useAI (startStepDetection s) = useAI s"
  "aiCoach (startStepDetection s) = aiCoach s"
  "watchers (startStepDetection s) = watchers s"
  "nextWatchId (startStepDetection s) = nextWatchId s"
  "recognizers (startStepDetection s) = recognizers s"
  "timers (startStepDetection s) = timers s"
  "pendingFix (startStepDetection s) = pendingFix s"
  "pendingAI (startStepDetection s) = pendingAI s"
  "spoken (startStepDetection s) = spoken s"
  "runHistory (startStepDetection s) = runHistory s"
  "aiModePref (startStepDetection s) = aiModePref s"
  "navigatorOnLine (startStepDetection s) = navigatorOnLine s"
  "caps (startStepDetection s) = caps s"
  "startBtnDisabled (startStepDetection s) = startBtnDisabled s"
  "stopBtnDisabled (startStepDetection s) = stopBtnDisabled s"
  "voiceBtnDisabled (startStepDetection s) = voiceBtnDisabled s"
  "distanceText (startStepDetection s) = distanceText s"
  "timeText (startStepDetection s) = timeText s"
  "paceText (startStepDetection s) = paceText s"
  "speedText (startStepDetection s) = speedText s"
  "caloriesText (startStepDetection s) = caloriesText s"
  by (simp_all add: startStepDetection_def)

lemma motionPermission_frame [frame, simp]:
  "isRunning (motionPermission granted s) = isRunning s"
  "startTime (motionPermission granted s) = startTime s"
  "totalDistance (motionPermission granted s) = totalDistance s"
  "positions (motionPermission granted s) = positions s"
  "watchId (motionPermission granted s) = watchId s"
  "stepCount (motionPermission granted s) = stepCount s"
  "estimatedDistanceFromSteps (motionPermission granted s) = estimatedDistanceFromSteps s"
  "lastAnnouncedKm (motionPermission granted s) = lastAnnouncedKm s"
  "voiceRecognition (motionPermission granted s) = voiceRecognition s"
  "wakeLock (motionPermission granted s) = wakeLock s"
  "useAI (motionPermission granted s) = useAI s"
  "aiCoach (motionPermission granted s) = aiCoach s"
  "watchers (motionPermission granted s) = watchers s"
  "nextWatchId (motionPermission granted s) = nextWatchId s"
  "recognizers (motionPermission granted s) = recognizers s"
  "timers (motionPermission granted s) = timers s"
  "pendingFix (motionPermission granted s) = pendingFix s"
  "pendingAI (motionPermission granted s) = pendingAI s"
  "spoken (motionPermission granted s) = spoken s"
  "runHistory (motionPermission granted s) = runHistory s"
  "aiModePref (motionPermission granted s) = aiModePref s"
  "navigatorOnLine (motionPermission granted s) = navigatorOnLine s"
  "caps (motionPermission granted s) = caps s"
  "startBtnDisabled (motionPermission granted s) = startBtnDisabled s"
  "stopBtnDisabled (motionPermission granted s) = stopBtnDisabled s"
  "voiceBtnDisabled (motionPermission granted s) = voiceBtnDisabled s"
  "distanceText (motionPermission granted s) = distanceText s"
  "timeText (motionPermission granted s) = timeText s"
  "paceText (motionPermission granted s) = paceText s"
  "speedText (motionPermission granted s) = speedText s"
  "caloriesText (motionPermission granted s) = caloriesText s"
  by (simp_all add: motionPermission_def Let_def)

section \<open>The three-way test\<close>

lemma plausible_iff:
  "plausible q p \<longleftrightarrow>
     MIN_DISTANCE < step_distance q p \<and> step_distance q p < MAX_JUMP \<and> time p \<noteq> time q \<and>
     step_distance q p / (real_of_int (time p - time q) / 3600000) < MAX_SPEED_KPH"
  by (auto simp: plausible_def Let_def js_less_div_iff MIN_DISTANCE_def)

lemma plausibleD:
  "plausible q p \<Longrightarrow> MIN_DISTANCE < step_distance q p \<and> step_distance q p < MAX_JUMP"
  by (simp add: plausible_iff)

lemma plausible_same_time: "time p = time q \<Longrightarrow> \<not> plausible q p"
  by (simp add: plausible_iff)

lemma plausible_forward:
  assumes "time q < time p"
  shows "plausible q p \<longleftrightarrow>
     MIN_DISTANCE < step_distance q p \<and> step_distance q p < MAX_JUMP \<and>
     step_distance q p * 3600000 < MAX_SPEED_KPH * real_of_int (time p - time q)"
  using assms by (auto simp: plausible_iff field_simps)

text \<open>
  When the clock has gone back between the two fixes the quotient is negative and
  the speed test passes whatever the distance.
\<close>

lemma plausible_backward:
  assumes "time p < time q"
  shows "plausible q p \<longleftrightarrow> MIN_DISTANCE < step_distance q p \<and> step_distance q p < MAX_JUMP"
proof -
  have "step_distance q p / (real_of_int (time p - time q) / 3600000) < MAX_SPEED_KPH"
    if "MIN_DISTANCE < step_distance q p"
  proof -
    from that have "0 < step_distance q p" by (simp add: MIN_DISTANCE_def)
    moreover from assms have "real_of_int (time p - time q) / 3600000 < 0" by simp
    ultimately have "step_distance q p / (real_of_int (time p - time q) / 3600000) < 0"
      by (rule divide_pos_neg)
    then show ?thesis by (simp add: MAX_SPEED_KPH_def)
  qed
  with assms show ?thesis by (auto simp: plausible_iff)
qed

section \<open>The verdict on a fix\<close>

text \<open>
  The filter chain as a decision: what the callback of watch \<open>w\<close> does with a fix
  in a state. It is the specification \<open>onPosition\<close> is shown to implement.
\<close>

datatype verdict = Cleared | Throttled | Inaccurate | FirstFix | Implausible | Accepted km

definition verdict :: "nat \<Rightarrow> ms \<Rightarrow> coords \<Rightarrow> app \<Rightarrow> verdict" where
  "verdict w now c s =
     (case map_of (watchers s) w of
        None \<Rightarrow> Cleared
      | Some t \<Rightarrow>
          if now - t < GPS_UPDATE_INTERVAL then Throttled
          else if coords_accuracy c > MAX_ACCURACY then Inaccurate
          else case last_opt (positions s) of
                 None \<Rightarrow> FirstFix
               | Some q \<Rightarrow>
                   if plausible q (newPos now c) then Accepted (step_distance q (newPos now c))
                   else Implausible)"

definition accepted :: "verdict \<Rightarrow> bool" where
  "accepted v \<longleftrightarrow> (case v of Accepted _ \<Rightarrow> True | _ \<Rightarrow> False)"

definition increment :: "verdict \<Rightarrow> km" where
  "increment v = (case v of Accepted d \<Rightarrow> d | _ \<Rightarrow> 0)"

lemma verdict_AcceptedD:
  assumes "verdict w now c s = Accepted d"
  shows "\<exists>t q. map_of (watchers s) w = Some t \<and> GPS_UPDATE_INTERVAL \<le> now - t \<and>
           coords_accuracy c \<le> MAX_ACCURACY \<and> last_opt (positions s) = Some q \<and>
           plausible q (newPos now c) \<and> d = step_distance q (newPos now c)"
  using assms by (auto simp: verdict_def split: option.splits if_splits)

lemma verdict_Accepted_bounds:
  "verdict w now c s = Accepted d \<Longrightarrow> MIN_DISTANCE < d \<and> d < MAX_JUMP"
  by (auto dest!: verdict_AcceptedD plausibleD)

lemma increment_range: "increment (verdict w now c s) = 0 \<or>
    (MIN_DISTANCE < increment (verdict w now c s) \<and> increment (verdict w now c s) < MAX_JUMP)"
  by (cases "verdict w now c s") (auto simp: increment_def dest: verdict_Accepted_bounds)

lemma increment_nonneg: "0 \<le> increment (verdict w now c s)"
  using increment_range [of w now c s] by (auto simp: MIN_DISTANCE_def)

section \<open>The callback implements the verdict\<close>

lemma onPosition_verdict:
  "onPosition w now c s =
     (case verdict w now c s of
        Cleared \<Rightarrow> s
      | Throttled \<Rightarrow> s
      | Inaccurate \<Rightarrow> s\<lparr>watchers := AList.update w now (watchers s)\<rparr>
      | Implausible \<Rightarrow> s\<lparr>watchers := AList.update w now (watchers s)\<rparr>
      | FirstFix \<Rightarrow>
          s\<lparr>watchers := AList.update w now (watchers s), positions := [newPos now c]\<rparr>
      | Accepted d \<Rightarrow>
          updateUI now
            (s\<lparr>watchers := AList.update w now (watchers s),
               totalDistance := totalDistance s + d,
               positions := push_shift WINDOW_CAP (newPos now c) (positions s)\<rparr>))"
  by (simp add: onPosition_def verdict_def Let_def split: option.split)

lemma onPosition_totalDistance:
  "totalDistance (onPosition w now c s) = totalDistance s + increment (verdict w now c s)"
  by (simp add: onPosition_verdict increment_def split: verdict.split)

lemma onPosition_positions:
  "positions (onPosition w now c s) =
     (case verdict w now c s of
        Accepted d \<Rightarrow> push_shift WINDOW_CAP (newPos now c) (positions s)
      | FirstFix \<Rightarrow> [newPos now c]
      | _ \<Rightarrow> positions s)"
  by (simp add: onPosition_verdict split: verdict.split)

lemma onPosition_watchers:
  "watchers (onPosition w now c s) =
     (if verdict w now c s = Cleared \<or> verdict w now c s = Throttled then watchers s
      else AList.update w now (watchers s))"
  by (simp add: onPosition_verdict split: verdict.split)

lemma onPosition_frame [frame, simp]:
  "isRunning (onPosition w now c s) = isRunning s"
  "startTime (onPosition w now c s) = startTime s"
  "watchId (onPosition w now c s) = watchId s"
  "stepCount (onPosition w now c s) = stepCount s"
  "estimatedDistanceFromSteps (onPosition w now c s) = estimatedDistanceFromSteps s"
  "voiceRecognition (onPosition w now c s) = voiceRecognition s"
  "wakeLock (onPosition w now c s) = wakeLock s"
  "useAI (onPosition w now c s) = useAI s"
  "aiCoach (onPosition w now c s) = aiCoach s"
  "nextWatchId (onPosition w now c s) = nextWatchId s"
  "recognizers (onPosition w now c s) = recognizers s"
  "motionListener (onPosition w now c s) = motionListener s"
  "timers (onPosition w now c s) = timers s"
  "pendingFix (onPosition w now c s) = pendingFix s"
  "pendingMotionPermission (onPosition w now c s) = pendingMotionPermission s"
  "runHistory (onPosition w now c s) = runHistory s"
  "aiModePref (onPosition w now c s) = aiModePref s"
  "navigatorOnLine (onPosition w now c s) = navigatorOnLine s"
  "caps (onPosition w now c s) = caps s"
  "startBtnDisabled (onPosition w now c s) = startBtnDisabled s"
  "stopBtnDisabled (onPosition w now c s) = stopBtnDisabled s"
  "voiceBtnDisabled (onPosition w now c s) = voiceBtnDisabled s"
  by (simp_all add: onPosition_def Let_def split: option.split)

lemma onPosition_accepted:
  "verdict w now c s = Accepted d \<Longrightarrow>
   onPosition w now c s =
     updateUI now
       (s\<lparr>watchers := AList.update w now (watchers s),
          totalDistance := totalDistance s + d,
          positions := push_shift WINDOW_CAP (newPos now c) (positions s)\<rparr>)"
  by (simp add: onPosition_verdict)

lemma onPosition_ignored:
  "verdict w now c s = Cleared \<or> verdict w now c s = Throttled \<Longrightarrow> onPosition w now c s = s"
  by (auto simp: onPosition_verdict)

lemma length_positions_onPosition:
  "length (positions s) \<le> WINDOW_CAP \<Longrightarrow> length (positions (onPosition w now c s)) \<le> WINDOW_CAP"
  by (simp add: onPosition_positions length_push_shift_le split: verdict.split)
    (simp add: WINDOW_CAP_def)

lemma positions_onPosition_neq_Nil:
  "positions s \<noteq> [] \<Longrightarrow> positions (onPosition w now c s) \<noteq> []"
  by (simp add: onPosition_positions WINDOW_CAP_def split: verdict.split)

lemma milestone_inv_onPosition: "milestone_inv s \<Longrightarrow> milestone_inv (onPosition w now c s)"
proof (cases "verdict w now c s")
  case (Accepted d)
  assume "milestone_inv s"
  moreover from verdict_Accepted_bounds [OF Accepted] have "totalDistance s \<le> totalDistance s + d"
    by (simp add: MIN_DISTANCE_def)
  ultimately have "milestone_inv (s\<lparr>totalDistance := totalDistance s + d\<rparr>)"
    by (rule milestone_inv_grow)
  then show ?thesis
    unfolding onPosition_accepted [OF Accepted]
    by (intro milestone_inv_updateUI) (simp add: milestone_inv_def)
qed (simp_all add: onPosition_verdict milestone_inv_def)

section \<open>Counted steps\<close>

text \<open>A motion event counts as a step; a counted step is blended into the distance.\<close>

definition counts :: "motion \<Rightarrow> app \<Rightarrow> bool" where
  "counts ev s \<longleftrightarrow> isRunning s \<and> (case ev of Some (Some y) \<Rightarrow> is_step y | _ \<Rightarrow> False)"

definition stale :: "ms \<Rightarrow> app \<Rightarrow> bool" where
  "stale now s \<longleftrightarrow>
     now - (case last_opt (positions s) of Some p \<Rightarrow> time p | None \<Rightarrow> 0) > STALE_MS"

definition step_estimate :: "app \<Rightarrow> km" where
  "step_estimate s = real (stepCount s + 1) * STEP_LENGTH"

definition blends :: "ms \<Rightarrow> motion \<Rightarrow> app \<Rightarrow> bool" where
  "blends now ev s \<longleftrightarrow>
     counts ev s \<and> stale now s \<and>
     totalDistance s * (7 / 10) + step_estimate s * (3 / 10) > totalDistance s + NOISE_FLOOR"

text \<open>
  How far the distance lags behind the steps counted so far, and a sequence of
  motion events each of which is blended.
\<close>

definition step_gap :: "app \<Rightarrow> real" where
  "step_gap s = real (stepCount s) * STEP_LENGTH - totalDistance s"

fun blending :: "(ms \<times> motion) list \<Rightarrow> app \<Rightarrow> bool" where
  "blending [] s \<longleftrightarrow> True"
| "blending ((t, ev) # es) s \<longleftrightarrow> blends t ev s \<and> blending es (handleMotion t ev s)"

lemma handleMotion_counts:
  "handleMotion now ev s =
     (if \<not> counts ev s then s
      else
        let s2 = s\<lparr>stepCount := stepCount s + 1, estimatedDistanceFromSteps := step_estimate s\<rparr>
        in if blends now ev s
           then updateUI now
                  (s2\<lparr>totalDistance := totalDistance s * (7 / 10) + step_estimate s * (3 / 10)\<rparr>)
           else s2)"
  by (simp add: handleMotion_def counts_def blends_def stale_def step_estimate_def
      blendedDistance_def Let_def split: option.split)

lemma handleMotion_ignored: "\<not> counts ev s \<Longrightarrow> handleMotion now ev s = s"
  by (simp add: handleMotion_counts)

lemma handleMotion_stepCount:
  "stepCount (handleMotion now ev s) = (if counts ev s then stepCount s + 1 else stepCount s)"
  by (simp add: handleMotion_counts Let_def)

lemma handleMotion_estimate:
  "counts ev s \<Longrightarrow>
   estimatedDistanceFromSteps (handleMotion now ev s) = real (stepCount s + 1) * STEP_LENGTH"
  by (simp add: handleMotion_counts Let_def step_estimate_def)

lemma handleMotion_totalDistance:
  "totalDistance (handleMotion now ev s) =
     (if blends now ev s then totalDistance s * (7 / 10) + step_estimate s * (3 / 10)
      else totalDistance s)"
  by (auto simp: handleMotion_counts Let_def blends_def)

lemma blends_gap:
  "blends now ev s \<longleftrightarrow>
     counts ev s \<and> stale now s \<and> totalDistance s + 1 / 300 < step_estimate s"
  by (auto simp: blends_def NOISE_FLOOR_def)

lemma handleMotion_frame [frame, simp]:
  "isRunning (handleMotion now ev s) = isRunning s"
  "startTime (handleMotion now ev s) = startTime s"
  "positions (handleMotion now ev s) = positions s"
  "watchId (handleMotion now ev s) = watchId s"
  "voiceRecognition (handleMotion now ev s) = voiceRecognition s"
  "wakeLock (handleMotion now ev s) = wakeLock s"
  "useAI (handleMotion now ev s) = useAI s"
  "aiCoach (handleMotion now ev s) = aiCoach s"
  "watchers (handleMotion now ev s) = watchers s"
  "nextWatchId (handleMotion now ev s) = nextWatchId s"
  "recognizers (handleMotion now ev s) = recognizers s"
  "motionListener (handleMotion now ev s) = motionListener s"
  "timers (handleMotion now ev s) = timers s"
  "pendingFix (handleMotion now ev s) = pendingFix s"
  "pendingMotionPermission (handleMotion now ev s) = pendingMotionPermission s"
  "runHistory (handleMotion now ev s) = runHistory s"
  "aiModePref (handleMotion now ev s) = aiModePref s"
  "navigatorOnLine (handleMotion now ev s) = navigatorOnLine s"
  "caps (handleMotion now ev s) = caps s"
  "startBtnDisabled (handleMotion now ev s) = startBtnDisabled s"
  "stopBtnDisabled (handleMotion now ev s) = stopBtnDisabled s"
  "voiceBtnDisabled (handleMotion now ev s) = voiceBtnDisabled s"
  by (simp_all add: handleMotion_counts Let_def)

lemma handleMotion_grows: "totalDistance s \<le> totalDistance (handleMotion now ev s)"
  by (simp add: handleMotion_totalDistance blends_def NOISE_FLOOR_def)

lemma milestone_inv_handleMotion: "milestone_inv s \<Longrightarrow> milestone_inv (handleMotion now ev s)"
proof (cases "blends now ev s")
  case True
  let ?d = "totalDistance s * (7 / 10) + step_estimate s * (3 / 10)"
  assume "milestone_inv s"
  moreover from True have "totalDistance s \<le> ?d"
    by (simp add: blends_def NOISE_FLOOR_def)
  ultimately have "milestone_inv (s\<lparr>totalDistance := ?d\<rparr>)"
    by (rule milestone_inv_grow)
  with True show ?thesis
    by (simp add: handleMotion_counts blends_def Let_def)
      (intro milestone_inv_updateUI, simp add: milestone_inv_def)
next
  case False
  assume "milestone_inv s"
  with False show ?thesis
    by (simp add: handleMotion_counts Let_def milestone_inv_def)
qed

section \<open>A run in progress\<close>

text \<open>
  The closed examples: a run started on the equator at time 1000, in basic mode,
  with the start position as the only entry of the window and one watch.
\<close>

definition fix0 :: position where
  "fix0 = \<lparr>lat = 0, lon = 0, time = 1000, accuracy = 10\<rparr>"

definition on_equator :: app where
  "on_equator = (load_script (blank_page full_caps))
     \<lparr>isRunning := True, startTime := Some 1000, positions := [fix0], watchId := Some 0,
      useAI := False, watchers := [(0, 1000)], nextWatchId := 1\<rparr>"

text \<open>A fix on the equator at longitude \<open>d\<close>, and one of poor accuracy.\<close>

definition east :: "real \<Rightarrow> coords" where
  "east d = \<lparr>latitude = 0, longitude = d, coords_accuracy = 10\<rparr>"

definition vague :: coords where
  "vague = \<lparr>latitude = 0, longitude = 1 / 2000, coords_accuracy = 150\<rparr>"

lemmas run_defs = fix0_def on_equator_def east_def vague_def fixture_defs

lemma step_east:
  "\<bar>d\<bar> \<le> 180 \<Longrightarrow> step_distance fix0 (newPos now (east d)) = 6371 * (\<bar>d\<bar> * pi / 180)"
  unfolding step_distance_def
  by (intro calculateDistance_arc) (simp_all add: hav_a_def run_defs newPos_def)

text \<open>A step of 1/2000 of a degree is about 55.6 m.\<close>

lemma step_east_55m:
  "step_distance fix0 (newPos now (east (1 / 2000))) = 6371 * pi / 360000"
  "11 / 200 < 6371 * pi / 360000" "6371 * pi / 360000 < 14 / 250"
  using pi_bounds by (simp_all add: step_east)

lemma plausible_east: "plausible fix0 (newPos 21000 (east (1 / 2000)))"
proof -
  have "time fix0 < time (newPos 21000 (east (1 / 2000)))"
    by (simp add: fix0_def newPos_def)
  then show ?thesis
    using step_east_55m(2,3)
    by (simp add: plausible_forward step_east_55m(1) const_defs) (simp add: fix0_def newPos_def)
qed

lemma verdict_east: "verdict 0 21000 (east (1 / 2000)) on_equator = Accepted (6371 * pi / 360000)"
proof -
  have "last_opt (positions on_equator) = Some fix0" "map_of (watchers on_equator) 0 = Some 1000"
    by (simp_all add: on_equator_def last_opt_def)
  then show ?thesis
    by (simp add: verdict_def plausible_east step_east_55m(1) const_defs) (simp add: east_def)
qed

section \<open>Properties of the fusion\<close>

text \<open>
  C10. A fix either leaves the distance as it is or raises it by the length of one
  plausible step: more than 5 m and less than 100 m.
\<close>

theorem onPosition_increment:
  "totalDistance (onPosition w now c s) = totalDistance s \<or>
   (totalDistance s + MIN_DISTANCE < totalDistance (onPosition w now c s) \<and>
    totalDistance (onPosition w now c s) < totalDistance s + MAX_JUMP)"
  using increment_range [of w now c s] by (auto simp: onPosition_totalDistance)

text \<open>
  C1. A fix that passes the throttle and the accuracy gate and lies a plausible
  step from the last position of the window adds the length of that step to the
  distance and becomes the last position of the window, which drops its oldest
  entry if it had twenty.
\<close>

theorem onPosition_accept:
  assumes "map_of (watchers s) w = Some t" and "GPS_UPDATE_INTERVAL \<le> now - t"
    and "coords_accuracy c \<le> MAX_ACCURACY" and "last_opt (positions s) = Some q"
    and "plausible q (newPos now c)"
  shows "totalDistance (onPosition w now c s) = totalDistance s + step_distance q (newPos now c)
    \<and> positions (onPosition w now c s) = push_shift WINDOW_CAP (newPos now c) (positions s)
    \<and> map_of (watchers (onPosition w now c s)) w = Some now"
proof -
  from assms have "verdict w now c s = Accepted (step_distance q (newPos now c))"
    by (simp add: verdict_def)
  then show ?thesis
    by (simp add: onPosition_totalDistance onPosition_positions onPosition_watchers
        increment_def update_conv')
qed

theorem onPosition_accept_witness:
  "totalDistance (onPosition 0 21000 (east (1 / 2000)) on_equator) = 6371 * pi / 360000 \<and>
   positions (onPosition 0 21000 (east (1 / 2000)) on_equator) =
     [fix0, newPos 21000 (east (1 / 2000))]"
proof -
  have "map_of (watchers on_equator) 0 = Some 1000" "last_opt (positions on_equator) = Some fix0"
    "coords_accuracy (east (1 / 2000)) \<le> MAX_ACCURACY" "GPS_UPDATE_INTERVAL \<le> 21000 - 1000"
    by (simp_all add: run_defs last_opt_def const_defs)
  from onPosition_accept [OF this(1) this(4) this(3) this(2) plausible_east]
  show ?thesis
    by (simp add: step_east_55m(1)) (simp add: run_defs push_shift_def WINDOW_CAP_def)
qed

text \<open>
  C3. A fix whose accuracy is worse than 100 m changes neither the distance nor the
  window.
\<close>

theorem onPosition_accuracy_gate:
  assumes "coords_accuracy c > MAX_ACCURACY"
  shows "totalDistance (onPosition w now c s) = totalDistance s \<and>
    positions (onPosition w now c s) = positions s"
proof -
  from assms have "verdict w now c s \<in> {Cleared, Throttled, Inaccurate}"
    by (simp add: verdict_def split: option.split)
  then show ?thesis
    by (auto simp: onPosition_verdict)
qed

theorem onPosition_accuracy_gate_witness:
  "coords_accuracy vague > MAX_ACCURACY \<and>
   totalDistance (onPosition 0 21000 vague on_equator) = 0 \<and>
   positions (onPosition 0 21000 vague on_equator) = [fix0]"
  using onPosition_accuracy_gate [of vague 0 21000 on_equator]
  by (simp add: run_defs const_defs)

text \<open>
  C2. A fix from a step that is too short, too long, or too fast is rejected: if
  the step from the last position of the window is at most 5 m or at least 100 m,
  or its speed over the time between the two fixes is 25 km/h or more, the
  distance and the window stay as they are.
\<close>

theorem onPosition_rejects:
  assumes "last_opt (positions s) = Some q"
    and "step_distance q (newPos now c) \<le> MIN_DISTANCE \<or>
         MAX_JUMP \<le> step_distance q (newPos now c) \<or>
         (time q < now \<and>
          MAX_SPEED_KPH \<le> step_distance q (newPos now c) / (real_of_int (now - time q) / 3600000))"
  shows "totalDistance (onPosition w now c s) = totalDistance s \<and>
    positions (onPosition w now c s) = positions s"
proof -
  from assms(2) have "\<not> plausible q (newPos now c)"
    by (auto simp: plausible_iff) (simp_all add: newPos_def)
  with assms(1) have "verdict w now c s \<in> {Cleared, Throttled, Inaccurate, Implausible}"
    by (simp add: verdict_def split: option.split)
  then show ?thesis
    by (auto simp: onPosition_verdict)
qed

theorem onPosition_rejects_witness:
  "totalDistance (onPosition 0 21000 (east 1) on_equator) = 0 \<and>
   positions (onPosition 0 21000 (east 1) on_equator) = [fix0]"
proof -
  have "last_opt (positions on_equator) = Some fix0"
    by (simp add: on_equator_def last_opt_def)
  moreover have "MAX_JUMP \<le> step_distance fix0 (newPos 21000 (east 1))"
    using pi_bounds by (simp add: step_east MAX_JUMP_def)
  ultimately show ?thesis
    using onPosition_rejects [of on_equator fix0 21000 "east 1" 0]
    by (simp add: on_equator_def fixture_defs)
qed

text \<open>
  C9. A fix that arrives less than two seconds after the last fix its watch has
  let through is dropped: the state is unchanged, the time of that last fix
  included.
\<close>

theorem onPosition_throttle:
  assumes "map_of (watchers s) w = Some t" and "now - t < GPS_UPDATE_INTERVAL"
  shows "onPosition w now c s = s"
  using assms by (intro onPosition_ignored) (simp add: verdict_def)

theorem onPosition_throttle_witness:
  "onPosition 0 2999 (east (1 / 2000)) on_equator = on_equator"
  using onPosition_throttle [of on_equator 0 1000 2999 "east (1 / 2000)"]
  by (simp add: on_equator_def GPS_UPDATE_INTERVAL_def)

text \<open>
  The window of positions never holds more than twenty entries: a fix keeps
  the bound.
\<close>

theorem onPosition_window:
  assumes "length (positions s) \<le> WINDOW_CAP"
  shows "length (positions (onPosition w now c s)) \<le> WINDOW_CAP"
  using assms by (rule length_positions_onPosition)

theorem onPosition_window_witness:
  "length (positions (onPosition 0 21000 (east (1 / 2000)) on_equator)) \<le> WINDOW_CAP"
  using onPosition_window [of on_equator 0 21000 "east (1 / 2000)"]
  by (simp add: on_equator_def WINDOW_CAP_def)

text \<open>
  A fix handled in the same millisecond as the last position of the window was
  taken is never accepted, however far it lies: the quotient that gives its speed
  has divisor zero and is \<^verbatim>\<open>Infinity\<close>.
\<close>

theorem onPosition_same_instant:
  assumes "last_opt (positions s) = Some q" and "time q = now"
  shows "totalDistance (onPosition w now c s) = totalDistance s \<and>
    positions (onPosition w now c s) = positions s"
proof -
  from assms(2) have "\<not> plausible q (newPos now c)"
    by (intro plausible_same_time) (simp add: newPos_def)
  with assms(1) have "verdict w now c s \<in> {Cleared, Throttled, Inaccurate, Implausible}"
    by (simp add: verdict_def split: option.split)
  then show ?thesis
    by (auto simp: onPosition_verdict)
qed

theorem onPosition_same_instant_witness:
  "positions (onPosition 0 1000 (east (1 / 2000)) (on_equator\<lparr>watchers := [(0, 0)]\<rparr>)) = [fix0]"
  using onPosition_same_instant [of "on_equator\<lparr>watchers := [(0, 0)]\<rparr>" fix0 1000 0 "east (1 / 2000)"]
  by (simp add: on_equator_def last_opt_def) (simp add: fix0_def)

text \<open>
  When time has advanced between two fixes, a plausible step has a speed below
  25 km/h; when the clock has gone back, the speed test lets every step pass.
\<close>

theorem plausible_speed:
  "(time q < time p \<longrightarrow> plausible q p \<longrightarrow>
      step_distance q p / (real_of_int (time p - time q) / 3600000) < MAX_SPEED_KPH) \<and>
   (time p < time q \<longrightarrow> MIN_DISTANCE < step_distance q p \<longrightarrow> step_distance q p < MAX_JUMP \<longrightarrow>
      plausible q p)"
  by (simp add: plausible_backward) (simp add: plausible_iff)

theorem plausible_speed_witness:
  "time fix0 < time (newPos 21000 (east (1 / 2000))) \<and>
   plausible fix0 (newPos 21000 (east (1 / 2000))) \<and>
   step_distance fix0 (newPos 21000 (east (1 / 2000))) / (real_of_int (21000 - 1000) / 3600000)
     < MAX_SPEED_KPH"
  using plausible_speed [of fix0 "newPos 21000 (east (1 / 2000))"] plausible_east
  by (simp add: fix0_def newPos_def)

text \<open>
  C5. A motion event counts as a step exactly during a run and when its vertical
  acceleration is between 10.5 and 15 in absolute value. A counted step raises
  the step count by one and sets the step estimate to the count times 0.75 m; it
  is blended into the distance, as 0.7 of the distance plus 0.3 of the estimate,
  exactly when the last position of the window is more than five seconds old and
  the blend exceeds the distance by more than one metre.
\<close>

theorem handleMotion_step:
  "stepCount (handleMotion now ev s) = (if counts ev s then stepCount s + 1 else stepCount s) \<and>
   estimatedDistanceFromSteps (handleMotion now ev s) =
     (if counts ev s then real (stepCount s + 1) * STEP_LENGTH else estimatedDistanceFromSteps s) \<and>
   totalDistance (handleMotion now ev s) =
     (if counts ev s \<and> stale now s \<and>
         totalDistance s * (7 / 10) + real (stepCount s + 1) * STEP_LENGTH * (3 / 10)
           > totalDistance s + NOISE_FLOOR
      then totalDistance s * (7 / 10) + real (stepCount s + 1) * STEP_LENGTH * (3 / 10)
      else totalDistance s)"
  by (simp add: handleMotion_stepCount handleMotion_totalDistance handleMotion_estimate
      handleMotion_ignored blends_def step_estimate_def)

text \<open>
  C12. A motion event never lowers the distance, and never raises it above the
  step estimate.
\<close>

theorem handleMotion_bounded:
  "totalDistance s \<le> totalDistance (handleMotion now ev s) \<and>
   totalDistance (handleMotion now ev s) \<le> max (totalDistance s) (real (stepCount s + 1) * STEP_LENGTH)"
  by (simp add: handleMotion_grows)
    (auto simp: handleMotion_totalDistance blends_gap step_estimate_def max_def)

text \<open>A run whose watch is silent, after 1 km and 1999 steps.\<close>

definition gps_lost :: app where
  "gps_lost = on_equator\<lparr>totalDistance := 1, stepCount := 1999\<rparr>"

lemma step_gap_blend:
  assumes "blends now ev s"
  shows "step_gap (handleMotion now ev s) = 7 / 10 * (step_gap s + STEP_LENGTH)"
  using assms
  by (simp add: step_gap_def handleMotion_totalDistance handleMotion_stepCount blends_def
      step_estimate_def algebra_simps)

lemma step_gap_no_blend:
  assumes "counts ev s" and "\<not> blends now ev s"
  shows "step_gap (handleMotion now ev s) = step_gap s + STEP_LENGTH"
  using assms
  by (simp add: step_gap_def handleMotion_totalDistance handleMotion_stepCount algebra_simps)

text \<open>
  C13. The blend compounds. Every blended step takes the distance it blends from
  the total, which holds the earlier blends, so the share of the distance measured
  from fixes shrinks by 7/10 with each step instead of staying at 7/10: after any
  sequence of blended steps the lag of the distance behind the counted steps is
  7/3 of a step length plus \<open>(7/10)\<^sup>n\<close> of what it was above that. In the example,
  two steps from 1 km and 1999 steps give 1.255 km, where 0.7 of the distance
  from fixes plus 0.3 of the step estimate is 1.150 km.
\<close>

theorem handleMotion_compounds:
  assumes "blending es s"
  shows "step_gap (fold (\<lambda>(t, ev). handleMotion t ev) es s) - 7 / 3 * STEP_LENGTH =
    (7 / 10) ^ length es * (step_gap s - 7 / 3 * STEP_LENGTH)"
  using assms
proof (induction es arbitrary: s)
  case Nil
  show ?case by simp
next
  case (Cons a es)
  obtain t ev where a: "a = (t, ev)" by (cases a)
  from Cons.prems have b: "blends t ev s" and r: "blending es (handleMotion t ev s)"
    by (simp_all add: a)
  have "step_gap (handleMotion t ev s) - 7 / 3 * STEP_LENGTH = 7 / 10 * (step_gap s - 7 / 3 * STEP_LENGTH)"
    by (simp add: step_gap_blend [OF b] algebra_simps)
  with Cons.IH [OF r] show ?case
    by (simp add: a)
qed

theorem handleMotion_compounds_witness:
  "blending [(10000, Some (Some 12)), (10020, Some (Some 12))] gps_lost \<and>
   totalDistance (fold (\<lambda>(t, ev). handleMotion t ev) [(10000, Some (Some 12)), (10020, Some (Some 12))] gps_lost)
     = 1255225 / 1000000 \<and>
   7 / 10 * totalDistance gps_lost + 3 / 10 * (2001 * STEP_LENGTH) = 1150225 / 1000000"
proof -
  let ?es = "[(10000, Some (Some 12)), (10020, Some (Some 12)) :: ms \<times> motion]"
  define r where "r = fold (\<lambda>(t, ev). handleMotion t ev) ?es gps_lost"
  have b: "blending ?es gps_lost"
    by (simp add: handleMotion_totalDistance handleMotion_stepCount blends_def counts_def
        stale_def step_estimate_def is_step_def)
      (simp add: gps_lost_def run_defs const_defs last_opt_def)
  then have "stepCount r = 2001"
    by (simp add: r_def handleMotion_stepCount blends_def) (simp add: gps_lost_def run_defs)
  then have e: "step_gap r = 2001 * STEP_LENGTH - totalDistance r"
    by (simp add: step_gap_def)
  have g: "step_gap gps_lost = 1999 * STEP_LENGTH - 1"
    by (simp add: step_gap_def gps_lost_def run_defs)
  from handleMotion_compounds [OF b, folded r_def] have "totalDistance r = 1255225 / 1000000"
    unfolding e g by (simp add: const_defs)
  with b show ?thesis
    by (simp add: r_def del: blending.simps) (simp add: gps_lost_def run_defs const_defs)
qed

end
