(* ===== verification/Voice.thy ===== *)
theory Voice
  imports Display
begin

text \<open>
  The voice pipeline of \<^verbatim>\<open>src/app.js\<close>, lines 487-708: the monitoring
  recogniser with its three handlers (\<open>onresult\<close>, \<open>onerror\<close>, \<open>onend\<close>), the restart
  timers they set, \<^verbatim>\<open>processVoiceCommand\<close> and \<^verbatim>\<open>handleBasicCommand\<close>. A recogniser is an
  entry of \<open>recognizers\<close>, \<^verbatim>\<open>voiceRecognition\<close> an index into it; the handlers refer to
  the recogniser through that variable, as the script's closures do. A call to
  \<^verbatim>\<open>setTimeout\<close> adds the time it is due and its action to \<open>timers\<close>. The timers that
  only hide the microphone indicator are left out. The voice button (lines 573-606)
  makes a recogniser of its own, an entry \<open>RecManual\<close> of \<open>recognizers\<close>, whose result
  goes to \<^verbatim>\<open>processVoiceCommand\<close> as well.

  \<^verbatim>\<open>processVoiceCommand\<close> is split at its \<^verbatim>\<open>await\<close>: what runs when the assistant has
  answered, or failed, is \<open>command_reply\<close>. The lemmas give the routing of a
  command, the classifier with its order of precedence, the scheduling of the
  delayed stop, and the restart of the recogniser after an error or an end.
\<close>

section \<open>The recogniser\<close>

text \<open>\<^verbatim>\<open>start()\<close> throws unless the recogniser is idle; \<^verbatim>\<open>stop()\<close> never throws.\<close>

definition rec_start :: "rec_phase \<Rightarrow> rec_phase option" where
  "rec_start p = (if p = RecIdle then Some RecListening else None)"

definition rec_stop :: "rec_phase \<Rightarrow> rec_phase" where
  "rec_stop p = (if p = RecListening then RecStopping else p)"

text \<open>\<^verbatim>\<open>setTimeout(action, delay)\<close>.\<close>

definition setTimeout :: "timer_action \<Rightarrow> ms \<Rightarrow> ms \<Rightarrow> app \<Rightarrow> app" where
  "setTimeout a delay now s = s\<lparr>timers := timers s @ [(now + delay, a)]\<rparr>"

text \<open>Lines 487-561. A new recogniser is idle, so its \<^verbatim>\<open>start()\<close> succeeds.\<close>

definition startVoiceMonitoring :: "app \<Rightarrow> app" where
  "startVoiceMonitoring s =
     (if \<not> hasSpeechRecognition (caps s) then s
      else s\<lparr>voiceRecognition := Some (length (recognizers s)),
             recognizers := recognizers s @ [RecListening]\<rparr>)"

text \<open>Lines 563-570.\<close>

definition stopVoiceMonitoring :: "app \<Rightarrow> app" where
  "stopVoiceMonitoring s =
     (case voiceRecognition s of
        None \<Rightarrow> s
      | Some i \<Rightarrow>
          s\<lparr>recognizers := (recognizers s)[i := rec_stop (recognizers s ! i)],
            voiceRecognition := None\<rparr>)"

text \<open>
  Lines 531-535 and 544-549, the body of the restart timers: \<^verbatim>\<open>voiceRecognition.start()\<close>
  in a \<^verbatim>\<open>try\<close>. It throws, and nothing happens, when the variable is \<^verbatim>\<open>null\<close> or the
  recogniser it holds is not idle.
\<close>

definition restartVoice :: "app \<Rightarrow> app" where
  "restartVoice s =
     (case voiceRecognition s of
        None \<Rightarrow> s
      | Some i \<Rightarrow>
          (case rec_start (recognizers s ! i) of
             None \<Rightarrow> s
           | Some p \<Rightarrow> s\<lparr>recognizers := (recognizers s)[i := p]\<rparr>))"

text \<open>Lines 525-538.\<close>

definition onerror :: "ms \<Rightarrow> string \<Rightarrow> app \<Rightarrow> app" where
  "onerror now err s =
     (let s1 = speak (''Voice error: '' @ err) s
      in if isRunning s1 \<and> voiceRecognition s1 \<noteq> None
         then setTimeout RestartVoice 2000 now s1 else s1)"

text \<open>Lines 540-552.\<close>

definition onend :: "ms \<Rightarrow> app \<Rightarrow> app" where
  "onend now s =
     (if isRunning s \<and> voiceRecognition s \<noteq> None
      then setTimeout RestartVoice 500 now s else s)"

section \<open>Commands\<close>

text \<open>Lines 656-660 and 695-697: the words that end a run.\<close>

definition is_stop_command :: "string \<Rightarrow> bool" where
  "is_stop_command command \<longleftrightarrow>
     js_includes (toLowerCase command) ''stop'' \<or>
     js_includes (toLowerCase command) ''done'' \<or>
     js_includes (toLowerCase command) ''finish''"

text \<open>Lines 629-633: what makes a command one for the assistant.\<close>

definition for_assistant :: "string \<Rightarrow> bool" where
  "for_assistant command \<longleftrightarrow>
     js_includes (toLowerCase command) ''coach'' \<or>
     js_includes (toLowerCase command) ''hey'' \<or>
     length command > 10"

text \<open>Line 625.\<close>

definition shouldUseAI :: "app \<Rightarrow> bool" where
  "shouldUseAI s \<longleftrightarrow> useAI s \<and> (case aiCoach s of Some c \<Rightarrow> isOnline c | None \<Rightarrow> False)"

text \<open>Lines 684-708: the answer, and the state with the mode the command may have toggled.\<close>

definition handleBasicCommand :: "ms \<Rightarrow> string \<Rightarrow> app \<Rightarrow> string \<times> app" where
  "handleBasicCommand now command s =
     (let cmd = toLowerCase command in
      if js_includes cmd ''how far'' \<or> js_includes cmd ''distance'' then
        (''You'' @ [CHR 0x27] @ ''ve run '' @ toFixed 2 (totalDistance s) @ '' kilometers!'', s)
      else if js_includes cmd ''pace'' \<or> js_includes cmd ''speed'' then
        (''Your pace is '' @ calculatePace (totalDistance s) (calculateTimeElapsed now s) @
         '' per kilometer'', s)
      else if js_includes cmd ''time'' then
        (''Elapsed time: '' @ formatTime (calculateTimeElapsed now s), s)
      else if js_includes cmd ''stop'' \<or> js_includes cmd ''done'' \<or> js_includes cmd ''finish'' then
        (''Stopping your run now!'', s)
      else if js_includes cmd ''activate ai'' \<or> js_includes cmd ''ai mode'' then
        (case aiCoach s of
           None \<Rightarrow> (''AI Coach not available. Check API key.'', s)
         | Some _ \<Rightarrow>
             let s' = s\<lparr>useAI := \<not> useAI s\<rparr>
             in (if useAI s' then ''AI Coach activated!'' else ''Basic mode activated'', s'))
      else
        (''I heard: '' @ [CHR 0x22] @ command @ [CHR 0x22] @ ''. Try: how far, pace, time, or stop.'',
         s))"

text \<open>Lines 649-662: the answer is spoken, and a stop is set for a second later.\<close>

definition finish_command :: "ms \<Rightarrow> string \<Rightarrow> string \<Rightarrow> app \<Rightarrow> app" where
  "finish_command now command response s =
     (let s1 = (if response \<noteq> [] then speak response s else s)
      in if is_stop_command command then setTimeout DelayedStop 1000 now s1 else s1)"

text \<open>Lines 663-676: the \<^verbatim>\<open>catch\<close> branch.\<close>

definition command_fallback :: "ms \<Rightarrow> string \<Rightarrow> app \<Rightarrow> app" where
  "command_fallback now command s =
     (let cmd = toLowerCase command in
      if js_includes cmd ''how far'' then
        speak (''You'' @ [CHR 0x27] @ ''ve run '' @ toFixed 2 (totalDistance s) @ '' kilometers'') s
      else if js_includes cmd ''pace'' then
        speak (''Pace is '' @ calculatePace (totalDistance s) (calculateTimeElapsed now s) @
               '' per kilometer'') s
      else if js_includes cmd ''time'' then
        speak (''Time: '' @ formatTime (calculateTimeElapsed now s)) s
      else speak (''I heard you say: '' @ substring0 30 command) s)"

text \<open>Lines 609-647: up to the \<^verbatim>\<open>await\<close>, or to the end where there is none.\<close>

definition processVoiceCommand :: "ms \<Rightarrow> string \<Rightarrow> app \<Rightarrow> app" where
  "processVoiceCommand now command s =
     (if length (trim command) < 3 then s
      else if shouldUseAI s \<and> for_assistant command then
        (case queryGemini_begin (the (aiCoach s)) of
           Inr _ \<Rightarrow>
             enqueue_query
               (handleCommand command (totalDistance s) (calculateTimeElapsed now s) (isRunning s))
               (CommandReply command) s
         | Inl _ \<Rightarrow> command_fallback now command s)
      else
        (case handleBasicCommand now command s of
           (response, s') \<Rightarrow> finish_command now command response s'))"

text \<open>What follows the \<^verbatim>\<open>await\<close> of line 635, when the assistant has settled.\<close>

definition command_reply :: "ms \<Rightarrow> string \<Rightarrow> ai_error + string \<Rightarrow> app \<Rightarrow> app" where
  "command_reply now command r s =
     (case r of
        Inr response \<Rightarrow> finish_command now command response s
      | Inl _ \<Rightarrow> command_fallback now command s)"

text \<open>Lines 505-523.\<close>

definition onresult :: "ms \<Rightarrow> bool \<Rightarrow> string \<Rightarrow> app \<Rightarrow> app" where
  "onresult now isFinal transcript s =
     (if isFinal then
        let fullTranscript = trim (toLowerCase transcript)
        in if length fullTranscript > 2 then processVoiceCommand now fullTranscript s else s
      else s)"

text \<open>
  Lines 573-606, the voice button: a recogniser of its own, started at once (a new
  recogniser is idle, so \<^verbatim>\<open>start()\<close> succeeds), with the two handlers below. The
  variable \<^verbatim>\<open>voiceRecognition\<close> is not involved.
\<close>

definition startManualVoiceCommand :: "app \<Rightarrow> app" where
  "startManualVoiceCommand s =
     (if \<not> isRunning s then speak ''Start a run first to use voice commands.'' s
      else if \<not> hasSpeechRecognition (caps s) then speak ''Voice recognition not available.'' s
      else (speak ''Listening...'' s)\<lparr>recognizers := recognizers s @ [RecManual]\<rparr>)"

text \<open>Lines 595-599: the transcript goes to \<^verbatim>\<open>processVoiceCommand\<close> in lower case, untrimmed.\<close>

definition manual_onresult :: "ms \<Rightarrow> string \<Rightarrow> app \<Rightarrow> app" where
  "manual_onresult now transcript s = processVoiceCommand now (toLowerCase transcript) s"

text \<open>Lines 601-604.\<close>

definition manual_onerror :: "app \<Rightarrow> app" where
  "manual_onerror s = speak (''Sorry, I didn'' @ [CHR 0x27] @ ''t catch that.'') s"

lemmas voice_defs [handler_defs] =
  rec_start_def rec_stop_def setTimeout_def startVoiceMonitoring_def stopVoiceMonitoring_def
  restartVoice_def onerror_def onend_def is_stop_command_def for_assistant_def shouldUseAI_def
  handleBasicCommand_def finish_command_def command_fallback_def processVoiceCommand_def
  command_reply_def onresult_def startManualVoiceCommand_def manual_onresult_def manual_onerror_def

section \<open>The recogniser and its restarts\<close>

lemma setTimeout_frame [frame, simp]:
  "isRunning (setTimeout a d now s) = isRunning s"
  "startTime (setTimeout a d now s) = startTime s"
  "totalDistance (setTimeout a d now s) = totalDistance s"
  "positions (setTimeout a d now s) = positions s"
  "watchId (setTimeout a d now s) = watchId s"
  "stepCount (setTimeout a d now s) = stepCount s"
  "estimatedDistanceFromSteps (setTimeout a d now s) = estimatedDistanceFromSteps s"
  "lastAnnouncedKm (setTimeout a d now s) = lastAnnouncedKm s"
  "voiceRecognition (setTimeout a d now s) = voiceRecognition s"
  "wakeLock (setTimeout a d now s) = wakeLock s"
  "useAI (setTimeout a d now s) = useAI s"
  "aiCoach (setTimeout a d now s) = aiCoach s"
  "watchers (setTimeout a d now s) = watchers s"
  "nextWatchId (setTimeout a d now s) = nextWatchId s"
  "recognizers (setTimeout a d now s) = recognizers s"
  "motionListener (setTimeout a d now s) = motionListener s"
  "pendingFix (setTimeout a d now s) = pendingFix s"
  "pendingMotionPermission (setTimeout a d now s) = pendingMotionPermission s"
  "pendingAI (setTimeout a d now s) = pendingAI s"
  "spoken (setTimeout a d now s) = spoken s"
  "runHistory (setTimeout a d now s) = runHistory s"
  "aiModePref (setTimeout a d now s) = aiModePref s"
  "navigatorOnLine (setTimeout a d now s) = navigatorOnLine s"
  "caps (setTimeout a d now s) = caps s"
  "startBtnDisabled (setTimeout a d now s) = startBtnDisabled s"
  "stopBtnDisabled (setTimeout a d now s) = stopBtnDisabled s"
  "voiceBtnDisabled (setTimeout a d now s) = voiceBtnDisabled s"
  "distanceText (setTimeout a d now s) = distanceText s"
  "timeText (setTimeout a d now s) = timeText s"
  "paceText (setTimeout a d now s) = paceText s"
  "speedText (setTimeout a d now s) = speedText s"
  "caloriesText (setTimeout a d now s) = caloriesText s"
  by (simp_all add: setTimeout_def)

lemma timers_setTimeout [simp]: "timers (setTimeout a d now s) = timers s @ [(now + d, a)]"
  by (simp add: setTimeout_def)

lemma restartVoice_None: "voiceRecognition s = None \<Longrightarrow> restartVoice s = s"
  by (simp add: restartVoice_def)

lemma restartVoice_idle:
  "voiceRecognition s = Some i \<Longrightarrow> recognizers s ! i = RecIdle \<Longrightarrow>
   restartVoice s = s\<lparr>recognizers := (recognizers s)[i := RecListening]\<rparr>"
  by (simp add: restartVoice_def rec_start_def)

lemma restartVoice_busy:
  "voiceRecognition s = Some i \<Longrightarrow> recognizers s ! i \<noteq> RecIdle \<Longrightarrow> restartVoice s = s"
  by (simp add: restartVoice_def rec_start_def)

lemma restartVoice_frame [frame, simp]:
  "isRunning (restartVoice s) = isRunning s"
  "startTime (restartVoice s) = startTime s"
  "totalDistance (restartVoice s) = totalDistance s"
  "positions (restartVoice s) = positions s"
  "watchId (restartVoice s) = watchId s"
  "stepCount (restartVoice s) = stepCount s"
  "estimatedDistanceFromSteps (restartVoice s) = estimatedDistanceFromSteps s"
  "lastAnnouncedKm (restartVoice s) = lastAnnouncedKm s"
  "voiceRecognition (restartVoice s) = voiceRecognition s"
  "wakeLock (restartVoice s) = wakeLock s"
  "useAI (restartVoice s) = useAI s"
  "aiCoach (restartVoice s) = aiCoach s"
  "watchers (restartVoice s) = watchers s"
  "nextWatchId (restartVoice s) = nextWatchId s"
  "motionListener (restartVoice s) = motionListener s"
  "timers (restartVoice s) = timers s"
  "pendingFix (restartVoice s) = pendingFix s"
  "pendingMotionPermission (restartVoice s) = pendingMotionPermission s"
  "pendingAI (restartVoice s) = pendingAI s"
  "spoken (restartVoice s) = spoken s"
  "runHistory (restartVoice s) = runHistory s"
  "aiModePref (restartVoice s) = aiModePref s"
  "navigatorOnLine (restartVoice s) = navigatorOnLine s"
  "caps (restartVoice s) = caps s"
  "startBtnDisabled (restartVoice s) = startBtnDisabled s"
  "stopBtnDisabled (restartVoice s) = stopBtnDisabled s"
  "voiceBtnDisabled (restartVoice s) = voiceBtnDisabled s"
  "distanceText (restartVoice s) = distanceText s"
  "timeText (restartVoice s) = timeText s"
  "paceText (restartVoice s) = paceText s"
  "speedText (restartVoice s) = speedText s"
  "caloriesText (restartVoice s) = caloriesText s"
  by (simp_all add: restartVoice_def split: option.split)

lemma length_recognizers_restartVoice [simp]:
  "length (recognizers (restartVoice s)) = length (recognizers s)"
  by (simp add: restartVoice_def split: option.split)

lemma stopVoiceMonitoring_voiceRecognition [simp]:
  "voiceRecognition (stopVoiceMonitoring s) = None"
  by (simp add: stopVoiceMonitoring_def split: option.split)

lemma stopVoiceMonitoring_frame [frame, simp]:
  "isRunning (stopVoiceMonitoring s) = isRunning s"
  "startTime (stopVoiceMonitoring s) = startTime s"
  "totalDistance (stopVoiceMonitoring s) = totalDistance s"
  "positions (stopVoiceMonitoring s) = positions s"
  "watchId (stopVoiceMonitoring s) = watchId s"
  "stepCount (stopVoiceMonitoring s) = stepCount s"
  "estimatedDistanceFromSteps (stopVoiceMonitoring s) = estimatedDistanceFromSteps s"
  "lastAnnouncedKm (stopVoiceMonitoring s) = lastAnnouncedKm s"
  "wakeLock (stopVoiceMonitoring s) = wakeLock s"
  "useAI (stopVoiceMonitoring s) = useAI s"
  "aiCoach (stopVoiceMonitoring s) = aiCoach s"
  "watchers (stopVoiceMonitoring s) = watchers s"
  "nextWatchId (stopVoiceMonitoring s) = nextWatchId s"
  "motionListener (stopVoiceMonitoring s) = motionListener s"
  "timers (stopVoiceMonitoring s) = timers s"
  "pendingFix (stopVoiceMonitoring s) = pendingFix s"
  "pendingMotionPermission (stopVoiceMonitoring s) = pendingMotionPermission s"
  "pendingAI (stopVoiceMonitoring s) = pendingAI s"
  "spoken (stopVoiceMonitoring s) = spoken s"
  "runHistory (stopVoiceMonitoring s) = runHistory s"
  "aiModePref (stopVoiceMonitoring s) = aiModePref s"
  "navigatorOnLine (stopVoiceMonitoring s) = navigatorOnLine s"
  "caps (stopVoiceMonitoring s) = caps s"
  "startBtnDisabled (stopVoiceMonitoring s) = startBtnDisabled s"
  "stopBtnDisabled (stopVoiceMonitoring s) = stopBtnDisabled s"
  "voiceBtnDisabled (stopVoiceMonitoring s) = voiceBtnDisabled s"
  "distanceText (stopVoiceMonitoring s) = distanceText s"
  "timeText (stopVoiceMonitoring s) = timeText s"
  "paceText (stopVoiceMonitoring s) = paceText s"
  "speedText (stopVoiceMonitoring s) = speedText s"
  "caloriesText (stopVoiceMonitoring s) = caloriesText s"
  by (simp_all add: stopVoiceMonitoring_def split: option.split)

lemma stopVoiceMonitoring_not_listening:
  "voiceRecognition s = Some i \<Longrightarrow> i < length (recognizers s) \<Longrightarrow>
   recognizers (stopVoiceMonitoring s) ! i \<noteq> RecListening"
  by (simp add: stopVoiceMonitoring_def rec_stop_def)

lemma startVoiceMonitoring_listening:
  "hasSpeechRecognition (caps s) \<Longrightarrow>
   voiceRecognition (startVoiceMonitoring s) = Some (length (recognizers s)) \<and>
   recognizers (startVoiceMonitoring s) ! length (recognizers s) = RecListening"
  by (simp add: startVoiceMonitoring_def)

lemma startVoiceMonitoring_frame [frame, simp]:
  "isRunning (startVoiceMonitoring s) = isRunning s"
  "startTime (startVoiceMonitoring s) = startTime s"
  "totalDistance (startVoiceMonitoring s) = totalDistance s"
  "positions (startVoiceMonitoring s) = positions s"
  "watchId (startVoiceMonitoring s) = watchId s"
  "stepCount (startVoiceMonitoring s) = stepCount s"
  "estimatedDistanceFromSteps (startVoiceMonitoring s) = estimatedDistanceFromSteps s"
  "lastAnnouncedKm (startVoiceMonitoring s) = lastAnnouncedKm s"
  "wakeLock (startVoiceMonitoring s) = wakeLock s"
  "useAI (startVoiceMonitoring s) = useAI s"
  "aiCoach (startVoiceMonitoring s) = aiCoach s"
  "watchers (startVoiceMonitoring s) = watchers s"
  "nextWatchId (startVoiceMonitoring s) = nextWatchId s"
  "motionListener (startVoiceMonitoring s) = motionListener s"
  "timers (startVoiceMonitoring s) = timers s"
  "pendingFix (startVoiceMonitoring s) = pendingFix s"
  "pendingMotionPermission (startVoiceMonitoring s) = pendingMotionPermission s"
  "pendingAI (startVoiceMonitoring s) = pendingAI s"
  "spoken (startVoiceMonitoring s) = spoken s"
  "runHistory (startVoiceMonitoring s) = runHistory s"
  "aiModePref (startVoiceMonitoring s) = aiModePref s"
  "navigatorOnLine (startVoiceMonitoring s) = navigatorOnLine s"
  "caps (startVoiceMonitoring s) = caps s"
  "startBtnDisabled (startVoiceMonitoring s) = startBtnDisabled s"
  "stopBtnDisabled (startVoiceMonitoring s) = stopBtnDisabled s"
  "voiceBtnDisabled (startVoiceMonitoring s) = voiceBtnDisabled s"
  "distanceText (startVoiceMonitoring s) = distanceText s"
  "timeText (startVoiceMonitoring s) = timeText s"
  "paceText (startVoiceMonitoring s) = paceText s"
  "speedText (startVoiceMonitoring s) = speedText s"
  "caloriesText (startVoiceMonitoring s) = caloriesText s"
  by (simp_all add: startVoiceMonitoring_def)

lemma onend_frame [frame, simp]:
  "isRunning (onend now s) = isRunning s"
  "startTime (onend now s) = startTime s"
  "totalDistance (onend now s) = totalDistance s"
  "positions (onend now s) = positions s"
  "watchId (onend now s) = watchId s"
  "stepCount (onend now s) = stepCount s"
  "estimatedDistanceFromSteps (onend now s) = estimatedDistanceFromSteps s"
  "lastAnnouncedKm (onend now s) = lastAnnouncedKm s"
  "voiceRecognition (onend now s) = voiceRecognition s"
  "wakeLock (onend now s) = wakeLock s"
  "useAI (onend now s) = useAI s"
  "aiCoach (onend now s) = aiCoach s"
  "watchers (onend now s) = watchers s"
  "nextWatchId (onend now s) = nextWatchId s"
  "recognizers (onend now s) = recognizers s"
  "motionListener (onend now s) = motionListener s"
  "pendingFix (onend now s) = pendingFix s"
  "pendingMotionPermission (onend now s) = pendingMotionPermission s"
  "pendingAI (onend now s) = pendingAI s"
  "spoken (onend now s) = spoken s"
  "runHistory (onend now s) = runHistory s"
  "aiModePref (onend now s) = aiModePref s"
  "navigatorOnLine (onend now s) = navigatorOnLine s"
  "caps (onend now s) = caps s"
  "startBtnDisabled (onend now s) = startBtnDisabled s"
  "stopBtnDisabled (onend now s) = stopBtnDisabled s"
  "voiceBtnDisabled (onend now s) = voiceBtnDisabled s"
  "distanceText (onend now s) = distanceText s"
  "timeText (onend now s) = timeText s"
  "paceText (onend now s) = paceText s"
  "speedText (onend now s) = speedText s"
  "caloriesText (onend now s) = caloriesText s"
  by (simp_all add: onend_def)

lemma onerror_frame [frame, simp]:
  "isRunning (onerror now err s) = isRunning s"
  "startTime (onerror now err s) = startTime s"
  "totalDistance (onerror now err s) = totalDistance s"
  "positions (onerror now err s) = positions s"
  "watchId (onerror now err s) = watchId s"
  "stepCount (onerror now err s) = stepCount s"
  "estimatedDistanceFromSteps (onerror now err s) = estimatedDistanceFromSteps s"
  "lastAnnouncedKm (onerror now err s) = lastAnnouncedKm s"
  "voiceRecognition (onerror now err s) = voiceRecognition s"
  "wakeLock (onerror now err s) = wakeLock s"
  "useAI (onerror now err s) = useAI s"
  "aiCoach (onerror now err s) = aiCoach s"
  "watchers (onerror now err s) = watchers s"
  "nextWatchId (onerror now err s) = nextWatchId s"
  "recognizers (onerror now err s) = recognizers s"
  "motionListener (onerror now err s) = motionListener s"
  "pendingFix (onerror now err s) = pendingFix s"
  "pendingMotionPermission (onerror now err s) = pendingMotionPermission s"
  "pendingAI (onerror now err s) = pendingAI s"
  "runHistory (onerror now err s) = runHistory s"
  "aiModePref (onerror now err s) = aiModePref s"
  "navigatorOnLine (onerror now err s) = navigatorOnLine s"
  "caps (onerror now err s) = caps s"
  "startBtnDisabled (onerror now err s) = startBtnDisabled s"
  "stopBtnDisabled (onerror now err s) = stopBtnDisabled s"
  "voiceBtnDisabled (onerror now err s) = voiceBtnDisabled s"
  "distanceText (onerror now err s) = distanceText s"
  "timeText (onerror now err s) = timeText s"
  "paceText (onerror now err s) = paceText s"
  "speedText (onerror now err s) = speedText s"
  "caloriesText (onerror now err s) = caloriesText s"
  by (simp_all add: onerror_def Let_def)

lemma onend_timers:
  "timers (onend now s) =
     (if isRunning s \<and> voiceRecognition s \<noteq> None then timers s @ [(now + 500, RestartVoice)]
      else timers s)"
  by (simp add: onend_def)

lemma onerror_timers:
  "timers (onerror now err s) =
     (if isRunning s \<and> voiceRecognition s \<noteq> None then timers s @ [(now + 2000, RestartVoice)]
      else timers s)"
  by (simp add: onerror_def Let_def)

section \<open>The classifier\<close>

lemma handleBasicCommand_state:
  "snd (handleBasicCommand now command s) = s\<lparr>useAI := useAI (snd (handleBasicCommand now command s))\<rparr>"
  by (simp add: handleBasicCommand_def Let_def split: option.split)

lemma handleBasicCommand_frame [frame, simp]:
  "isRunning (snd (handleBasicCommand now c s)) = isRunning s"
  "startTime (snd (handleBasicCommand now c s)) = startTime s"
  "totalDistance (snd (handleBasicCommand now c s)) = totalDistance s"
  "positions (snd (handleBasicCommand now c s)) = positions s"
  "watchId (snd (handleBasicCommand now c s)) = watchId s"
  "stepCount (snd (handleBasicCommand now c s)) = stepCount s"
  "estimatedDistanceFromSteps (snd (handleBasicCommand now c s)) = estimatedDistanceFromSteps s"
  "lastAnnouncedKm (snd (handleBasicCommand now c s)) = lastAnnouncedKm s"
  "voiceRecognition (snd (handleBasicCommand now c s)) = voiceRecognition s"
  "wakeLock (snd (handleBasicCommand now c s)) = wakeLock s"
  "aiCoach (snd (handleBasicCommand now c s)) = aiCoach s"
  "watchers (snd (handleBasicCommand now c s)) = watchers s"
  "nextWatchId (snd (handleBasicCommand now c s)) = nextWatchId s"
  "recognizers (snd (handleBasicCommand now c s)) = recognizers s"
  "motionListener (snd (handleBasicCommand now c s)) = motionListener s"
  "timers (snd (handleBasicCommand now c s)) = timers s"
  "pendingFix (snd (handleBasicCommand now c s)) = pendingFix s"
  "pendingMotionPermission (snd (handleBasicCommand now c s)) = pendingMotionPermission s"
  "pendingAI (snd (handleBasicCommand now c s)) = pendingAI s"
  "spoken (snd (handleBasicCommand now c s)) = spoken s"
  "runHistory (snd (handleBasicCommand now c s)) = runHistory s"
  "aiModePref (snd (handleBasicCommand now c s)) = aiModePref s"
  "navigatorOnLine (snd (handleBasicCommand now c s)) = navigatorOnLine s"
  "caps (snd (handleBasicCommand now c s)) = caps s"
  "startBtnDisabled (snd (handleBasicCommand now c s)) = startBtnDisabled s"
  "stopBtnDisabled (snd (handleBasicCommand now c s)) = stopBtnDisabled s"
  "voiceBtnDisabled (snd (handleBasicCommand now c s)) = voiceBtnDisabled s"
  "distanceText (snd (handleBasicCommand now c s)) = distanceText s"
  "timeText (snd (handleBasicCommand now c s)) = timeText s"
  "paceText (snd (handleBasicCommand now c s)) = paceText s"
  "speedText (snd (handleBasicCommand now c s)) = speedText s"
  "caloriesText (snd (handleBasicCommand now c s)) = caloriesText s"
  by (simp_all add: handleBasicCommand_def Let_def split: option.split)

lemma handleBasicCommand_answers [simp]: "fst (handleBasicCommand now command s) \<noteq> []"
  by (simp add: handleBasicCommand_def Let_def split: option.split)

lemma handleBasicCommand_toggles:
  "useAI (snd (handleBasicCommand now command s)) \<noteq> useAI s \<longleftrightarrow>
     aiCoach s \<noteq> None \<and>
     (js_includes (toLowerCase command) ''activate ai'' \<or> js_includes (toLowerCase command) ''ai mode'') \<and>
     \<not> (js_includes (toLowerCase command) ''how far'' \<or> js_includes (toLowerCase command) ''distance'' \<or>
        js_includes (toLowerCase command) ''pace'' \<or> js_includes (toLowerCase command) ''speed'' \<or>
        js_includes (toLowerCase command) ''time'' \<or> is_stop_command command)"
  by (auto simp: handleBasicCommand_def Let_def is_stop_command_def split: option.split)

section \<open>Processing a command\<close>

lemma finish_command_frame [frame, simp]:
  "isRunning (finish_command now command response s) = isRunning s"
  "startTime (finish_command now command response s) = startTime s"
  "totalDistance (finish_command now command response s) = totalDistance s"
  "positions (finish_command now command response s) = positions s"
  "watchId (finish_command now command response s) = watchId s"
  "stepCount (finish_command now command response s) = stepCount s"
  "estimatedDistanceFromSteps (finish_command now command response s) = estimatedDistanceFromSteps s"
  "lastAnnouncedKm (finish_command now command response s) = lastAnnouncedKm s"
  "voiceRecognition (finish_command now command response s) = voiceRecognition s"
  "wakeLock (finish_command now command response s) = wakeLock s"
  "useAI (finish_command now command response s) = useAI s"
  "aiCoach (finish_command now command response s) = aiCoach s"
  "watchers (finish_command now command response s) = watchers s"
  "nextWatchId (finish_command now command response s) = nextWatchId s"
  "recognizers (finish_command now command response s) = recognizers s"
  "motionListener (finish_command now command response s) = motionListener s"
  "pendingFix (finish_command now command response s) = pendingFix s"
  "pendingMotionPermission (finish_command now command response s) = pendingMotionPermission s"
  "pendingAI (finish_command now command response s) = pendingAI s"
  "runHistory (finish_command now command response s) = runHistory s"
  "aiModePref (finish_command now command response s) = aiModePref s"
  "navigatorOnLine (finish_command now command response s) = navigatorOnLine s"
  "caps (finish_command now command response s) = caps s"
  "startBtnDisabled (finish_command now command response s) = startBtnDisabled s"
  "stopBtnDisabled (finish_command now command response s) = stopBtnDisabled s"
  "voiceBtnDisabled (finish_command now command response s) = voiceBtnDisabled s"
  "distanceText (finish_command now command response s) = distanceText s"
  "timeText (finish_command now command response s) = timeText s"
  "paceText (finish_command now command response s) = paceText s"
  "speedText (finish_command now command response s) = speedText s"
  "caloriesText (finish_command now command response s) = caloriesText s"
  by (simp_all add: finish_command_def Let_def)

lemma command_fallback_frame [frame, simp]:
  "isRunning (command_fallback now command s) = isRunning s"
  "startTime (command_fallback now command s) = startTime s"
  "totalDistance (command_fallback now command s) = totalDistance s"
  "positions (command_fallback now command s) = positions s"
  "watchId (command_fallback now command s) = watchId s"
  "stepCount (command_fallback now command s) = stepCount s"
  "estimatedDistanceFromSteps (command_fallback now command s) = estimatedDistanceFromSteps s"
  "lastAnnouncedKm (command_fallback now command s) = lastAnnouncedKm s"
  "voiceRecognition (command_fallback now command s) = voiceRecognition s"
  "wakeLock (command_fallback now command s) = wakeLock s"
  "useAI (command_fallback now command s) = useAI s"
  "aiCoach (command_fallback now command s) = aiCoach s"
  "watchers (command_fallback now command s) = watchers s"
  "nextWatchId (command_fallback now command s) = nextWatchId s"
  "recognizers (command_fallback now command s) = recognizers s"
  "motionListener (command_fallback now command s) = motionListener s"
  "timers (command_fallback now command s) = timers s"
  "pendingFix (command_fallback now command s) = pendingFix s"
  "pendingMotionPermission (command_fallback now command s) = pendingMotionPermission s"
  "pendingAI (command_fallback now command s) = pendingAI s"
  "runHistory (command_fallback now command s) = runHistory s"
  "aiModePref (command_fallback now command s) = aiModePref s"
  "navigatorOnLine (command_fallback now command s) = navigatorOnLine s"
  "caps (command_fallback now command s) = caps s"
  "startBtnDisabled (command_fallback now command s) = startBtnDisabled s"
  "stopBtnDisabled (command_fallback now command s) = stopBtnDisabled s"
  "voiceBtnDisabled (command_fallback now command s) = voiceBtnDisabled s"
  "distanceText (command_fallback now command s) = distanceText s"
  "timeText (command_fallback now command s) = timeText s"
  "paceText (command_fallback now command s) = paceText s"
  "speedText (command_fallback now command s) = speedText s"
  "caloriesText (command_fallback now command s) = caloriesText s"
  by (simp_all add: command_fallback_def Let_def)

lemma command_reply_frame [frame, simp]:
  "isRunning (command_reply now command r s) = isRunning s"
  "startTime (command_reply now command r s) = startTime s"
  "totalDistance (command_reply now command r s) = totalDistance s"
  "positions (command_reply now command r s) = positions s"
  "watchId (command_reply now command r s) = watchId s"
  "stepCount (command_reply now command r s) = stepCount s"
  "estimatedDistanceFromSteps (command_reply now command r s) = estimatedDistanceFromSteps s"
  "lastAnnouncedKm (command_reply now command r s) = lastAnnouncedKm s"
  "voiceRecognition (command_reply now command r s) = voiceRecognition s"
  "wakeLock (command_reply now command r s) = wakeLock s"
  "useAI (command_reply now command r s) = useAI s"
  "aiCoach (command_reply now command r s) = aiCoach s"
  "watchers (command_reply now command r s) = watchers s"
  "nextWatchId (command_reply now command r s) = nextWatchId s"
  "recognizers (command_reply now command r s) = recognizers s"
  "motionListener (command_reply now command r s) = motionListener s"
  "pendingFix (command_reply now command r s) = pendingFix s"
  "pendingMotionPermission (command_reply now command r s) = pendingMotionPermission s"
  "pendingAI (command_reply now command r s) = pendingAI s"
  "runHistory (command_reply now command r s) = runHistory s"
  "aiModePref (command_reply now command r s) = aiModePref s"
  "navigatorOnLine (command_reply now command r s) = navigatorOnLine s"
  "caps (command_reply now command r s) = caps s"
  "startBtnDisabled (command_reply now command r s) = startBtnDisabled s"
  "stopBtnDisabled (command_reply now command r s) = stopBtnDisabled s"
  "voiceBtnDisabled (command_reply now command r s) = voiceBtnDisabled s"
  "distanceText (command_reply now command r s) = distanceText s"
  "timeText (command_reply now command r s) = timeText s"
  "paceText (command_reply now command r s) = paceText s"
  "speedText (command_reply now command r s) = speedText s"
  "caloriesText (command_reply now command r s) = caloriesText s"
  by (simp_all add: command_reply_def split: sum.split)

lemma finish_command_timers:
  "timers (finish_command now command response s) =
     (if is_stop_command command then timers s @ [(now + 1000, DelayedStop)] else timers s)"
  by (simp add: finish_command_def Let_def)

lemma finish_command_said:
  "hasSpeechSynthesis (caps s) \<Longrightarrow> response \<noteq> [] \<Longrightarrow>
   said (finish_command now command response s) = said s @ [response]"
  by (simp add: finish_command_def Let_def said_def speak_def)

lemma command_fallback_timers [simp]: "timers (command_fallback now command s) = timers s"
  by (simp add: command_fallback_def Let_def)

lemma command_fallback_speaks:
  "hasSpeechSynthesis (caps s) \<Longrightarrow>
   length (spoken (command_fallback now command s)) = Suc (length (spoken s))"
  by (simp add: command_fallback_def Let_def length_spoken_speak)

lemma processVoiceCommand_noise: "length (trim command) < 3 \<Longrightarrow> processVoiceCommand now command s = s"
  by (simp add: processVoiceCommand_def)

lemma processVoiceCommand_basic:
  "3 \<le> length (trim command) \<Longrightarrow> \<not> (shouldUseAI s \<and> for_assistant command) \<Longrightarrow>
   processVoiceCommand now command s =
     finish_command now command (fst (handleBasicCommand now command s))
       (snd (handleBasicCommand now command s))"
  by (auto simp: processVoiceCommand_def split: prod.split)

lemma processVoiceCommand_assistant:
  assumes "3 \<le> length (trim command)" and "shouldUseAI s" and "for_assistant command"
    and "aiCoach s = Some c" and "apiKey c \<noteq> []"
  shows "processVoiceCommand now command s =
     enqueue_query
       (handleCommand command (totalDistance s) (calculateTimeElapsed now s) (isRunning s))
       (CommandReply command) s"
proof -
  from assms(2,4,5) have "queryGemini_begin c = Inr ()"
    by (simp add: shouldUseAI_def queryGemini_begin_ok)
  with assms show ?thesis
    by (simp add: processVoiceCommand_def)
qed

lemma processVoiceCommand_rejected:
  assumes "3 \<le> length (trim command)" and "shouldUseAI s" and "for_assistant command"
    and "aiCoach s = Some c" and "apiKey c = []"
  shows "processVoiceCommand now command s = command_fallback now command s"
  using assms by (simp add: processVoiceCommand_def queryGemini_begin_def shouldUseAI_def)

lemma shouldUseAI_coach: "shouldUseAI s \<Longrightarrow> \<exists>c. aiCoach s = Some c \<and> isOnline c"
  by (auto simp: shouldUseAI_def split: option.splits)

lemma finish_command_pendingAI [simp]:
  "pendingAI (finish_command now command response s) = pendingAI s"
  by (simp add: finish_command_def Let_def)

lemma command_fallback_pendingAI [simp]: "pendingAI (command_fallback now command s) = pendingAI s"
  by (simp add: command_fallback_def Let_def)

lemma processVoiceCommand_cases:
  "processVoiceCommand now command s =
     (if length (trim command) < 3 then s
      else if shouldUseAI s \<and> for_assistant command then
        (case queryGemini_begin (the (aiCoach s)) of
           Inr _ \<Rightarrow>
             enqueue_query
               (handleCommand command (totalDistance s) (calculateTimeElapsed now s) (isRunning s))
               (CommandReply command) s
         | Inl _ \<Rightarrow> command_fallback now command s)
      else finish_command now command (fst (handleBasicCommand now command s))
             (snd (handleBasicCommand now command s)))"
  by (simp add: processVoiceCommand_def split: prod.split)

lemma processVoiceCommand_frame [frame, simp]:
  "isRunning (processVoiceCommand now command s) = isRunning s"
  "startTime (processVoiceCommand now command s) = startTime s"
  "totalDistance (processVoiceCommand now command s) = totalDistance s"
  "positions (processVoiceCommand now command s) = positions s"
  "watchId (processVoiceCommand now command s) = watchId s"
  "stepCount (processVoiceCommand now command s) = stepCount s"
  "estimatedDistanceFromSteps (processVoiceCommand now command s) = estimatedDistanceFromSteps s"
  "lastAnnouncedKm (processVoiceCommand now command s) = lastAnnouncedKm s"
  "voiceRecognition (processVoiceCommand now command s) = voiceRecognition s"
  "wakeLock (processVoiceCommand now command s) = wakeLock s"
  "aiCoach (processVoiceCommand now command s) = aiCoach s"
  "watchers (processVoiceCommand now command s) = watchers s"
  "nextWatchId (processVoiceCommand now command s) = nextWatchId s"
  "recognizers (processVoiceCommand now command s) = recognizers s"
  "motionListener (processVoiceCommand now command s) = motionListener s"
  "pendingFix (processVoiceCommand now command s) = pendingFix s"
  "pendingMotionPermission (processVoiceCommand now command s) = pendingMotionPermission s"
  "runHistory (processVoiceCommand now command s) = runHistory s"
  "aiModePref (processVoiceCommand now command s) = aiModePref s"
  "navigatorOnLine (processVoiceCommand now command s) = navigatorOnLine s"
  "caps (processVoiceCommand now command s) = caps s"
  "startBtnDisabled (processVoiceCommand now command s) = startBtnDisabled s"
  "stopBtnDisabled (processVoiceCommand now command s) = stopBtnDisabled s"
  "voiceBtnDisabled (processVoiceCommand now command s) = voiceBtnDisabled s"
  "distanceText (processVoiceCommand now command s) = distanceText s"
  "timeText (processVoiceCommand now command s) = timeText s"
  "paceText (processVoiceCommand now command s) = paceText s"
  "speedText (processVoiceCommand now command s) = speedText s"
  "caloriesText (processVoiceCommand now command s) = caloriesText s"
  by (simp_all add: processVoiceCommand_cases split: sum.split)

lemma onresult_frame [frame, simp]:
  "isRunning (onresult now isFinal transcript s) = isRunning s"
  "startTime (onresult now isFinal transcript s) = startTime s"
  "totalDistance (onresult now isFinal transcript s) = totalDistance s"
  "positions (onresult now isFinal transcript s) = positions s"
  "watchId (onresult now isFinal transcript s) = watchId s"
  "stepCount (onresult now isFinal transcript s) = stepCount s"
  "estimatedDistanceFromSteps (onresult now isFinal transcript s) = estimatedDistanceFromSteps s"
  "lastAnnouncedKm (onresult now isFinal transcript s) = lastAnnouncedKm s"
  "voiceRecognition (onresult now isFinal transcript s) = voiceRecognition s"
  "wakeLock (onresult now isFinal transcript s) = wakeLock s"
  "aiCoach (onresult now isFinal transcript s) = aiCoach s"
  "watchers (onresult now isFinal transcript s) = watchers s"
  "nextWatchId (onresult now isFinal transcript s) = nextWatchId s"
  "recognizers (onresult now isFinal transcript s) = recognizers s"
  "motionListener (onresult now isFinal transcript s) = motionListener s"
  "pendingFix (onresult now isFinal transcript s) = pendingFix s"
  "pendingMotionPermission (onresult now isFinal transcript s) = pendingMotionPermission s"
  "runHistory (onresult now isFinal transcript s) = runHistory s"
  "aiModePref (onresult now isFinal transcript s) = aiModePref s"
  "navigatorOnLine (onresult now isFinal transcript s) = navigatorOnLine s"
  "caps (onresult now isFinal transcript s) = caps s"
  "startBtnDisabled (onresult now isFinal transcript s) = startBtnDisabled s"
  "stopBtnDisabled (onresult now isFinal transcript s) = stopBtnDisabled s"
  "voiceBtnDisabled (onresult now isFinal transcript s) = voiceBtnDisabled s"
  "distanceText (onresult now isFinal transcript s) = distanceText s"
  "timeText (onresult now isFinal transcript s) = timeText s"
  "paceText (onresult now isFinal transcript s) = paceText s"
  "speedText (onresult now isFinal transcript s) = speedText s"
  "caloriesText (onresult now isFinal transcript s) = caloriesText s"
  by (simp_all add: onresult_def Let_def)

lemma manual_onresult_frame [frame, simp]:
  "isRunning (manual_onresult now transcript s) = isRunning s"
  "startTime (manual_onresult now transcript s) = startTime s"
  "totalDistance (manual_onresult now transcript s) = totalDistance s"
  "positions (manual_onresult now transcript s) = positions s"
  "watchId (manual_onresult now transcript s) = watchId s"
  "stepCount (manual_onresult now transcript s) = stepCount s"
  "estimatedDistanceFromSteps (manual_onresult now transcript s) = estimatedDistanceFromSteps s"
  "lastAnnouncedKm (manual_onresult now transcript s) = lastAnnouncedKm s"
  "voiceRecognition (manual_onresult now transcript s) = voiceRecognition s"
  "wakeLock (manual_onresult now transcript s) = wakeLock s"
  "aiCoach (manual_onresult now transcript s) = aiCoach s"
  "watchers (manual_onresult now transcript s) = watchers s"
  "nextWatchId (manual_onresult now transcript s) = nextWatchId s"
  "recognizers (manual_onresult now transcript s) = recognizers s"
  "motionListener (manual_onresult now transcript s) = motionListener s"
  "pendingFix (manual_onresult now transcript s) = pendingFix s"
  "pendingMotionPermission (manual_onresult now transcript s) = pendingMotionPermission s"
  "runHistory (manual_onresult now transcript s) = runHistory s"
  "aiModePref (manual_onresult now transcript s) = aiModePref s"
  "navigatorOnLine (manual_onresult now transcript s) = navigatorOnLine s"
  "caps (manual_onresult now transcript s) = caps s"
  "startBtnDisabled (manual_onresult now transcript s) = startBtnDisabled s"
  "stopBtnDisabled (manual_onresult now transcript s) = stopBtnDisabled s"
  "voiceBtnDisabled (manual_onresult now transcript s) = voiceBtnDisabled s"
  "distanceText (manual_onresult now transcript s) = distanceText s"
  "timeText (manual_onresult now transcript s) = timeText s"
  "paceText (manual_onresult now transcript s) = paceText s"
  "speedText (manual_onresult now transcript s) = speedText s"
  "caloriesText (manual_onresult now transcript s) = caloriesText s"
  by (simp_all add: manual_onresult_def)

lemma manual_onerror_frame [frame, simp]:
  "isRunning (manual_onerror s) = isRunning s"
  "startTime (manual_onerror s) = startTime s"
  "totalDistance (manual_onerror s) = totalDistance s"
  "positions (manual_onerror s) = positions s"
  "watchId (manual_onerror s) = watchId s"
  "stepCount (manual_onerror s) = stepCount s"
  "estimatedDistanceFromSteps (manual_onerror s) = estimatedDistanceFromSteps s"
  "lastAnnouncedKm (manual_onerror s) = lastAnnouncedKm s"
  "voiceRecognition (manual_onerror s) = voiceRecognition s"
  "wakeLock (manual_onerror s) = wakeLock s"
  "useAI (manual_onerror s) = useAI s"
  "aiCoach (manual_onerror s) = aiCoach s"
  "watchers (manual_onerror s) = watchers s"
  "nextWatchId (manual_onerror s) = nextWatchId s"
  "recognizers (manual_onerror s) = recognizers s"
  "motionListener (manual_onerror s) = motionListener s"
  "timers (manual_onerror s) = timers s"
  "pendingFix (manual_onerror s) = pendingFix s"
  "pendingMotionPermission (manual_onerror s) = pendingMotionPermission s"
  "pendingAI (manual_onerror s) = pendingAI s"
  "runHistory (manual_onerror s) = runHistory s"
  "aiModePref (manual_onerror s) = aiModePref s"
  "navigatorOnLine (manual_onerror s) = navigatorOnLine s"
  "caps (manual_onerror s) = caps s"
  "startBtnDisabled (manual_onerror s) = startBtnDisabled s"
  "stopBtnDisabled (manual_onerror s) = stopBtnDisabled s"
  "voiceBtnDisabled (manual_onerror s) = voiceBtnDisabled s"
  "distanceText (manual_onerror s) = distanceText s"
  "timeText (manual_onerror s) = timeText s"
  "paceText (manual_onerror s) = paceText s"
  "speedText (manual_onerror s) = speedText s"
  "caloriesText (manual_onerror s) = caloriesText s"
  by (simp_all add: manual_onerror_def)

lemma startManualVoiceCommand_frame [frame, simp]:
  "isRunning (startManualVoiceCommand s) = isRunning s"
  "startTime (startManualVoiceCommand s) = startTime s"
  "totalDistance (startManualVoiceCommand s) = totalDistance s"
  "positions (startManualVoiceCommand s) = positions s"
  "watchId (startManualVoiceCommand s) = watchId s"
  "stepCount (startManualVoiceCommand s) = stepCount s"
  "estimatedDistanceFromSteps (startManualVoiceCommand s) = estimatedDistanceFromSteps s"
  "lastAnnouncedKm (startManualVoiceCommand s) = lastAnnouncedKm s"
  "voiceRecognition (startManualVoiceCommand s) = voiceRecognition s"
  "wakeLock (startManualVoiceCommand s) = wakeLock s"
  "useAI (startManualVoiceCommand s) = useAI s"
  "aiCoach (startManualVoiceCommand s) = aiCoach s"
  "watchers (startManualVoiceCommand s) = watchers s"
  "nextWatchId (startManualVoiceCommand s) = nextWatchId s"
  "motionListener (startManualVoiceCommand s) = motionListener s"
  "timers (startManualVoiceCommand s) = timers s"
  "pendingFix (startManualVoiceCommand s) = pendingFix s"
  "pendingMotionPermission (startManualVoiceCommand s) = pendingMotionPermission s"
  "pendingAI (startManualVoiceCommand s) = pendingAI s"
  "runHistory (startManualVoiceCommand s) = runHistory s"
  "aiModePref (startManualVoiceCommand s) = aiModePref s"
  "navigatorOnLine (startManualVoiceCommand s) = navigatorOnLine s"
  "caps (startManualVoiceCommand s) = caps s"
  "startBtnDisabled (startManualVoiceCommand s) = startBtnDisabled s"
  "stopBtnDisabled (startManualVoiceCommand s) = stopBtnDisabled s"
  "voiceBtnDisabled (startManualVoiceCommand s) = voiceBtnDisabled s"
  "distanceText (startManualVoiceCommand s) = distanceText s"
  "timeText (startManualVoiceCommand s) = timeText s"
  "paceText (startManualVoiceCommand s) = paceText s"
  "speedText (startManualVoiceCommand s) = speedText s"
  "caloriesText (startManualVoiceCommand s) = caloriesText s"
  by (simp_all add: startManualVoiceCommand_def)

text \<open>
  The voice button outside a run only speaks. Its recogniser hands the transcript
  to the same routine as the one of the run, without trimming it and without the
  test of \<^verbatim>\<open>isFinal\<close>; the filter of short transcripts is the one inside
  \<^verbatim>\<open>processVoiceCommand\<close>.
\<close>

lemma startManualVoiceCommand_idle:
  "\<not> isRunning s \<Longrightarrow>
   startManualVoiceCommand s = speak ''Start a run first to use voice commands.'' s"
  by (simp add: startManualVoiceCommand_def)

lemma said_startManualVoiceCommand:
  "hasSpeechSynthesis (caps s) \<Longrightarrow>
   said (startManualVoiceCommand s) = said s @
     [if \<not> isRunning s then ''Start a run first to use voice commands.''
      else if \<not> hasSpeechRecognition (caps s) then ''Voice recognition not available.''
      else ''Listening...'']"
  by (simp add: startManualVoiceCommand_def said_def speak_def)

lemma manual_onresult_noise:
  "length (trim (toLowerCase transcript)) < 3 \<Longrightarrow> manual_onresult now transcript s = s"
  by (simp add: manual_onresult_def processVoiceCommand_def)

lemma recognizers_startManualVoiceCommand:
  "recognizers (startManualVoiceCommand s) =
     (if isRunning s \<and> hasSpeechRecognition (caps s) then recognizers s @ [RecManual] else recognizers s)"
  by (simp add: startManualVoiceCommand_def)

section \<open>Properties of the voice pipeline\<close>

text \<open>The run of theory \<open>Display\<close> with a monitoring recogniser, idle and listening.\<close>

definition rec_ended :: app where
  "rec_ended = at_one_km\<lparr>recognizers := [RecIdle], voiceRecognition := Some 0\<rparr>"

text \<open>The same run with an assistant that is online.\<close>

definition with_coach :: app where
  "with_coach = at_one_km\<lparr>useAI := True, aiCoach := Some (new_coach ''k-0123456789'' True)\<rparr>"

text \<open>
  C25. A final transcript that has two characters or fewer once lowered and trimmed
  is discarded: the state is unchanged, and so is it for a transcript that is not
  final.
\<close>

theorem onresult_noise:
  assumes "\<not> isFinal \<or> length (trim (toLowerCase transcript)) \<le> 2"
  shows "onresult now isFinal transcript s = s"
  using assms by (auto simp: onresult_def Let_def)

theorem onresult_noise_witness: "onresult 301000 True ''  Ok '' at_one_km = at_one_km"
  using onresult_noise [of True "''  Ok ''" 301000 at_one_km]
  by (simp add: string_defs)

text \<open>
  C21. A command that is answered by the basic handler and contains \<^verbatim>\<open>stop\<close>, \<^verbatim>\<open>done\<close> or
  \<^verbatim>\<open>finish\<close> sets the stop of the run for one second later, whatever the answer is.
\<close>

theorem processVoiceCommand_stop:
  assumes "3 \<le> length (trim command)" and "is_stop_command command"
    and "\<not> (shouldUseAI s \<and> for_assistant command)"
  shows "timers (processVoiceCommand now command s) = timers s @ [(now + 1000, DelayedStop)]"
  using assms by (simp add: processVoiceCommand_basic finish_command_timers)

theorem processVoiceCommand_stop_witness:
  "timers (processVoiceCommand 301000 ''time to stop'' at_one_km) = [(302000, DelayedStop)]"
  using processVoiceCommand_stop [of "''time to stop''" at_one_km 301000]
  by (simp add: string_defs is_stop_command_def shouldUseAI_def at_one_km_def fixture_defs)

text \<open>
  C22. When the assistant has answered a command that contains \<^verbatim>\<open>stop\<close>, \<^verbatim>\<open>done\<close> or
  \<^verbatim>\<open>finish\<close>, the stop of the run is set for one second later, whatever the answer is.
\<close>

theorem command_reply_stop:
  assumes "is_stop_command command"
  shows "timers (command_reply now command (Inr response) s) = timers s @ [(now + 1000, DelayedStop)]"
  using assms by (simp add: command_reply_def finish_command_timers)

theorem command_reply_stop_witness:
  "timers (command_reply 301000 ''coach i am done'' (Inr ''Well run!'') with_coach)
     = [(302000, DelayedStop)]"
  using command_reply_stop [of "''coach i am done''" 301000 "''Well run!''" with_coach]
  by (simp add: string_defs is_stop_command_def with_coach_def at_one_km_def fixture_defs)

text \<open>
  C23. When the assistant fails, the command is answered by the \<^verbatim>\<open>catch\<close> branch, which
  sets no stop: a command to stop that was sent to the assistant is lost with the
  request. One utterance is spoken and no timer is added, whatever the command.
\<close>

theorem command_reply_failure:
  "timers (command_reply now command (Inl e) s) = timers s \<and>
   isRunning (command_reply now command (Inl e) s) = isRunning s \<and>
   length (spoken (command_reply now command (Inl e) s)) =
     length (spoken s) + (if hasSpeechSynthesis (caps s) then 1 else 0)"
  by (simp add: command_reply_def command_fallback_def Let_def length_spoken_speak)

text \<open>
  C24. A command goes to the assistant exactly when it has three characters or more
  once trimmed, the assistant mode is on, the assistant is online and has a key,
  and the command names the coach, says hey, or is longer than ten characters.
\<close>

theorem processVoiceCommand_routing:
  "length (pendingAI (processVoiceCommand now command s)) =
     length (pendingAI s) +
       (if 3 \<le> length (trim command) \<and> shouldUseAI s \<and> for_assistant command \<and>
           apiKey (the (aiCoach s)) \<noteq> []
        then 1 else 0)"
proof (cases "3 \<le> length (trim command) \<and> shouldUseAI s \<and> for_assistant command")
  case True
  then obtain c where c: "aiCoach s = Some c"
    using shouldUseAI_coach by blast
  show ?thesis
  proof (cases "apiKey c = []")
    case True
    with \<open>3 \<le> length (trim command) \<and> shouldUseAI s \<and> for_assistant command\<close> c show ?thesis
      by (simp add: processVoiceCommand_rejected)
  next
    case False
    with \<open>3 \<le> length (trim command) \<and> shouldUseAI s \<and> for_assistant command\<close> c show ?thesis
      by (simp add: processVoiceCommand_assistant enqueue_query_def)
  qed
next
  case False
  then show ?thesis
    by (cases "3 \<le> length (trim command)")
      (auto simp: processVoiceCommand_noise processVoiceCommand_basic)
qed

text \<open>
  The classifier takes the first match in the order distance, pace, time, stop:
  five minutes into the run at 1.02 km, \<^verbatim>\<open>time to stop\<close> is answered with the elapsed
  time, and \<^verbatim>\<open>how far is the finish\<close> with the distance.
\<close>

theorem handleBasicCommand_precedence:
  "fst (handleBasicCommand 301000 ''time to stop'' at_one_km) = ''Elapsed time: 05:00'' \<and>
   fst (handleBasicCommand 301000 ''how far is the finish'' at_one_km) =
     ''You'' @ [CHR 0x27] @ ''ve run 1.02 kilometers!''"
  by (simp add: handleBasicCommand_def at_one_km_def fixture_defs js_defs Let_def
      calculateTimeElapsed_def)

text \<open>
  C26. When the recogniser of a run ends, its restart is set for half a second
  later, and the restart puts it back to listening.
\<close>

theorem onend_restart:
  assumes "isRunning s" and "voiceRecognition s = Some i" and "i < length (recognizers s)"
    and "recognizers s ! i = RecIdle"
  shows "timers (onend now s) = timers s @ [(now + 500, RestartVoice)] \<and>
    recognizers (restartVoice (onend now s)) ! i = RecListening"
  using assms by (simp add: onend_def restartVoice_idle)

theorem onend_restart_witness:
  "timers (onend 301000 rec_ended) = [(301500, RestartVoice)] \<and>
   recognizers (restartVoice (onend 301000 rec_ended)) ! 0 = RecListening"
  using onend_restart [of rec_ended 0 301000]
  by (simp add: rec_ended_def at_one_km_def fixture_defs)

text \<open>
  Once monitoring has been stopped, a restart that was still pending does
  nothing; and of two restarts in a row, as an error followed by an end sets them,
  the second does nothing.
\<close>

theorem restartVoice_harmless:
  "restartVoice (stopVoiceMonitoring s) = stopVoiceMonitoring s \<and>
   restartVoice (restartVoice s) = restartVoice s"
proof
  show "restartVoice (stopVoiceMonitoring s) = stopVoiceMonitoring s"
    by (simp add: restartVoice_None)
  show "restartVoice (restartVoice s) = restartVoice s"
  proof (cases "voiceRecognition s")
    case None
    then show ?thesis by (simp add: restartVoice_None)
  next
    case (Some i)
    show ?thesis
    proof (cases "recognizers s ! i = RecIdle \<and> i < length (recognizers s)")
      case True
      with Some have "restartVoice s = s\<lparr>recognizers := (recognizers s)[i := RecListening]\<rparr>"
        by (simp add: restartVoice_idle)
      moreover from True Some have "restartVoice \<dots> = \<dots>"
        by (intro restartVoice_busy [of _ i]) simp_all
      ultimately show ?thesis by simp
    next
      case False
      with Some have "restartVoice s = s"
        by (auto simp: restartVoice_def rec_start_def list_update_beyond)
      then show ?thesis by simp
    qed
  qed
qed

text \<open>
  C32. The two entries of the pipeline agree: the recogniser of the run handles a
  final transcript exactly as the recogniser of the voice button handles the same
  transcript trimmed. The one lowers and trims and drops what is shorter than three
  characters before it calls \<^verbatim>\<open>processVoiceCommand\<close>; the other only lowers, and
  \<^verbatim>\<open>processVoiceCommand\<close> drops it.
\<close>

theorem onresult_manual_onresult:
  "onresult now True transcript s = manual_onresult now (trim transcript) s"
proof -
  let ?ft = "trim (toLowerCase transcript)"
  have "processVoiceCommand now ?ft s = s" if "length ?ft \<le> 2"
    using that by (simp add: processVoiceCommand_def)
  then show ?thesis
    by (simp add: onresult_def manual_onresult_def Let_def trim_toLowerCase [symmetric])
qed

end
