(* ===== verification/History.thy ===== *)
theory History
  imports Metrics
begin

text \<open>
  The run history, \<^verbatim>\<open>saveRunHistory\<close> of \<^verbatim>\<open>src/app.js\<close> (lines 957-970). The
  \<^verbatim>\<open>localStorage\<close> entry is the field \<open>runHistory\<close>, a list of records in place of its
  JSON text; the date of a record is the time stamp the ISO string is printed from.
  The lemmas show that the stored history holds the fifty latest runs, the new one
  last.
\<close>

section \<open>Definitions\<close>

definition RUN_HISTORY_CAP :: nat where "RUN_HISTORY_CAP = 50"

text \<open>Line 960: \<^verbatim>\<open>parseFloat(x.toFixed(2))\<close>, the value of the two-decimal print of \<open>x\<close>.\<close>

definition round2 :: "real \<Rightarrow> real" where
  "round2 x =
     (if x < 0 then - (of_int (js_round (- x * 10 ^ 2)) / 10 ^ 2)
      else of_int (js_round (x * 10 ^ 2)) / 10 ^ 2)"

text \<open>
  Lines 958-963. The date is kept as the time stamp; the script stores its ISO
  string (line 959), another print of the same instant.
\<close>

definition run_record :: "ms \<Rightarrow> app \<Rightarrow> run" where
  "run_record now s =
     \<lparr>date = now,
      distance = round2 (totalDistance s),
      run_time = calculateTimeElapsed now s,
      pace = calculatePace (totalDistance s) (calculateTimeElapsed now s)\<rparr>"

text \<open>Lines 957-970.\<close>

definition saveRunHistory :: "ms \<Rightarrow> app \<Rightarrow> app" where
  "saveRunHistory now s =
     s\<lparr>runHistory := slice_last RUN_HISTORY_CAP (runHistory s @ [run_record now s])\<rparr>"

lemmas history_defs [handler_defs] = round2_def run_record_def saveRunHistory_def

section \<open>The stored history\<close>

lemma round2_error: "\<bar>round2 x - x\<bar> \<le> 1 / 200"
proof -
  have "\<bar>of_int (js_round y) / 100 - y / 100\<bar> \<le> 1 / 200" for y :: real
    using js_round_bounds [of y] unfolding abs_le_iff by linarith
  from this [of "x * 100"] this [of "- x * 100"] show ?thesis
    unfolding round2_def abs_le_iff by (simp split: if_splits)
qed

lemma round2_nonneg: "0 \<le> x \<Longrightarrow> 0 \<le> round2 x"
  by (simp add: round2_def js_round_def)

lemma length_saveRunHistory:
  "length (runHistory (saveRunHistory now s)) = min RUN_HISTORY_CAP (Suc (length (runHistory s)))"
  by (simp add: saveRunHistory_def)

lemma saveRunHistory_last: "last (runHistory (saveRunHistory now s)) = run_record now s"
  by (simp add: saveRunHistory_def RUN_HISTORY_CAP_def)

lemma saveRunHistory_room:
  "length (runHistory s) < RUN_HISTORY_CAP \<Longrightarrow>
   runHistory (saveRunHistory now s) = runHistory s @ [run_record now s]"
  by (simp add: saveRunHistory_def slice_last_all)

lemma saveRunHistory_full:
  "length (runHistory s) = RUN_HISTORY_CAP \<Longrightarrow>
   runHistory (saveRunHistory now s) = tl (runHistory s) @ [run_record now s]"
  by (simp add: saveRunHistory_def slice_last_snoc_full RUN_HISTORY_CAP_def)

lemma saveRunHistory_frame [frame, simp]:
  "isRunning (saveRunHistory now s) = isRunning s"
  "startTime (saveRunHistory now s) = startTime s"
  "totalDistance (saveRunHistory now s) = totalDistance s"
  "positions (saveRunHistory now s) = positions s"
  "watchId (saveRunHistory now s) = watchId s"
  "stepCount (saveRunHistory now s) = stepCount s"
  "estimatedDistanceFromSteps (saveRunHistory now s) = estimatedDistanceFromSteps s"
  "lastAnnouncedKm (saveRunHistory now s) = lastAnnouncedKm s"
  "voiceRecognition (saveRunHistory now s) = voiceRecognition s"
  "wakeLock (saveRunHistory now s) = wakeLock s"
  "useAI (saveRunHistory now s) = useAI s"
  "aiCoach (saveRunHistory now s) = aiCoach s"
  "watchers (saveRunHistory now s) = watchers s"
  "nextWatchId (saveRunHistory now s) = nextWatchId s"
  "recognizers (saveRunHistory now s) = recognizers s"
  "motionListener (saveRunHistory now s) = motionListener s"
  "timers (saveRunHistory now s) = timers s"
  "pendingFix (saveRunHistory now s) = pendingFix s"
  "pendingMotionPermission (saveRunHistory now s) = pendingMotionPermission s"
  "pendingAI (saveRunHistory now s) = pendingAI s"
  "spoken (saveRunHistory now s) = spoken s"
  "aiModePref (saveRunHistory now s) = aiModePref s"
  "navigatorOnLine (saveRunHistory now s) = navigatorOnLine s"
  "caps (saveRunHistory now s) = caps s"
  "startBtnDisabled (saveRunHistory now s) = startBtnDisabled s"
  "stopBtnDisabled (saveRunHistory now s) = stopBtnDisabled s"
  "voiceBtnDisabled (saveRunHistory now s) = voiceBtnDisabled s"
  "distanceText (saveRunHistory now s) = distanceText s"
  "timeText (saveRunHistory now s) = timeText s"
  "paceText (saveRunHistory now s) = paceText s"
  "speedText (saveRunHistory now s) = speedText s"
  "caloriesText (saveRunHistory now s) = caloriesText s"
  by (simp_all add: saveRunHistory_def)

text \<open>
  The stored history never holds more than fifty runs, whatever it held
  before, and the run just saved is its last entry.
\<close>

theorem saveRunHistory_cap:
  "length (runHistory (saveRunHistory now s)) \<le> RUN_HISTORY_CAP \<and>
   last (runHistory (saveRunHistory now s)) = run_record now s"
  by (simp add: length_saveRunHistory saveRunHistory_last)

text \<open>
  C27. Saving a run to a history of fifty drops the oldest run and keeps the other
  forty-nine in their order.
\<close>

theorem saveRunHistory_evicts:
  assumes "length (runHistory s) = RUN_HISTORY_CAP"
  shows "runHistory (saveRunHistory now s) = tl (runHistory s) @ [run_record now s] \<and>
    length (runHistory (saveRunHistory now s)) = RUN_HISTORY_CAP"
  using assms by (simp add: saveRunHistory_full length_saveRunHistory RUN_HISTORY_CAP_def)

text \<open>A history of fifty runs: the first of one kilometre, the others of two.\<close>

definition old_run :: "real \<Rightarrow> run" where
  "old_run d = \<lparr>date = 0, distance = d, run_time = 600000, pace = ''5:00''\<rparr>"

definition full_history :: app where
  "full_history = (load_script (blank_page full_caps))
     \<lparr>runHistory := old_run 1 # replicate 49 (old_run 2)\<rparr>"

theorem saveRunHistory_evicts_witness:
  "runHistory (saveRunHistory 1000 full_history) =
     replicate 49 (old_run 2) @ [\<lparr>date = 1000, distance = 0, run_time = 0, pace = ''0:00''\<rparr>]"
  using saveRunHistory_evicts [of full_history 1000]
  by (simp add: full_history_def RUN_HISTORY_CAP_def fixture_defs run_record_def round2_def
      calculatePace_def js_round_def calculateTimeElapsed_def)

end
