(* ===== verification/Session.thy ===== *)
theory Session
  imports Fusion Voice History
begin

text \<open>
  The session of \<^verbatim>\<open>src/app.js\<close>: the start of the page (lines 36-43, 96-140, 177-182,
  196-207), \<^verbatim>\<open>startRun\<close> (212-271), \<^verbatim>\<open>stopRun\<close> (421-482), \<^verbatim>\<open>updateTimer\<close> (973-977), the
  toggle of the assistant mode (163-175) and the network events (720-730,
  1001-1015), and the event loop that runs them. An asynchronous function is split at
  its \<^verbatim>\<open>await\<close>: \<open>startRun\<close> asks for a position and \<open>startRun_resume\<close> or
  \<open>startRun_failed\<close> runs when the answer is there; \<open>stopRun\<close> runs up to the request
  for a summary and \<open>summary_reply\<close> after it. \<open>step\<close> runs the handler of one event
  to its end, as the browser does, at the time the event is handled; an event that
  cannot occur in a state (a click on a disabled button, a callback of a cleared
  watch, a timer that is not due) leaves the state as it is.

  \<open>reachable\<close> collects the states of all event sequences from a freshly loaded
  page. The invariants are proved by rule induction over it from the lemmas of the
  component theories.
\<close>

section \<open>Loading the page\<close>

text \<open>Lines 196-207, with the rejection handled as \<^verbatim>\<open>catch\<close> does.\<close>

definition testAIConnection :: "app \<Rightarrow> app" where
  "testAIConnection s =
     (case aiCoach s of
        None \<Rightarrow> s
      | Some c \<Rightarrow>
          (case queryGemini_begin c of
             Inr _ \<Rightarrow> enqueue_query ''Say hello as a running coach'' TestConnection s
           | Inl _ \<Rightarrow> s\<lparr>useAI := False\<rparr>))"

definition test_reply :: "ai_error + string \<Rightarrow> app \<Rightarrow> app" where
  "test_reply r s = (case r of Inr _ \<Rightarrow> s | Inl _ \<Rightarrow> s\<lparr>useAI := False\<rparr>)"

text \<open>Lines 177-182: the saved preference is read when the toggle button is made.\<close>

definition addAIToggleButton :: "app \<Rightarrow> app" where
  "addAIToggleButton s = (if aiModePref s = Some ''off'' then s\<lparr>useAI := False\<rparr> else s)"

text \<open>Lines 96-111.\<close>

definition checkPermissions :: "app \<Rightarrow> app" where
  "checkPermissions s =
     (let s1 = (if \<not> hasGeolocation (caps s) then s\<lparr>startBtnDisabled := True\<rparr> else s)
      in if \<not> hasSpeechRecognition (caps s1) then s1\<lparr>voiceBtnDisabled := True\<rparr> else s1)"

text \<open>Lines 115-140.\<close>

definition initializeAI :: "app \<Rightarrow> app" where
  "initializeAI s =
     (case configApiKey (caps s) of
        Some key \<Rightarrow>
          if key \<noteq> [] \<and> length key > 10 then
            testAIConnection (s\<lparr>aiCoach := Some (new_coach key (navigatorOnLine s)), useAI := True\<rparr>)
          else speak ''AI Coach unavailable. Using basic mode.'' (s\<lparr>useAI := False\<rparr>)
      | None \<Rightarrow> speak ''AI Coach unavailable. Using basic mode.'' (s\<lparr>useAI := False\<rparr>))"

text \<open>Lines 36-43: the handler of \<^verbatim>\<open>DOMContentLoaded\<close>.\<close>

definition initialize :: "app \<Rightarrow> app" where
  "initialize s = initializeAI (checkPermissions (addAIToggleButton s))"

text \<open>Lines 163-175: a click on the toggle button.\<close>

definition toggleAI :: "app \<Rightarrow> app" where
  "toggleAI s =
     (case aiCoach s of
        None \<Rightarrow> speak ''AI Coach not available. Check API key in config.js'' s
      | Some _ \<Rightarrow>
          let s1 = s\<lparr>useAI := \<not> useAI s\<rparr>;
              s2 = speak (if useAI s1 then ''AI Coach activated!'' else ''Basic mode activated'') s1
          in s2\<lparr>aiModePref := Some (if useAI s2 then ''on'' else ''off'')\<rparr>)"

text \<open>Lines 721-724 and 1001-1008, in the order the listeners were added.\<close>

definition online :: "app \<Rightarrow> app" where
  "online s =
     (let s1 = s\<lparr>navigatorOnLine := True, aiCoach := map_option (coach_online True) (aiCoach s)\<rparr>
      in if useAI s1 \<and> aiCoach s1 \<noteq> None
         then speak ''Back online! AI Coach is ready.'' s1 else s1)"

text \<open>Lines 726-729 and 1010-1015.\<close>

definition offline :: "app \<Rightarrow> app" where
  "offline s =
     (let s1 = s\<lparr>navigatorOnLine := False, aiCoach := map_option (coach_online False) (aiCoach s)\<rparr>
      in if useAI s1 then speak ''Offline. Using basic mode.'' s1 else s1)"

section \<open>Starting a run\<close>

text \<open>Lines 973-977.\<close>

definition updateTimer :: "ms \<Rightarrow> app \<Rightarrow> app" where
  "updateTimer now s = (if \<not> isRunning s then s else setTimeout Tick 1000 now (updateUI now s))"

text \<open>Lines 267-270: the \<^verbatim>\<open>catch\<close> branch.\<close>

definition startRun_failed :: "app \<Rightarrow> app" where
  "startRun_failed s = speak ''Could not start run. Please check location permissions.'' s"

text \<open>
  Lines 212-231: up to the request for the position. Without geolocation the
  request throws at once.
\<close>

definition startRun :: "app \<Rightarrow> app" where
  "startRun s =
     (let s1 = (case wakeLock s of Some _ \<Rightarrow> s\<lparr>wakeLock := None\<rparr> | None \<Rightarrow> s)
      in if hasGeolocation (caps s1) then s1\<lparr>pendingFix := pendingFix s1 + 1\<rparr>
         else startRun_failed s1)"

text \<open>Lines 233-236.\<close>

definition greeting :: "app \<Rightarrow> string" where
  "greeting s =
     (if useAI s \<and> aiCoach s \<noteq> None
      then ''Run started! Your AI coach is ready. Say anything to me!''
      else ''Run started! Say '' @ [CHR 0x27] @ ''how far'' @ [CHR 0x27] @ '', '' @
           [CHR 0x27] @ ''pace'' @ [CHR 0x27] @ '', '' @ [CHR 0x27] @ ''time'' @ [CHR 0x27] @
           '', or '' @ [CHR 0x27] @ ''stop'' @ [CHR 0x27] @ ''.'')"

text \<open>Lines 233-266: the position has arrived.\<close>

definition startRun_resume :: "ms \<Rightarrow> coords \<Rightarrow> app \<Rightarrow> app" where
  "startRun_resume now c s =
     (let s1 = speak (greeting s) s;
          s2 = s1\<lparr>totalDistance := 0,
                  positions := [\<lparr>lat = latitude c, lon = longitude c, time = now,
                                 accuracy = coords_accuracy c\<rparr>],
                  startTime := Some now,
                  isRunning := True,
                  stepCount := 0,
                  lastAnnouncedKm := 0\<rparr>;
          s3 = updateUI now s2;
          s4 = s3\<lparr>startBtnDisabled := True, stopBtnDisabled := False\<rparr>;
          s5 = startGPSTracking s4;
          s6 = startStepDetection s5;
          s7 = startVoiceMonitoring s6
      in updateTimer now s7)"

section \<open>Stopping a run\<close>

text \<open>Lines 471-476.\<close>

definition stopRun_finish :: "ms \<Rightarrow> app \<Rightarrow> app" where
  "stopRun_finish now s = (saveRunHistory now s)\<lparr>startBtnDisabled := False, stopBtnDisabled := True\<rparr>"

text \<open>Lines 460-462 and 466-468: the two fixed summaries.\<close>

definition basic_summary :: "km \<Rightarrow> ms \<Rightarrow> string \<Rightarrow> string" where
  "basic_summary d t p =
     ''Run completed! '' @ toFixed 2 d @ '' km in '' @ formatTime t @ ''. Pace: '' @ p @ ''/km.''"

definition failed_summary :: "km \<Rightarrow> ms \<Rightarrow> string" where
  "failed_summary d t =
     ''Run done! You ran '' @ toFixed 2 d @ '' kilometers in '' @ formatTime t @ ''.''"

text \<open>Lines 421-469: up to the request for a summary, or to the end where none is made.\<close>

definition stopRun :: "ms \<Rightarrow> app \<Rightarrow> app" where
  "stopRun now s =
     (if \<not> isRunning s then s
      else
        let s1 = s\<lparr>isRunning := False\<rparr>;
            s2 = (case watchId s1 of
                    Some w \<Rightarrow> (clearWatch w s1)\<lparr>watchId := None\<rparr>
                  | None \<Rightarrow> s1);
            s3 = stopVoiceMonitoring s2;
            s4 = (case wakeLock s3 of Some _ \<Rightarrow> s3\<lparr>wakeLock := None\<rparr> | None \<Rightarrow> s3);
            t = calculateTimeElapsed now s4;
            p = calculatePace (totalDistance s4) t
        in case aiCoach s4 of
             Some c \<Rightarrow>
               if useAI s4 \<and> isOnline c then
                 (case queryGemini_begin c of
                    Inr _ \<Rightarrow> enqueue_query (getRunSummary (totalDistance s4) t p) (SummaryReply t) s4
                  | Inl _ \<Rightarrow> stopRun_finish now (speak (failed_summary (totalDistance s4) t) s4))
               else stopRun_finish now (speak (basic_summary (totalDistance s4) t p) s4)
           | None \<Rightarrow> stopRun_finish now (speak (basic_summary (totalDistance s4) t p) s4))"

text \<open>Lines 457-476: the summary has arrived, or the request has failed.\<close>

definition summary_reply :: "ms \<Rightarrow> ms \<Rightarrow> ai_error + string \<Rightarrow> app \<Rightarrow> app" where
  "summary_reply now t r s =
     (case r of
        Inr summary \<Rightarrow> stopRun_finish now (speak summary s)
      | Inl _ \<Rightarrow> stopRun_finish now (speak (failed_summary (totalDistance s) t) s))"

text \<open>Lines 893-894: the assistant's announcement of a kilometre, or the basic one.\<close>

definition milestone_reply :: "int \<Rightarrow> string \<Rightarrow> ai_error + string \<Rightarrow> app \<Rightarrow> app" where
  "milestone_reply k p r s =
     (case r of Inr response \<Rightarrow> speak response s | Inl _ \<Rightarrow> speakBasicMilestone k p s)"

lemmas session_defs [handler_defs] =
  testAIConnection_def test_reply_def addAIToggleButton_def checkPermissions_def initializeAI_def
  initialize_def toggleAI_def online_def offline_def updateTimer_def startRun_failed_def
  startRun_def greeting_def startRun_resume_def stopRun_finish_def basic_summary_def
  failed_summary_def stopRun_def summary_reply_def milestone_reply_def

lemma testAIConnection_frame [frame, simp]:
  "isRunning (testAIConnection s) = isRunning s"
  "startTime (testAIConnection s) = startTime s"
  "totalDistance (testAIConnection s) = totalDistance s"
  "positions (testAIConnection s) = positions s"
  "watchId (testAIConnection s) = watchId s"
  "stepCount (testAIConnection s) = stepCount s"
  "estimatedDistanceFromSteps (testAIConnection s) = estimatedDistanceFromSteps s"
  "lastAnnouncedKm (testAIConnection s) = lastAnnouncedKm s"
  "voiceRecognition (testAIConnection s) = voiceRecognition s"
  "wakeLock (testAIConnection s) = wakeLock s"
  "aiCoach (testAIConnection s) = aiCoach s"
  "watchers (testAIConnection s) = watchers s"
  "nextWatchId (testAIConnection s) = nextWatchId s"
  "recognizers (testAIConnection s) = recognizers s"
  "motionListener (testAIConnection s) = motionListener s"
  "timers (testAIConnection s) = timers s"
  "pendingFix (testAIConnection s) = pendingFix s"
  "pendingMotionPermission (testAIConnection s) = pendingMotionPermission s"
  "spoken (testAIConnection s) = spoken s"
  "runHistory (testAIConnection s) = runHistory s"
  "aiModePref (testAIConnection s) = aiModePref s"
  "navigatorOnLine (testAIConnection s) = navigatorOnLine s"
  "caps (testAIConnection s) = caps s"
  "startBtnDisabled (testAIConnection s) = startBtnDisabled s"
  "stopBtnDisabled (testAIConnection s) = stopBtnDisabled s"
  "voiceBtnDisabled (testAIConnection s) = voiceBtnDisabled s"
  "distanceText (testAIConnection s) = distanceText s"
  "timeText (testAIConnection s) = timeText s"
  "paceText (testAIConnection s) = paceText s"
  "speedText (testAIConnection s) = speedText s"
  "caloriesText (testAIConnection s) = caloriesText s"
  by (simp_all add: testAIConnection_def split: option.split sum.split)

lemma test_reply_frame [frame, simp]:
  "isRunning (test_reply r s) = isRunning s"
  "startTime (test_reply r s) = startTime s"
  "totalDistance (test_reply r s) = totalDistance s"
  "positions (test_reply r s) = positions s"
  "watchId (test_reply r s) = watchId s"
  "stepCount (test_reply r s) = stepCount s"
  "estimatedDistanceFromSteps (test_reply r s) = estimatedDistanceFromSteps s"
  "lastAnnouncedKm (test_reply r s) = lastAnnouncedKm s"
  "voiceRecognition (test_reply r s) = voiceRecognition s"
  "wakeLock (test_reply r s) = wakeLock s"
  "aiCoach (test_reply r s) = aiCoach s"
  "watchers (test_reply r s) = watchers s"
  "nextWatchId (test_reply r s) = nextWatchId s"
  "recognizers (test_reply r s) = recognizers s"
  "motionListener (test_reply r s) = motionListener s"
  "timers (test_reply r s) = timers s"
  "pendingFix (test_reply r s) = pendingFix s"
  "pendingMotionPermission (test_reply r s) = pendingMotionPermission s"
  "pendingAI (test_reply r s) = pendingAI s"
  "spoken (test_reply r s) = spoken s"
  "runHistory (test_reply r s) = runHistory s"
  "aiModePref (test_reply r s) = aiModePref s"
  "navigatorOnLine (test_reply r s) = navigatorOnLine s"
  "caps (test_reply r s) = caps s"
  "startBtnDisabled (test_reply r s) = startBtnDisabled s"
  "stopBtnDisabled (test_reply r s) = stopBtnDisabled s"
  "voiceBtnDisabled (test_reply r s) = voiceBtnDisabled s"
  "distanceText (test_reply r s) = distanceText s"
  "timeText (test_reply r s) = timeText s"
  "paceText (test_reply r s) = paceText s"
  "speedText (test_reply r s) = speedText s"
  "caloriesText (test_reply r s) = caloriesText s"
  by (simp_all add: test_reply_def split: sum.split)

lemma addAIToggleButton_frame [frame, simp]:
  "isRunning (addAIToggleButton s) = isRunning s"
  "startTime (addAIToggleButton s) = startTime s"
  "totalDistance (addAIToggleButton s) = totalDistance s"
  "positions (addAIToggleButton s) = positions s"
  "watchId (addAIToggleButton s) = watchId s"
  "stepCount (addAIToggleButton s) = stepCount s"
  "estimatedDistanceFromSteps (addAIToggleButton s) = estimatedDistanceFromSteps s"
  "lastAnnouncedKm (addAIToggleButton s) = lastAnnouncedKm s"
  "voiceRecognition (addAIToggleButton s) = voiceRecognition s"
  "wakeLock (addAIToggleButton s) = wakeLock s"
  "aiCoach (addAIToggleButton s) = aiCoach s"
  "watchers (addAIToggleButton s) = watchers s"
  "nextWatchId (addAIToggleButton s) = nextWatchId s"
  "recognizers (addAIToggleButton s) = recognizers s"
  "motionListener (addAIToggleButton s) = motionListener s"
  "timers (addAIToggleButton s) = timers s"
  "pendingFix (addAIToggleButton s) = pendingFix s"
  "pendingMotionPermission (addAIToggleButton s) = pendingMotionPermission s"
  "pendingAI (addAIToggleButton s) = pendingAI s"
  "spoken (addAIToggleButton s) = spoken s"
  "runHistory (addAIToggleButton s) = runHistory s"
  "aiModePref (addAIToggleButton s) = aiModePref s"
  "navigatorOnLine (addAIToggleButton s) = navigatorOnLine s"
  "caps (addAIToggleButton s) = caps s"
  "startBtnDisabled (addAIToggleButton s) = startBtnDisabled s"
  "stopBtnDisabled (addAIToggleButton s) = stopBtnDisabled s"
  "voiceBtnDisabled (addAIToggleButton s) = voiceBtnDisabled s"
  "distanceText (addAIToggleButton s) = distanceText s"
  "timeText (addAIToggleButton s) = timeText s"
  "paceText (addAIToggleButton s) = paceText s"
  "speedText (addAIToggleButton s) = speedText s"
  "caloriesText (addAIToggleButton s) = caloriesText s"
  by (simp_all add: addAIToggleButton_def)

lemma checkPermissions_frame [frame, simp]:
  "isRunning (checkPermissions s) = isRunning s"
  "startTime (checkPermissions s) = startTime s"
  "totalDistance (checkPermissions s) = totalDistance s"
  "positions (checkPermissions s) = positions s"
  "watchId (checkPermissions s) = watchId s"
  "stepCount (checkPermissions s) = stepCount s"
  "estimatedDistanceFromSteps (checkPermissions s) = estimatedDistanceFromSteps s"
  "lastAnnouncedKm (checkPermissions s) = lastAnnouncedKm s"
  "voiceRecognition (checkPermissions s) = voiceRecognition s"
  "wakeLock (checkPermissions s) = wakeLock s"
  "useAI (checkPermissions s) = useAI s"
  "aiCoach (checkPermissions s) = aiCoach s"
  "watchers (checkPermissions s) = watchers s"
  "nextWatchId (checkPermissions s) = nextWatchId s"
  "recognizers (checkPermissions s) = recognizers s"
  "motionListener (checkPermissions s) = motionListener s"
  "timers (checkPermissions s) = timers s"
  "pendingFix (checkPermissions s) = pendingFix s"
  "pendingMotionPermission (checkPermissions s) = pendingMotionPermission s"
  "pendingAI (checkPermissions s) = pendingAI s"
  "spoken (checkPermissions s) = spoken s"
  "runHistory (checkPermissions s) = runHistory s"
  "aiModePref (checkPermissions s) = aiModePref s"
  "navigatorOnLine (checkPermissions s) = navigatorOnLine s"
  "caps (checkPermissions s) = caps s"
  "stopBtnDisabled (checkPermissions s) = stopBtnDisabled s"
  "distanceText (checkPermissions s) = distanceText s"
  "timeText (checkPermissions s) = timeText s"
  "paceText (checkPermissions s) = paceText s"
  "speedText (checkPermissions s) = speedText s"
  "caloriesText (checkPermissions s) = caloriesText s"
  by (simp_all add: checkPermissions_def Let_def)

lemma initializeAI_frame [frame, simp]:
  "isRunning (initializeAI s) = isRunning s"
  "startTime (initializeAI s) = startTime s"
  "totalDistance (initializeAI s) = totalDistance s"
  "positions (initializeAI s) = positions s"
  "watchId (initializeAI s) = watchId s"
  "stepCount (initializeAI s) = stepCount s"
  "estimatedDistanceFromSteps (initializeAI s) = estimatedDistanceFromSteps s"
  "lastAnnouncedKm (initializeAI s) = lastAnnouncedKm s"
  "voiceRecognition (initializeAI s) = voiceRecognition s"
  "wakeLock (initializeAI s) = wakeLock s"
  "watchers (initializeAI s) = watchers s"
  "nextWatchId (initializeAI s) = nextWatchId s"
  "recognizers (initializeAI s) = recognizers s"
  "motionListener (initializeAI s) = motionListener s"
  "timers (initializeAI s) = timers s"
  "pendingFix (initializeAI s) = pendingFix s"
  "pendingMotionPermission (initializeAI s) = pendingMotionPermission s"
  "runHistory (initializeAI s) = runHistory s"
  "aiModePref (initializeAI s) = aiModePref s"
  "navigatorOnLine (initializeAI s) = navigatorOnLine s"
  "caps (initializeAI s) = caps s"
  "startBtnDisabled (initializeAI s) = startBtnDisabled s"
  "stopBtnDisabled (initializeAI s) = stopBtnDisabled s"
  "voiceBtnDisabled (initializeAI s) = voiceBtnDisabled s"
  "distanceText (initializeAI s) = distanceText s"
  "timeText (initializeAI s) = timeText s"
  "paceText (initializeAI s) = paceText s"
  "speedText (initializeAI s) = speedText s"
  "caloriesText (initializeAI s) = caloriesText s"
  by (simp_all add: initializeAI_def split: option.split)

lemma toggleAI_frame [frame, simp]:
  "isRunning (toggleAI s) = isRunning s"
  "startTime (toggleAI s) = startTime s"
  "totalDistance (toggleAI s) = totalDistance s"
  "positions (toggleAI s) = positions s"
  "watchId (toggleAI s) = watchId s"
  "stepCount (toggleAI s) = stepCount s"
  "estimatedDistanceFromSteps (toggleAI s) = estimatedDistanceFromSteps s"
  "lastAnnouncedKm (toggleAI s) = lastAnnouncedKm s"
  "voiceRecognition (toggleAI s) = voiceRecognition s"
  "wakeLock (toggleAI s) = wakeLock s"
  "aiCoach (toggleAI s) = aiCoach s"
  "watchers (toggleAI s) = watchers s"
  "nextWatchId (toggleAI s) = nextWatchId s"
  "recognizers (toggleAI s) = recognizers s"
  "motionListener (toggleAI s) = motionListener s"
  "timers (toggleAI s) = timers s"
  "pendingFix (toggleAI s) = pendingFix s"
  "pendingMotionPermission (toggleAI s) = pendingMotionPermission s"
  "pendingAI (toggleAI s) = pendingAI s"
  "runHistory (toggleAI s) = runHistory s"
  "navigatorOnLine (toggleAI s) = navigatorOnLine s"
  "caps (toggleAI s) = caps s"
  "startBtnDisabled (toggleAI s) = startBtnDisabled s"
  "stopBtnDisabled (toggleAI s) = stopBtnDisabled s"
  "voiceBtnDisabled (toggleAI s) = voiceBtnDisabled s"
  "distanceText (toggleAI s) = distanceText s"
  "timeText (toggleAI s) = timeText s"
  "paceText (toggleAI s) = paceText s"
  "speedText (toggleAI s) = speedText s"
  "caloriesText (toggleAI s) = caloriesText s"
  by (simp_all add: toggleAI_def Let_def split: option.split)

lemma online_frame [frame, simp]:
  "isRunning (online s) = isRunning s"
  "startTime (online s) = startTime s"
  "totalDistance (online s) = totalDistance s"
  "positions (online s) = positions s"
  "watchId (online s) = watchId s"
  "stepCount (online s) = stepCount s"
  "estimatedDistanceFromSteps (online s) = estimatedDistanceFromSteps s"
  "lastAnnouncedKm (online s) = lastAnnouncedKm s"
  "voiceRecognition (online s) = voiceRecognition s"
  "wakeLock (online s) = wakeLock s"
  "useAI (online s) = useAI s"
  "watchers (online s) = watchers s"
  "nextWatchId (online s) = nextWatchId s"
  "recognizers (online s) = recognizers s"
  "motionListener (online s) = motionListener s"
  "timers (online s) = timers s"
  "pendingFix (online s) = pendingFix s"
  "pendingMotionPermission (online s) = pendingMotionPermission s"
  "pendingAI (online s) = pendingAI s"
  "runHistory (online s) = runHistory s"
  "aiModePref (online s) = aiModePref s"
  "caps (online s) = caps s"
  "startBtnDisabled (online s) = startBtnDisabled s"
  "stopBtnDisabled (online s) = stopBtnDisabled s"
  "voiceBtnDisabled (online s) = voiceBtnDisabled s"
  "distanceText (online s) = distanceText s"
  "timeText (online s) = timeText s"
  "paceText (online s) = paceText s"
  "speedText (online s) = speedText s"
  "caloriesText (online s) = caloriesText s"
  by (simp_all add: online_def Let_def)

lemma offline_frame [frame, simp]:
  "isRunning (offline s) = isRunning s"
  "startTime (offline s) = startTime s"
  "totalDistance (offline s) = totalDistance s"
  "positions (offline s) = positions s"
  "watchId (offline s) = watchId s"
  "stepCount (offline s) = stepCount s"
  "estimatedDistanceFromSteps (offline s) = estimatedDistanceFromSteps s"
  "lastAnnouncedKm (offline s) = lastAnnouncedKm s"
  "voiceRecognition (offline s) = voiceRecognition s"
  "wakeLock (offline s) = wakeLock s"
  "useAI (offline s) = useAI s"
  "watchers (offline s) = watchers s"
  "nextWatchId (offline s) = nextWatchId s"
  "recognizers (offline s) = recognizers s"
  "motionListener (offline s) = motionListener s"
  "timers (offline s) = timers s"
  "pendingFix (offline s) = pendingFix s"
  "pendingMotionPermission (offline s) = pendingMotionPermission s"
  "pendingAI (offline s) = pendingAI s"
  "runHistory (offline s) = runHistory s"
  "aiModePref (offline s) = aiModePref s"
  "caps (offline s) = caps s"
  "startBtnDisabled (offline s) = startBtnDisabled s"
  "stopBtnDisabled (offline s) = stopBtnDisabled s"
  "voiceBtnDisabled (offline s) = voiceBtnDisabled s"
  "distanceText (offline s) = distanceText s"
  "timeText (offline s) = timeText s"
  "paceText (offline s) = paceText s"
  "speedText (offline s) = speedText s"
  "caloriesText (offline s) = caloriesText s"
  by (simp_all add: offline_def Let_def)

lemma updateTimer_frame [frame, simp]:
  "isRunning (updateTimer now s) = isRunning s"
  "startTime (updateTimer now s) = startTime s"
  "totalDistance (updateTimer now s) = totalDistance s"
  "positions (updateTimer now s) = positions s"
  "watchId (updateTimer now s) = watchId s"
  "stepCount (updateTimer now s) = stepCount s"
  "estimatedDistanceFromSteps (updateTimer now s) = estimatedDistanceFromSteps s"
  "voiceRecognition (updateTimer now s) = voiceRecognition s"
  "wakeLock (updateTimer now s) = wakeLock s"
  "useAI (updateTimer now s) = useAI s"
  "aiCoach (updateTimer now s) = aiCoach s"
  "watchers (updateTimer now s) = watchers s"
  "nextWatchId (updateTimer now s) = nextWatchId s"
  "recognizers (updateTimer now s) = recognizers s"
  "motionListener (updateTimer now s) = motionListener s"
  "pendingFix (updateTimer now s) = pendingFix s"
  "pendingMotionPermission (updateTimer now s) = pendingMotionPermission s"
  "runHistory (updateTimer now s) = runHistory s"
  "aiModePref (updateTimer now s) = aiModePref s"
  "navigatorOnLine (updateTimer now s) = navigatorOnLine s"
  "caps (updateTimer now s) = caps s"
  "startBtnDisabled (updateTimer now s) = startBtnDisabled s"
  "stopBtnDisabled (updateTimer now s) = stopBtnDisabled s"
  "voiceBtnDisabled (updateTimer now s) = voiceBtnDisabled s"
  by (simp_all add: updateTimer_def)

lemma startRun_failed_frame [frame, simp]:
  "isRunning (startRun_failed s) = isRunning s"
  "startTime (startRun_failed s) = startTime s"
  "totalDistance (startRun_failed s) = totalDistance s"
  "positions (startRun_failed s) = positions s"
  "watchId (startRun_failed s) = watchId s"
  "stepCount (startRun_failed s) = stepCount s"
  "estimatedDistanceFromSteps (startRun_failed s) = estimatedDistanceFromSteps s"
  "lastAnnouncedKm (startRun_failed s) = lastAnnouncedKm s"
  "voiceRecognition (startRun_failed s) = voiceRecognition s"
  "wakeLock (startRun_failed s) = wakeLock s"
  "useAI (startRun_failed s) = useAI s"
  "aiCoach (startRun_failed s) = aiCoach s"
  "watchers (startRun_failed s) = watchers s"
  "nextWatchId (startRun_failed s) = nextWatchId s"
  "recognizers (startRun_failed s) = recognizers s"
  "motionListener (startRun_failed s) = motionListener s"
  "timers (startRun_failed s) = timers s"
  "pendingFix (startRun_failed s) = pendingFix s"
  "pendingMotionPermission (startRun_failed s) = pendingMotionPermission s"
  "pendingAI (startRun_failed s) = pendingAI s"
  "runHistory (startRun_failed s) = runHistory s"
  "aiModePref (startRun_failed s) = aiModePref s"
  "navigatorOnLine (startRun_failed s) = navigatorOnLine s"
  "caps (startRun_failed s) = caps s"
  "startBtnDisabled (startRun_failed s) = startBtnDisabled s"
  "stopBtnDisabled (startRun_failed s) = stopBtnDisabled s"
  "voiceBtnDisabled (startRun_failed s) = voiceBtnDisabled s"
  "distanceText (startRun_failed s) = distanceText s"
  "timeText (startRun_failed s) = timeText s"
  "paceText (startRun_failed s) = paceText s"
  "speedText (startRun_failed s) = speedText s"
  "caloriesText (startRun_failed s) = caloriesText s"
  by (simp_all add: startRun_failed_def)

lemma startRun_frame [frame, simp]:
  "isRunning (startRun s) = isRunning s"
  "startTime (startRun s) = startTime s"
  "totalDistance (startRun s) = totalDistance s"
  "positions (startRun s) = positions s"
  "watchId (startRun s) = watchId s"
  "stepCount (startRun s) = stepCount s"
  "estimatedDistanceFromSteps (startRun s) = estimatedDistanceFromSteps s"
  "lastAnnouncedKm (startRun s) = lastAnnouncedKm s"
  "voiceRecognition (startRun s) = voiceRecognition s"
  "useAI (startRun s) = useAI s"
  "aiCoach (startRun s) = aiCoach s"
  "watchers (startRun s) = watchers s"
  "nextWatchId (startRun s) = nextWatchId s"
  "recognizers (startRun s) = recognizers s"
  "motionListener (startRun s) = motionListener s"
  "timers (startRun s) = timers s"
  "pendingMotionPermission (startRun s) = pendingMotionPermission s"
  "pendingAI (startRun s) = pendingAI s"
  "runHistory (startRun s) = runHistory s"
  "aiModePref (startRun s) = aiModePref s"
  "navigatorOnLine (startRun s) = navigatorOnLine s"
  "caps (startRun s) = caps s"
  "startBtnDisabled (startRun s) = startBtnDisabled s"
  "stopBtnDisabled (startRun s) = stopBtnDisabled s"
  "voiceBtnDisabled (startRun s) = voiceBtnDisabled s"
  "distanceText (startRun s) = distanceText s"
  "timeText (startRun s) = timeText s"
  "paceText (startRun s) = paceText s"
  "speedText (startRun s) = speedText s"
  "caloriesText (startRun s) = caloriesText s"
  by (simp_all add: startRun_def Let_def split: option.split)

lemma stopRun_finish_frame [frame, simp]:
  "isRunning (stopRun_finish now s) = isRunning s"
  "startTime (stopRun_finish now s) = startTime s"
  "totalDistance (stopRun_finish now s) = totalDistance s"
  "positions (stopRun_finish now s) = positions s"
  "watchId (stopRun_finish now s) = watchId s"
  "stepCount (stopRun_finish now s) = stepCount s"
  "estimatedDistanceFromSteps (stopRun_finish now s) = estimatedDistanceFromSteps s"
  "lastAnnouncedKm (stopRun_finish now s) = lastAnnouncedKm s"
  "voiceRecognition (stopRun_finish now s) = voiceRecognition s"
  "wakeLock (stopRun_finish now s) = wakeLock s"
  "useAI (stopRun_finish now s) = useAI s"
  "aiCoach (stopRun_finish now s) = aiCoach s"
  "watchers (stopRun_finish now s) = watchers s"
  "nextWatchId (stopRun_finish now s) = nextWatchId s"
  "recognizers (stopRun_finish now s) = recognizers s"
  "motionListener (stopRun_finish now s) = motionListener s"
  "timers (stopRun_finish now s) = timers s"
  "pendingFix (stopRun_finish now s) = pendingFix s"
  "pendingMotionPermission (stopRun_finish now s) = pendingMotionPermission s"
  "pendingAI (stopRun_finish now s) = pendingAI s"
  "spoken (stopRun_finish now s) = spoken s"
  "aiModePref (stopRun_finish now s) = aiModePref s"
  "navigatorOnLine (stopRun_finish now s) = navigatorOnLine s"
  "caps (stopRun_finish now s) = caps s"
  "voiceBtnDisabled (stopRun_finish now s) = voiceBtnDisabled s"
  "distanceText (stopRun_finish now s) = distanceText s"
  "timeText (stopRun_finish now s) = timeText s"
  "paceText (stopRun_finish now s) = paceText s"
  "speedText (stopRun_finish now s) = speedText s"
  "caloriesText (stopRun_finish now s) = caloriesText s"
  by (simp_all add: stopRun_finish_def)

lemma summary_reply_frame [frame, simp]:
  "isRunning (summary_reply now t r s) = isRunning s"
  "startTime (summary_reply now t r s) = startTime s"
  "totalDistance (summary_reply now t r s) = totalDistance s"
  "positions (summary_reply now t r s) = positions s"
  "watchId (summary_reply now t r s) = watchId s"
  "stepCount (summary_reply now t r s) = stepCount s"
  "estimatedDistanceFromSteps (summary_reply now t r s) = estimatedDistanceFromSteps s"
  "lastAnnouncedKm (summary_reply now t r s) = lastAnnouncedKm s"
  "voiceRecognition (summary_reply now t r s) = voiceRecognition s"
  "wakeLock (summary_reply now t r s) = wakeLock s"
  "useAI (summary_reply now t r s) = useAI s"
  "aiCoach (summary_reply now t r s) = aiCoach s"
  "watchers (summary_reply now t r s) = watchers s"
  "nextWatchId (summary_reply now t r s) = nextWatchId s"
  "recognizers (summary_reply now t r s) = recognizers s"
  "motionListener (summary_reply now t r s) = motionListener s"
  "timers (summary_reply now t r s) = timers s"
  "pendingFix (summary_reply now t r s) = pendingFix s"
  "pendingMotionPermission (summary_reply now t r s) = pendingMotionPermission s"
  "pendingAI (summary_reply now t r s) = pendingAI s"
  "aiModePref (summary_reply now t r s) = aiModePref s"
  "navigatorOnLine (summary_reply now t r s) = navigatorOnLine s"
  "caps (summary_reply now t r s) = caps s"
  "voiceBtnDisabled (summary_reply now t r s) = voiceBtnDisabled s"
  "distanceText (summary_reply now t r s) = distanceText s"
  "timeText (summary_reply now t r s) = timeText s"
  "paceText (summary_reply now t r s) = paceText s"
  "speedText (summary_reply now t r s) = speedText s"
  "caloriesText (summary_reply now t r s) = caloriesText s"
  by (simp_all add: summary_reply_def split: sum.split)

lemma milestone_reply_frame [frame, simp]:
  "isRunning (milestone_reply k p r s) = isRunning s"
  "startTime (milestone_reply k p r s) = startTime s"
  "totalDistance (milestone_reply k p r s) = totalDistance s"
  "positions (milestone_reply k p r s) = positions s"
  "watchId (milestone_reply k p r s) = watchId s"
  "stepCount (milestone_reply k p r s) = stepCount s"
  "estimatedDistanceFromSteps (milestone_reply k p r s) = estimatedDistanceFromSteps s"
  "lastAnnouncedKm (milestone_reply k p r s) = lastAnnouncedKm s"
  "voiceRecognition (milestone_reply k p r s) = voiceRecognition s"
  "wakeLock (milestone_reply k p r s) = wakeLock s"
  "useAI (milestone_reply k p r s) = useAI s"
  "aiCoach (milestone_reply k p r s) = aiCoach s"
  "watchers (milestone_reply k p r s) = watchers s"
  "nextWatchId (milestone_reply k p r s) = nextWatchId s"
  "recognizers (milestone_reply k p r s) = recognizers s"
  "motionListener (milestone_reply k p r s) = motionListener s"
  "timers (milestone_reply k p r s) = timers s"
  "pendingFix (milestone_reply k p r s) = pendingFix s"
  "pendingMotionPermission (milestone_reply k p r s) = pendingMotionPermission s"
  "pendingAI (milestone_reply k p r s) = pendingAI s"
  "runHistory (milestone_reply k p r s) = runHistory s"
  "aiModePref (milestone_reply k p r s) = aiModePref s"
  "navigatorOnLine (milestone_reply k p r s) = navigatorOnLine s"
  "caps (milestone_reply k p r s) = caps s"
  "startBtnDisabled (milestone_reply k p r s) = startBtnDisabled s"
  "stopBtnDisabled (milestone_reply k p r s) = stopBtnDisabled s"
  "voiceBtnDisabled (milestone_reply k p r s) = voiceBtnDisabled s"
  "distanceText (milestone_reply k p r s) = distanceText s"
  "timeText (milestone_reply k p r s) = timeText s"
  "paceText (milestone_reply k p r s) = paceText s"
  "speedText (milestone_reply k p r s) = speedText s"
  "caloriesText (milestone_reply k p r s) = caloriesText s"
  by (simp_all add: milestone_reply_def split: sum.split)

lemma stopRun_frame [frame, simp]:
  "startTime (stopRun now s) = startTime s"
  "totalDistance (stopRun now s) = totalDistance s"
  "positions (stopRun now s) = positions s"
  "stepCount (stopRun now s) = stepCount s"
  "estimatedDistanceFromSteps (stopRun now s) = estimatedDistanceFromSteps s"
  "lastAnnouncedKm (stopRun now s) = lastAnnouncedKm s"
  "useAI (stopRun now s) = useAI s"
  "aiCoach (stopRun now s) = aiCoach s"
  "nextWatchId (stopRun now s) = nextWatchId s"
  "motionListener (stopRun now s) = motionListener s"
  "timers (stopRun now s) = timers s"
  "pendingFix (stopRun now s) = pendingFix s"
  "pendingMotionPermission (stopRun now s) = pendingMotionPermission s"
  "aiModePref (stopRun now s) = aiModePref s"
  "navigatorOnLine (stopRun now s) = navigatorOnLine s"
  "caps (stopRun now s) = caps s"
  "voiceBtnDisabled (stopRun now s) = voiceBtnDisabled s"
  "distanceText (stopRun now s) = distanceText s"
  "timeText (stopRun now s) = timeText s"
  "paceText (stopRun now s) = paceText s"
  "speedText (stopRun now s) = speedText s"
  "caloriesText (stopRun now s) = caloriesText s"
  by (simp_all add: stopRun_def Let_def split: option.split sum.split)

lemma startRun_resume_frame [frame, simp]:
  "estimatedDistanceFromSteps (startRun_resume now c s) = estimatedDistanceFromSteps s"
  "wakeLock (startRun_resume now c s) = wakeLock s"
  "useAI (startRun_resume now c s) = useAI s"
  "aiCoach (startRun_resume now c s) = aiCoach s"
  "pendingFix (startRun_resume now c s) = pendingFix s"
  "runHistory (startRun_resume now c s) = runHistory s"
  "aiModePref (startRun_resume now c s) = aiModePref s"
  "navigatorOnLine (startRun_resume now c s) = navigatorOnLine s"
  "caps (startRun_resume now c s) = caps s"
  "voiceBtnDisabled (startRun_resume now c s) = voiceBtnDisabled s"
  by (simp_all add: startRun_resume_def Let_def)

section \<open>The event loop\<close>

text \<open>What the browser delivers to the page.\<close>

datatype event =
    StartClicked
  | FixArrived coords
  | FixFailed
  | StopClicked
  | WatchFix nat coords
  | WatchError nat
  | MotionAnswer bool
  | DeviceMotion motion
  | RecResult nat bool string
  | RecError nat string
  | RecEnd nat
  | TimerDue nat
  | Settled nat fetch_result
  | WentOnline
  | WentOffline
  | ToggleClicked
  | VoiceClicked

text \<open>Removal of the entry at an index: a timer that fires, a request that settles.\<close>

definition remove_nth :: "nat \<Rightarrow> 'a list \<Rightarrow> 'a list" where
  "remove_nth k xs = take k xs @ drop (Suc k) xs"

text \<open>
  A request settles: \<^verbatim>\<open>queryGemini\<close> runs to its end on the coach, then the
  continuation of the caller runs on the result.
\<close>

definition settled :: "ms \<Rightarrow> nat \<Rightarrow> fetch_result \<Rightarrow> app \<Rightarrow> app" where
  "settled now k r s =
     (if length (pendingAI s) \<le> k then s
      else
        let req = pendingAI s ! k;
            s1 = s\<lparr>pendingAI := remove_nth k (pendingAI s)\<rparr>
        in case aiCoach s1 of
             None \<Rightarrow> s1
           | Some c \<Rightarrow>
               (case queryGemini_settle now (prompt req) r c of
                  (res, c') \<Rightarrow>
                    let s2 = s1\<lparr>aiCoach := Some c'\<rparr>
                    in case cont req of
                         TestConnection \<Rightarrow> test_reply res s2
                       | MilestoneReply km p \<Rightarrow> milestone_reply km p res s2
                       | CommandReply command \<Rightarrow> command_reply now command res s2
                       | SummaryReply t \<Rightarrow> summary_reply now t res s2))"

text \<open>A timer fires once it is due, and runs its action.\<close>

definition timerDue :: "ms \<Rightarrow> nat \<Rightarrow> app \<Rightarrow> app" where
  "timerDue now k s =
     (if length (timers s) \<le> k then s
      else case timers s ! k of
        (due, a) \<Rightarrow>
          if now < due then s
          else
            let s1 = s\<lparr>timers := remove_nth k (timers s)\<rparr>
            in case a of
                 RestartVoice \<Rightarrow> restartVoice s1
               | DelayedStop \<Rightarrow> stopRun now s1
               | Tick \<Rightarrow> updateTimer now s1)"

text \<open>
  The events of recogniser \<open>i\<close>: a result while it listens or stops, an error or an
  end unless it is idle; the end leaves it idle. The handlers are those the
  recogniser was given: the one-shot recogniser of the voice button has the two of
  \<^verbatim>\<open>startManualVoiceCommand\<close> and none for its end.
\<close>

definition recResult :: "ms \<Rightarrow> nat \<Rightarrow> bool \<Rightarrow> string \<Rightarrow> app \<Rightarrow> app" where
  "recResult now i isFinal transcript s =
     (if i < length (recognizers s) \<and> recognizers s ! i = RecManual
      then manual_onresult now transcript s
      else if i < length (recognizers s) \<and> recognizers s ! i \<noteq> RecIdle
      then onresult now isFinal transcript s else s)"

definition recError :: "ms \<Rightarrow> nat \<Rightarrow> string \<Rightarrow> app \<Rightarrow> app" where
  "recError now i err s =
     (if i < length (recognizers s) \<and> recognizers s ! i = RecManual
      then manual_onerror s
      else if i < length (recognizers s) \<and> recognizers s ! i \<noteq> RecIdle
      then onerror now err s else s)"

definition recEnd :: "ms \<Rightarrow> nat \<Rightarrow> app \<Rightarrow> app" where
  "recEnd now i s =
     (if i < length (recognizers s) \<and> recognizers s ! i = RecManual
      then s\<lparr>recognizers := (recognizers s)[i := RecIdle]\<rparr>
      else if i < length (recognizers s) \<and> recognizers s ! i \<noteq> RecIdle
      then onend now (s\<lparr>recognizers := (recognizers s)[i := RecIdle]\<rparr>) else s)"

text \<open>The handler of an event, at the time \<open>now\<close> it is handled.\<close>

fun step :: "ms \<Rightarrow> event \<Rightarrow> app \<Rightarrow> app" where
  "step now StartClicked s = (if startBtnDisabled s then s else startRun s)"
| "step now (FixArrived c) s =
     (if pendingFix s = 0 then s else startRun_resume now c (s\<lparr>pendingFix := pendingFix s - 1\<rparr>))"
| "step now FixFailed s =
     (if pendingFix s = 0 then s else startRun_failed (s\<lparr>pendingFix := pendingFix s - 1\<rparr>))"
| "step now StopClicked s = (if stopBtnDisabled s then s else stopRun now s)"
| "step now (WatchFix w c) s = onPosition w now c s"
| "step now (WatchError w) s = onPositionError w s"
| "step now (MotionAnswer granted) s = motionPermission granted s"
| "step now (DeviceMotion ev) s = (if motionListener s then handleMotion now ev s else s)"
| "step now (RecResult i isFinal transcript) s = recResult now i isFinal transcript s"
| "step now (RecError i err) s = recError now i err s"
| "step now (RecEnd i) s = recEnd now i s"
| "step now (TimerDue k) s = timerDue now k s"
| "step now (Settled k r) s = settled now k r s"
| "step now WentOnline s = online s"
| "step now WentOffline s = offline s"
| "step now ToggleClicked s = toggleAI s"
| "step now VoiceClicked s = (if voiceBtnDisabled s then s else startManualVoiceCommand s)"

text \<open>A sequence of events, each with the time it is handled at.\<close>

fun exec :: "(ms \<times> event) list \<Rightarrow> app \<Rightarrow> app" where
  "exec [] s = s"
| "exec ((now, e) # es) s = exec es (step now e s)"

text \<open>
  A page as the browser hands it to the script: nothing but what is stored from
  earlier sessions (the preference, the history) and the state of the network.
\<close>

definition stored_page :: "capabilities \<Rightarrow> string option \<Rightarrow> run list \<Rightarrow> bool \<Rightarrow> app" where
  "stored_page c pref hist net =
     (blank_page c)\<lparr>aiModePref := pref, runHistory := hist, navigatorOnLine := net\<rparr>"

definition boot :: "capabilities \<Rightarrow> string option \<Rightarrow> run list \<Rightarrow> bool \<Rightarrow> app" where
  "boot c pref hist net = initialize (load_script (stored_page c pref hist net))"

inductive reachable :: "app \<Rightarrow> bool" where
  loaded: "length hist \<le> RUN_HISTORY_CAP \<Longrightarrow> reachable (boot c pref hist net)"
| handled: "reachable s \<Longrightarrow> reachable (step now e s)"

lemmas loop_defs [handler_defs] =
  remove_nth_def settled_def timerDue_def recResult_def recError_def recEnd_def
  stored_page_def boot_def

lemma exec_append [simp]: "exec (es @ es') s = exec es' (exec es s)"
  by (induction es arbitrary: s) auto

lemma reachable_exec: "reachable s \<Longrightarrow> reachable (exec es s)"
proof (induction es arbitrary: s)
  case Nil
  then show ?case by simp
next
  case (Cons a es)
  obtain now e where a: "a = (now, e)" by (cases a)
  from Cons.prems have "reachable (step now e s)" by (rule reachable.handled)
  then show ?case unfolding a exec.simps by (rule Cons.IH)
qed

lemma reachable_iff_exec:
  "reachable s \<longleftrightarrow>
     (\<exists>c pref hist net es. length hist \<le> RUN_HISTORY_CAP \<and> s = exec es (boot c pref hist net))"
proof
  assume "reachable s"
  then show "\<exists>c pref hist net es. length hist \<le> RUN_HISTORY_CAP \<and> s = exec es (boot c pref hist net)"
  proof induction
    case (loaded hist c pref net)
    then have "length hist \<le> RUN_HISTORY_CAP \<and> boot c pref hist net = exec [] (boot c pref hist net)"
      by simp
    then show ?case by blast
  next
    case (handled s now e)
    then obtain c pref hist net es
      where "length hist \<le> RUN_HISTORY_CAP" and "s = exec es (boot c pref hist net)"
      by blast
    then have "length hist \<le> RUN_HISTORY_CAP \<and>
        step now e s = exec (es @ [(now, e)]) (boot c pref hist net)"
      by simp
    then show ?case by blast
  qed
next
  assume "\<exists>c pref hist net es. length hist \<le> RUN_HISTORY_CAP \<and> s = exec es (boot c pref hist net)"
  then show "reachable s"
    by (auto intro: reachable_exec reachable.loaded)
qed

section \<open>What the events leave alone\<close>

lemma settled_frame [frame, simp]:
  "isRunning (settled now k r s) = isRunning s"
  "startTime (settled now k r s) = startTime s"
  "totalDistance (settled now k r s) = totalDistance s"
  "positions (settled now k r s) = positions s"
  "watchId (settled now k r s) = watchId s"
  "stepCount (settled now k r s) = stepCount s"
  "estimatedDistanceFromSteps (settled now k r s) = estimatedDistanceFromSteps s"
  "lastAnnouncedKm (settled now k r s) = lastAnnouncedKm s"
  "voiceRecognition (settled now k r s) = voiceRecognition s"
  "wakeLock (settled now k r s) = wakeLock s"
  "watchers (settled now k r s) = watchers s"
  "nextWatchId (settled now k r s) = nextWatchId s"
  "recognizers (settled now k r s) = recognizers s"
  "motionListener (settled now k r s) = motionListener s"
  "pendingFix (settled now k r s) = pendingFix s"
  "pendingMotionPermission (settled now k r s) = pendingMotionPermission s"
  "aiModePref (settled now k r s) = aiModePref s"
  "navigatorOnLine (settled now k r s) = navigatorOnLine s"
  "caps (settled now k r s) = caps s"
  "voiceBtnDisabled (settled now k r s) = voiceBtnDisabled s"
  "distanceText (settled now k r s) = distanceText s"
  "timeText (settled now k r s) = timeText s"
  "paceText (settled now k r s) = paceText s"
  "speedText (settled now k r s) = speedText s"
  "caloriesText (settled now k r s) = caloriesText s"
  by (simp_all add: settled_def Let_def split: option.split prod.split ai_cont.split)

lemma timerDue_frame [frame, simp]:
  "startTime (timerDue now k s) = startTime s"
  "totalDistance (timerDue now k s) = totalDistance s"
  "positions (timerDue now k s) = positions s"
  "stepCount (timerDue now k s) = stepCount s"
  "estimatedDistanceFromSteps (timerDue now k s) = estimatedDistanceFromSteps s"
  "useAI (timerDue now k s) = useAI s"
  "aiCoach (timerDue now k s) = aiCoach s"
  "nextWatchId (timerDue now k s) = nextWatchId s"
  "motionListener (timerDue now k s) = motionListener s"
  "pendingFix (timerDue now k s) = pendingFix s"
  "pendingMotionPermission (timerDue now k s) = pendingMotionPermission s"
  "aiModePref (timerDue now k s) = aiModePref s"
  "navigatorOnLine (timerDue now k s) = navigatorOnLine s"
  "caps (timerDue now k s) = caps s"
  "voiceBtnDisabled (timerDue now k s) = voiceBtnDisabled s"
  by (simp_all add: timerDue_def Let_def split: prod.split timer_action.split)

lemma recResult_frame [frame, simp]:
  "isRunning (recResult now i isFinal transcript s) = isRunning s"
  "startTime (recResult now i isFinal transcript s) = startTime s"
  "totalDistance (recResult now i isFinal transcript s) = totalDistance s"
  "positions (recResult now i isFinal transcript s) = positions s"
  "watchId (recResult now i isFinal transcript s) = watchId s"
  "stepCount (recResult now i isFinal transcript s) = stepCount s"
  "estimatedDistanceFromSteps (recResult now i isFinal transcript s) = estimatedDistanceFromSteps s"
  "lastAnnouncedKm (recResult now i isFinal transcript s) = lastAnnouncedKm s"
  "voiceRecognition (recResult now i isFinal transcript s) = voiceRecognition s"
  "wakeLock (recResult now i isFinal transcript s) = wakeLock s"
  "aiCoach (recResult now i isFinal transcript s) = aiCoach s"
  "watchers (recResult now i isFinal transcript s) = watchers s"
  "nextWatchId (recResult now i isFinal transcript s) = nextWatchId s"
  "recognizers (recResult now i isFinal transcript s) = recognizers s"
  "motionListener (recResult now i isFinal transcript s) = motionListener s"
  "pendingFix (recResult now i isFinal transcript s) = pendingFix s"
  "pendingMotionPermission (recResult now i isFinal transcript s) = pendingMotionPermission s"
  "runHistory (recResult now i isFinal transcript s) = runHistory s"
  "aiModePref (recResult now i isFinal transcript s) = aiModePref s"
  "navigatorOnLine (recResult now i isFinal transcript s) = navigatorOnLine s"
  "caps (recResult now i isFinal transcript s) = caps s"
  "startBtnDisabled (recResult now i isFinal transcript s) = startBtnDisabled s"
  "stopBtnDisabled (recResult now i isFinal transcript s) = stopBtnDisabled s"
  "voiceBtnDisabled (recResult now i isFinal transcript s) = voiceBtnDisabled s"
  "distanceText (recResult now i isFinal transcript s) = distanceText s"
  "timeText (recResult now i isFinal transcript s) = timeText s"
  "paceText (recResult now i isFinal transcript s) = paceText s"
  "speedText (recResult now i isFinal transcript s) = speedText s"
  "caloriesText (recResult now i isFinal transcript s) = caloriesText s"
  by (simp_all add: recResult_def)

lemma recError_frame [frame, simp]:
  "isRunning (recError now i err s) = isRunning s"
  "startTime (recError now i err s) = startTime s"
  "totalDistance (recError now i err s) = totalDistance s"
  "positions (recError now i err s) = positions s"
  "watchId (recError now i err s) = watchId s"
  "stepCount (recError now i err s) = stepCount s"
  "estimatedDistanceFromSteps (recError now i err s) = estimatedDistanceFromSteps s"
  "lastAnnouncedKm (recError now i err s) = lastAnnouncedKm s"
  "voiceRecognition (recError now i err s) = voiceRecognition s"
  "wakeLock (recError now i err s) = wakeLock s"
  "useAI (recError now i err s) = useAI s"
  "aiCoach (recError now i err s) = aiCoach s"
  "watchers (recError now i err s) = watchers s"
  "nextWatchId (recError now i err s) = nextWatchId s"
  "recognizers (recError now i err s) = recognizers s"
  "motionListener (recError now i err s) = motionListener s"
  "pendingFix (recError now i err s) = pendingFix s"
  "pendingMotionPermission (recError now i err s) = pendingMotionPermission s"
  "pendingAI (recError now i err s) = pendingAI s"
  "runHistory (recError now i err s) = runHistory s"
  "aiModePref (recError now i err s) = aiModePref s"
  "navigatorOnLine (recError now i err s) = navigatorOnLine s"
  "caps (recError now i err s) = caps s"
  "startBtnDisabled (recError now i err s) = startBtnDisabled s"
  "stopBtnDisabled (recError now i err s) = stopBtnDisabled s"
  "voiceBtnDisabled (recError now i err s) = voiceBtnDisabled s"
  "distanceText (recError now i err s) = distanceText s"
  "timeText (recError now i err s) = timeText s"
  "paceText (recError now i err s) = paceText s"
  "speedText (recError now i err s) = speedText s"
  "caloriesText (recError now i err s) = caloriesText s"
  by (simp_all add: recError_def)

lemma recEnd_frame [frame, simp]:
  "isRunning (recEnd now i s) = isRunning s"
  "startTime (recEnd now i s) = startTime s"
  "totalDistance (recEnd now i s) = totalDistance s"
  "positions (recEnd now i s) = positions s"
  "watchId (recEnd now i s) = watchId s"
  "stepCount (recEnd now i s) = stepCount s"
  "estimatedDistanceFromSteps (recEnd now i s) = estimatedDistanceFromSteps s"
  "lastAnnouncedKm (recEnd now i s) = lastAnnouncedKm s"
  "voiceRecognition (recEnd now i s) = voiceRecognition s"
  "wakeLock (recEnd now i s) = wakeLock s"
  "useAI (recEnd now i s) = useAI s"
  "aiCoach (recEnd now i s) = aiCoach s"
  "watchers (recEnd now i s) = watchers s"
  "nextWatchId (recEnd now i s) = nextWatchId s"
  "motionListener (recEnd now i s) = motionListener s"
  "pendingFix (recEnd now i s) = pendingFix s"
  "pendingMotionPermission (recEnd now i s) = pendingMotionPermission s"
  "pendingAI (recEnd now i s) = pendingAI s"
  "spoken (recEnd now i s) = spoken s"
  "runHistory (recEnd now i s) = runHistory s"
  "aiModePref (recEnd now i s) = aiModePref s"
  "navigatorOnLine (recEnd now i s) = navigatorOnLine s"
  "caps (recEnd now i s) = caps s"
  "startBtnDisabled (recEnd now i s) = startBtnDisabled s"
  "stopBtnDisabled (recEnd now i s) = stopBtnDisabled s"
  "voiceBtnDisabled (recEnd now i s) = voiceBtnDisabled s"
  "distanceText (recEnd now i s) = distanceText s"
  "timeText (recEnd now i s) = timeText s"
  "paceText (recEnd now i s) = paceText s"
  "speedText (recEnd now i s) = speedText s"
  "caloriesText (recEnd now i s) = caloriesText s"
  by (simp_all add: recEnd_def)

text \<open>
  The recogniser of the voice button hands its result on whether or not a run is
  in progress: its handlers do not read \<^verbatim>\<open>isRunning\<close>, and \<^verbatim>\<open>stopRun\<close> does not know it.
\<close>

lemma recResult_manual:
  "i < length (recognizers s) \<Longrightarrow> recognizers s ! i = RecManual \<Longrightarrow>
   recResult now i isFinal transcript s = processVoiceCommand now (toLowerCase transcript) s"
  by (simp add: recResult_def manual_onresult_def)

section \<open>Start and stop, field by field\<close>

lemma updateTimer_timers:
  "timers (updateTimer now s) = (if isRunning s then timers s @ [(now + 1000, Tick)] else timers s)"
  by (simp add: updateTimer_def)

lemma startRun_resume_fields:
  "isRunning (startRun_resume now c s)"
  "startTime (startRun_resume now c s) = Some now"
  "totalDistance (startRun_resume now c s) = 0"
  "positions (startRun_resume now c s) = [newPos now c]"
  "stepCount (startRun_resume now c s) = 0"
  "lastAnnouncedKm (startRun_resume now c s) = 0"
  "watchId (startRun_resume now c s) = Some (nextWatchId s)"
  "watchers (startRun_resume now c s) = watchers s @ [(nextWatchId s, 0)]"
  "nextWatchId (startRun_resume now c s) = Suc (nextWatchId s)"
  "timers (startRun_resume now c s) = timers s @ [(now + 1000, Tick)]"
  "startBtnDisabled (startRun_resume now c s)"
  "\<not> stopBtnDisabled (startRun_resume now c s)"
  by (simp_all add: startRun_resume_def Let_def updateTimer_def startVoiceMonitoring_def
      startStepDetection_def startGPSTracking_def newPos_def updateUI_lastAnnouncedKm
      checkAudioCues_lastAnnouncedKm due_milestone_def)

lemma startRun_resume_voice:
  "voiceRecognition (startRun_resume now c s) =
     (if hasSpeechRecognition (caps s) then Some (length (recognizers s)) else voiceRecognition s)"
  "recognizers (startRun_resume now c s) =
     (if hasSpeechRecognition (caps s) then recognizers s @ [RecListening] else recognizers s)"
  by (simp_all add: startRun_resume_def Let_def updateTimer_def startVoiceMonitoring_def
      startStepDetection_def startGPSTracking_def)

lemma stopRun_idle: "\<not> isRunning s \<Longrightarrow> stopRun now s = s"
  by (simp add: stopRun_def)

lemma stopRun_fields:
  "\<not> isRunning (stopRun now s)"
  "isRunning s \<Longrightarrow> watchId (stopRun now s) = None"
  "isRunning s \<Longrightarrow> voiceRecognition (stopRun now s) = None"
  "isRunning s \<Longrightarrow> wakeLock (stopRun now s) = None"
  "isRunning s \<Longrightarrow>
   watchers (stopRun now s) =
     (case watchId s of Some w \<Rightarrow> AList.delete w (watchers s) | None \<Rightarrow> watchers s)"
  "length (recognizers (stopRun now s)) = length (recognizers s)"
  by (simp_all add: stopRun_def Let_def clearWatch_def stopVoiceMonitoring_def
      split: option.split sum.split)

section \<open>Invariants of the session\<close>

text \<open>
  A run in progress has a start time, a position to measure from and a watch; when
  no run is in progress the script holds no watch and no recogniser.
\<close>

definition session_inv :: "app \<Rightarrow> bool" where
  "session_inv s \<longleftrightarrow>
     (if isRunning s then startTime s \<noteq> None \<and> positions s \<noteq> [] \<and> watchId s \<noteq> None
      else watchId s = None \<and> voiceRecognition s = None)"

text \<open>
  The ids of the watches are distinct and below the next id, the stored id is one
  of them, and the stored recogniser exists and is not one of the voice button.
\<close>

definition registry_inv :: "app \<Rightarrow> bool" where
  "registry_inv s \<longleftrightarrow>
     distinct (map fst (watchers s)) \<and>
     list_all (\<lambda>i. i < nextWatchId s) (map fst (watchers s)) \<and>
     set_option (watchId s) \<subseteq> set (map fst (watchers s)) \<and>
     (\<forall>i \<in> set_option (voiceRecognition s).
        i < length (recognizers s) \<and> recognizers s ! i \<noteq> RecManual)"

text \<open>The bounded stores respect their capacities.\<close>

definition bounded_inv :: "app \<Rightarrow> bool" where
  "bounded_inv s \<longleftrightarrow>
     length (positions s) \<le> WINDOW_CAP \<and>
     length (runHistory s) \<le> RUN_HISTORY_CAP \<and>
     (\<forall>c \<in> set_option (aiCoach s). length (conversationHistory c) \<le> HISTORY_CAP)"

text \<open>The wake lock is never held: the script releases it and never requests it.\<close>

definition unlocked :: "app \<Rightarrow> bool" where
  "unlocked s \<longleftrightarrow> wakeLock s = None"

text \<open>A watch is made only after the window has received the start position.\<close>

definition anchored :: "app \<Rightarrow> bool" where
  "anchored s \<longleftrightarrow> positions s = [] \<longrightarrow> watchers s = []"

lemma session_inv_cong:
  "isRunning s' = isRunning s \<Longrightarrow> startTime s' = startTime s \<Longrightarrow> positions s' = positions s \<Longrightarrow>
   watchId s' = watchId s \<Longrightarrow> voiceRecognition s' = voiceRecognition s \<Longrightarrow>
   session_inv s' = session_inv s"
  by (simp add: session_inv_def)

lemma milestone_inv_cong:
  "totalDistance s' = totalDistance s \<Longrightarrow> lastAnnouncedKm s' = lastAnnouncedKm s \<Longrightarrow>
   milestone_inv s' = milestone_inv s"
  by (simp add: milestone_inv_def)

subsection \<open>Session\<close>

lemma session_inv_stopRun: "session_inv s \<Longrightarrow> session_inv (stopRun now s)"
  by (cases "isRunning s") (simp_all add: stopRun_idle, simp add: session_inv_def stopRun_fields)

lemma session_inv_timerDue:
  assumes inv: "session_inv s"
  shows "session_inv (timerDue now k s)"
proof -
  have 1: "session_inv (s\<lparr>timers := ts\<rparr>)" for ts
    using inv by (simp add: session_inv_def)
  have "session_inv (restartVoice (s\<lparr>timers := ts\<rparr>))"
    and "session_inv (updateTimer now (s\<lparr>timers := ts\<rparr>))"
    and "session_inv (stopRun now (s\<lparr>timers := ts\<rparr>))" for ts
    using 1 [of ts] inv
    by (simp_all add: session_inv_stopRun session_inv_cong [of "restartVoice _"]
        session_inv_cong [of "updateTimer _ _"])
  with inv show ?thesis
    by (simp add: timerDue_def Let_def split: prod.split timer_action.split)
qed

lemma session_inv_step:
  assumes inv: "session_inv s"
  shows "session_inv (step now e s)"
proof (cases e)
  case (FixArrived c)
  with inv show ?thesis
    by (cases "pendingFix s = 0") (simp_all add: session_inv_def startRun_resume_fields)
next
  case StopClicked
  with inv show ?thesis by (simp add: session_inv_stopRun)
next
  case (TimerDue k)
  with inv show ?thesis by (simp add: session_inv_timerDue)
next
  case (WatchFix w c)
  with inv show ?thesis
    by (simp add: session_inv_def positions_onPosition_neq_Nil)
qed (use inv in \<open>simp_all add: session_inv_def split: if_splits\<close>)

subsection \<open>Registry\<close>

lemma registry_inv_cong:
  "map fst (watchers s') = map fst (watchers s) \<Longrightarrow> nextWatchId s' = nextWatchId s \<Longrightarrow>
   watchId s' = watchId s \<Longrightarrow> voiceRecognition s' = voiceRecognition s \<Longrightarrow>
   recognizers s' = recognizers s \<Longrightarrow> registry_inv s' = registry_inv s"
  by (simp add: registry_inv_def)

lemma registry_inv_restartVoice: "registry_inv s \<Longrightarrow> registry_inv (restartVoice s)"
  by (auto simp: registry_inv_def restartVoice_def rec_start_def nth_list_update
      split: option.split if_splits)

lemma keys_update_present: "map_of al k = Some v \<Longrightarrow> map fst (AList.update k v' al) = map fst al"
  by (auto simp: update_keys dest: map_of_SomeD intro: rev_image_eqI)

lemma keys_onPosition [simp]: "map fst (watchers (onPosition w now c s)) = map fst (watchers s)"
proof (cases "map_of (watchers s) w")
  case None
  then have "verdict w now c s = Cleared" by (simp add: verdict_def)
  then show ?thesis by (simp add: onPosition_watchers)
next
  case (Some t)
  then show ?thesis by (simp add: onPosition_watchers keys_update_present)
qed

lemma registry_inv_startRun_resume:
  assumes "registry_inv s"
  shows "registry_inv (startRun_resume now c s)"
proof -
  from assms have "nextWatchId s \<notin> set (map fst (watchers s))"
    by (auto simp: registry_inv_def list_all_iff)
  with assms show ?thesis
    by (auto simp: registry_inv_def startRun_resume_fields startRun_resume_voice list_all_iff)
qed

lemma keys_stopRun:
  "isRunning s \<Longrightarrow>
   map fst (watchers (stopRun now s)) =
     (case watchId s of Some w \<Rightarrow> removeAll w (map fst (watchers s)) | None \<Rightarrow> map fst (watchers s))"
  by (simp add: stopRun_fields delete_keys split: option.split)

lemma registry_inv_stopRun:
  assumes "registry_inv s"
  shows "registry_inv (stopRun now s)"
proof (cases "isRunning s")
  case True
  with assms show ?thesis
    by (auto simp: registry_inv_def stopRun_fields(2,3,6) keys_stopRun list_all_iff distinct_removeAll
        split: option.split)
next
  case False
  with assms show ?thesis by (simp add: stopRun_idle)
qed

lemma registry_inv_timerDue:
  assumes inv: "registry_inv s"
  shows "registry_inv (timerDue now k s)"
proof -
  have 1: "registry_inv (s\<lparr>timers := ts\<rparr>)" for ts
    using inv by (simp add: registry_inv_def)
  have "registry_inv (restartVoice (s\<lparr>timers := ts\<rparr>))"
    and "registry_inv (updateTimer now (s\<lparr>timers := ts\<rparr>))"
    and "registry_inv (stopRun now (s\<lparr>timers := ts\<rparr>))" for ts
    using 1 [of ts] inv
    by (simp_all add: registry_inv_stopRun registry_inv_restartVoice
        registry_inv_cong [of "updateTimer _ _"])
  with inv show ?thesis
    by (simp add: timerDue_def Let_def split: prod.split timer_action.split)
qed

lemma registry_inv_step:
  assumes inv: "registry_inv s"
  shows "registry_inv (step now e s)"
proof (cases e)
  case (FixArrived c)
  have "registry_inv (s\<lparr>pendingFix := n\<rparr>)" for n
    using inv by (simp add: registry_inv_def)
  with inv FixArrived show ?thesis
    by (simp add: registry_inv_startRun_resume)
next
  case StopClicked
  with inv show ?thesis by (simp add: registry_inv_stopRun)
next
  case (TimerDue k)
  with inv show ?thesis by (simp add: registry_inv_timerDue)
next
  case (RecEnd i)
  with inv show ?thesis by (auto simp: recEnd_def registry_inv_def onend_def nth_list_update)
next
  case VoiceClicked
  with inv show ?thesis
    by (auto simp: registry_inv_def recognizers_startManualVoiceCommand nth_append)
qed (use inv in \<open>simp_all add: registry_inv_def\<close>)

subsection \<open>Bounded stores\<close>

lemma bounded_inv_cong:
  "positions s' = positions s \<Longrightarrow> runHistory s' = runHistory s \<Longrightarrow> aiCoach s' = aiCoach s \<Longrightarrow>
   bounded_inv s' = bounded_inv s"
  by (simp add: bounded_inv_def)

lemma length_runHistory_stopRun_finish [simp]:
  "length (runHistory (stopRun_finish now s)) \<le> RUN_HISTORY_CAP"
  by (simp add: stopRun_finish_def length_saveRunHistory)

lemma length_runHistory_stopRun:
  "length (runHistory s) \<le> RUN_HISTORY_CAP \<Longrightarrow> length (runHistory (stopRun now s)) \<le> RUN_HISTORY_CAP"
  by (simp add: stopRun_def Let_def split: option.split sum.split)

lemma length_runHistory_summary_reply [simp]:
  "length (runHistory (summary_reply now t r s)) \<le> RUN_HISTORY_CAP"
  by (simp add: summary_reply_def split: sum.split)

lemma bounded_inv_stopRun: "bounded_inv s \<Longrightarrow> bounded_inv (stopRun now s)"
  by (simp add: bounded_inv_def length_runHistory_stopRun)

lemma bounded_inv_timerDue:
  assumes inv: "bounded_inv s"
  shows "bounded_inv (timerDue now k s)"
proof -
  have 1: "bounded_inv (s\<lparr>timers := ts\<rparr>)" for ts
    using inv by (simp add: bounded_inv_def)
  have "bounded_inv (restartVoice (s\<lparr>timers := ts\<rparr>))"
    and "bounded_inv (updateTimer now (s\<lparr>timers := ts\<rparr>))"
    and "bounded_inv (stopRun now (s\<lparr>timers := ts\<rparr>))" for ts
    using 1 [of ts] inv
    by (simp_all add: bounded_inv_stopRun bounded_inv_cong [of "restartVoice _"]
        bounded_inv_cong [of "updateTimer _ _"])
  with inv show ?thesis
    by (simp add: timerDue_def Let_def split: prod.split timer_action.split)
qed

lemma aiCoach_settled:
  "aiCoach (settled now k r s) =
     (if length (pendingAI s) \<le> k then aiCoach s
      else map_option (\<lambda>c. snd (queryGemini_settle now (prompt (pendingAI s ! k)) r c)) (aiCoach s))"
  by (simp add: settled_def Let_def split: option.split prod.split ai_cont.split)

lemma length_runHistory_settled:
  "length (runHistory s) \<le> RUN_HISTORY_CAP \<Longrightarrow>
   length (runHistory (settled now k r s)) \<le> RUN_HISTORY_CAP"
  by (simp add: settled_def Let_def split: option.split prod.split ai_cont.split)

lemma bounded_inv_settled: "bounded_inv s \<Longrightarrow> bounded_inv (settled now k r s)"
  by (auto simp: bounded_inv_def length_runHistory_settled aiCoach_settled
      queryGemini_settle_length)

lemma bounded_inv_step:
  assumes inv: "bounded_inv s"
  shows "bounded_inv (step now e s)"
proof (cases e)
  case (FixArrived c)
  with inv show ?thesis
    by (simp add: bounded_inv_def startRun_resume_fields WINDOW_CAP_def)
next
  case StopClicked
  with inv show ?thesis by (simp add: bounded_inv_stopRun)
next
  case (TimerDue k)
  with inv show ?thesis by (simp add: bounded_inv_timerDue)
next
  case (WatchFix w c)
  with inv show ?thesis by (simp add: bounded_inv_def length_positions_onPosition)
next
  case (Settled k r)
  with inv show ?thesis by (simp add: bounded_inv_settled)
next
  case WentOnline
  with inv show ?thesis
    by (auto simp: bounded_inv_def online_def Let_def coach_online_def speak_def)
next
  case WentOffline
  with inv show ?thesis
    by (auto simp: bounded_inv_def offline_def Let_def coach_online_def speak_def)
qed (use inv in \<open>simp_all add: bounded_inv_def\<close>)

subsection \<open>Milestones and the wake lock\<close>

lemma milestone_inv_updateTimer: "milestone_inv s \<Longrightarrow> milestone_inv (updateTimer now s)"
  using milestone_inv_cong [of "setTimeout Tick 1000 now (updateUI now s)" "updateUI now s"]
  by (simp add: updateTimer_def milestone_inv_updateUI)

lemma milestone_inv_timerDue:
  assumes inv: "milestone_inv s"
  shows "milestone_inv (timerDue now k s)"
proof -
  have 1: "milestone_inv (s\<lparr>timers := ts\<rparr>)" for ts
    using inv by (simp add: milestone_inv_def)
  have "milestone_inv (restartVoice (s\<lparr>timers := ts\<rparr>))"
    and "milestone_inv (updateTimer now (s\<lparr>timers := ts\<rparr>))"
    and "milestone_inv (stopRun now (s\<lparr>timers := ts\<rparr>))" for ts
    using 1 [of ts] inv
    by (simp_all add: milestone_inv_updateTimer milestone_inv_cong [of "restartVoice _"]
        milestone_inv_cong [of "stopRun _ _"])
  with inv show ?thesis
    by (simp add: timerDue_def Let_def split: prod.split timer_action.split)
qed

lemma milestone_inv_step:
  assumes inv: "milestone_inv s"
  shows "milestone_inv (step now e s)"
proof (cases e)
  case (FixArrived c)
  with inv show ?thesis
    by (simp add: milestone_inv_def startRun_resume_fields)
next
  case (TimerDue k)
  with inv show ?thesis by (simp add: milestone_inv_timerDue)
next
  case (WatchFix w c)
  with inv show ?thesis by (simp add: milestone_inv_onPosition)
next
  case (DeviceMotion ev)
  with inv show ?thesis by (simp add: milestone_inv_handleMotion)
qed (use inv in \<open>simp_all add: milestone_inv_def\<close>)

lemma unlocked_step:
  assumes inv: "unlocked s"
  shows "unlocked (step now e s)"
proof (cases e)
  case StartClicked
  with inv show ?thesis
    by (simp add: unlocked_def startRun_def Let_def startRun_failed_def)
next
  case StopClicked
  with inv show ?thesis
    by (cases "isRunning s") (simp_all add: unlocked_def stopRun_fields stopRun_idle)
next
  case (TimerDue k)
  have "wakeLock (stopRun now (s\<lparr>timers := ts\<rparr>)) = None" for ts
    using inv by (cases "isRunning s") (simp_all add: unlocked_def stopRun_fields stopRun_idle)
  with inv TimerDue show ?thesis
    by (simp add: unlocked_def timerDue_def Let_def split: prod.split timer_action.split)
qed (use inv in \<open>simp_all add: unlocked_def\<close>)

subsection \<open>The anchor of the window\<close>

lemma anchored_stopRun: "anchored s \<Longrightarrow> anchored (stopRun now s)"
  by (cases "isRunning s") (auto simp: anchored_def stopRun_fields stopRun_idle split: option.split)

lemma anchored_step:
  assumes inv: "anchored s"
  shows "anchored (step now e s)"
proof (cases e)
  case (FixArrived c)
  with inv show ?thesis by (simp add: anchored_def startRun_resume_fields)
next
  case StopClicked
  with inv show ?thesis by (simp add: anchored_stopRun)
next
  case (TimerDue k)
  have 1: "anchored (s\<lparr>timers := ts\<rparr>)" for ts
    using inv by (simp add: anchored_def)
  have "anchored (stopRun now (s\<lparr>timers := ts\<rparr>))" for ts
    using 1 [of ts] by (rule anchored_stopRun)
  with inv TimerDue show ?thesis
    by (simp add: timerDue_def Let_def anchored_def split: prod.split timer_action.split)
next
  case (WatchFix w c)
  have "watchers (onPosition w now c s) = [] \<longleftrightarrow> watchers s = []"
    using keys_onPosition [of w now c s] by (metis map_is_Nil_conv)
  with inv WatchFix show ?thesis
    using positions_onPosition_neq_Nil [of s w now c] by (auto simp: anchored_def)
qed (use inv in \<open>simp_all add: anchored_def\<close>)

lemma anchored_verdict: "anchored s \<Longrightarrow> verdict w now c s \<noteq> FirstFix"
  by (auto simp: anchored_def verdict_def split: option.splits)

subsection \<open>The loaded page\<close>

lemma boot_fields:
  "\<not> isRunning (boot c pref hist net)"
  "startTime (boot c pref hist net) = None"
  "totalDistance (boot c pref hist net) = 0"
  "positions (boot c pref hist net) = []"
  "watchId (boot c pref hist net) = None"
  "voiceRecognition (boot c pref hist net) = None"
  "wakeLock (boot c pref hist net) = None"
  "lastAnnouncedKm (boot c pref hist net) = 0"
  "watchers (boot c pref hist net) = []"
  "recognizers (boot c pref hist net) = []"
  "timers (boot c pref hist net) = []"
  "runHistory (boot c pref hist net) = hist"
  "caps (boot c pref hist net) = c"
  by (simp_all add: boot_def initialize_def fixture_defs stored_page_def)

lemma boot_coach:
  "aiCoach (boot c pref hist net) =
     (case configApiKey c of
        Some key \<Rightarrow> if 10 < length key then Some (new_coach key net) else None
      | None \<Rightarrow> None)"
  by (auto simp: boot_def initialize_def initializeAI_def testAIConnection_def
      fixture_defs stored_page_def checkPermissions_def addAIToggleButton_def Let_def
      enqueue_query_def speak_def split: option.split sum.split)

text \<open>All of them together.\<close>

definition app_inv :: "app \<Rightarrow> bool" where
  "app_inv s \<longleftrightarrow>
     session_inv s \<and> registry_inv s \<and> bounded_inv s \<and> milestone_inv s \<and> unlocked s \<and>
     anchored s"

lemma app_inv_boot:
  "length hist \<le> RUN_HISTORY_CAP \<Longrightarrow> app_inv (boot c pref hist net)"
  by (simp add: app_inv_def session_inv_def registry_inv_def bounded_inv_def milestone_inv_def
      unlocked_def anchored_def boot_fields boot_coach new_coach_def split: option.split)

lemma app_inv_step: "app_inv s \<Longrightarrow> app_inv (step now e s)"
  by (simp add: app_inv_def session_inv_step registry_inv_step bounded_inv_step
      milestone_inv_step unlocked_step anchored_step)

lemma reachable_app_inv: "reachable s \<Longrightarrow> app_inv s"
  by (induction rule: reachable.induct) (simp_all add: app_inv_boot app_inv_step)

section \<open>Properties of the session\<close>

lemma totalDistance_step:
  assumes "\<forall>c. e \<noteq> FixArrived c"
  shows "totalDistance s \<le> totalDistance (step now e s)"
proof (cases e)
  case (WatchFix w c)
  then show ?thesis
    using increment_nonneg [of w now c s] by (simp add: onPosition_totalDistance)
next
  case (DeviceMotion ev)
  then show ?thesis by (simp add: handleMotion_grows)
qed (use assms in simp_all)

lemma startRun_pending:
  "hasGeolocation (caps s) \<Longrightarrow> pendingFix (startRun s) = Suc (pendingFix s)"
  by (simp add: startRun_def Let_def split: option.split)

lemma map_of_append_fresh:
  "k \<notin> set (map fst al) \<Longrightarrow> map_of (al @ [(k, v)] @ bl) k = Some v"
  by (induction al) auto

lemma double_start:
  assumes btn: "\<not> startBtnDisabled s" and geo: "hasGeolocation (caps s)" and reg: "registry_inv s"
  shows "\<not> isRunning (exec [(t0, StartClicked), (t0', StartClicked), (t1, FixArrived c),
                          (t2, FixArrived c'), (t3, StopClicked)] s) \<and>
    watchId (exec [(t0, StartClicked), (t0', StartClicked), (t1, FixArrived c),
                   (t2, FixArrived c'), (t3, StopClicked)] s) = None \<and>
    map_of (watchers (exec [(t0, StartClicked), (t0', StartClicked), (t1, FixArrived c),
                            (t2, FixArrived c'), (t3, StopClicked)] s)) (nextWatchId s) = Some 0"
proof -
  let ?n = "nextWatchId s"
  define s2 where "s2 = startRun (startRun s)"
  define s3 where "s3 = startRun_resume t1 c (s2\<lparr>pendingFix := pendingFix s2 - 1\<rparr>)"
  define s4 where "s4 = startRun_resume t2 c' (s3\<lparr>pendingFix := pendingFix s3 - 1\<rparr>)"
  have p2: "pendingFix s2 = Suc (Suc (pendingFix s))" "watchers s2 = watchers s" "nextWatchId s2 = ?n"
    using geo by (simp_all add: s2_def startRun_pending)
  have f3: "watchers s3 = watchers s @ [(?n, 0)]" "nextWatchId s3 = Suc ?n" "pendingFix s3 = Suc (pendingFix s)"
    by (simp_all add: s3_def startRun_resume_fields p2)
  have f4: "watchers s4 = watchers s @ [(?n, 0), (Suc ?n, 0)]" "watchId s4 = Some (Suc ?n)"
    "isRunning s4" "\<not> stopBtnDisabled s4"
    by (simp_all add: s4_def startRun_resume_fields f3)
  have e: "exec [(t0, StartClicked), (t0', StartClicked), (t1, FixArrived c),
                 (t2, FixArrived c'), (t3, StopClicked)] s = stopRun t3 s4"
    using btn by (simp add: s4_def s3_def s2_def startRun_pending geo startRun_resume_fields)
  from reg have fresh: "?n \<notin> set (map fst (watchers s))"
    by (auto simp: registry_inv_def list_all_iff)
  have "map_of (watchers (stopRun t3 s4)) ?n = map_of (watchers s @ [(?n, 0)] @ [(Suc ?n, 0)]) ?n"
    by (simp add: stopRun_fields f4 delete_conv')
  also have "\<dots> = Some 0"
    using fresh by (rule map_of_append_fresh)
  finally show ?thesis
    unfolding e by (simp add: stopRun_fields f4)
qed

text \<open>
  C8. Stopping is idempotent: a second stop, at any later time, changes nothing, so
  one run is saved, not two.
\<close>

theorem stopRun_idempotent:
  "stopRun now' (stopRun now s) = stopRun now s \<and>
   runHistory (stopRun now' (stopRun now s)) = runHistory (stopRun now s)"
  by (simp add: stopRun_idle stopRun_fields)

text \<open>
  C18. After a stop, a fix that the watch of the run still delivers is ignored: the
  watch has been cleared.
\<close>

theorem stopRun_late_fix:
  assumes "isRunning s" and "watchId s = Some w"
  shows "onPosition w now' c (stopRun now s) = stopRun now s"
proof -
  from assms have "watchers (stopRun now s) = AList.delete w (watchers s)"
    by (simp add: stopRun_fields)
  then have "map_of (watchers (stopRun now s)) w = None"
    by (simp add: delete_conv')
  then have "verdict w now' c (stopRun now s) = Cleared"
    by (simp add: verdict_def)
  then show ?thesis by (simp add: onPosition_ignored)
qed

theorem stopRun_late_fix_witness:
  "onPosition 0 21000 (east (1 / 2000)) (stopRun 20000 on_equator) = stopRun 20000 on_equator"
  using stopRun_late_fix [of on_equator 0 21000 "east (1 / 2000)" 20000]
  by (simp add: on_equator_def)

lemma at_one_km_fields:
  "isRunning at_one_km" "\<not> useAI at_one_km" "aiCoach at_one_km = None"
  "hasSpeechSynthesis (caps at_one_km)" "runHistory at_one_km = []" "spoken at_one_km = []"
  "totalDistance at_one_km = 102 / 100" "startTime at_one_km = Some 1000"
  "timers at_one_km = []" "pendingAI at_one_km = []"
  by (simp_all add: at_one_km_def fixture_defs)

text \<open>
  C19. In basic mode a stop saves the run as the last entry of the history, cut to
  fifty entries, speaks the fixed summary, enables the start button and disables
  the stop button.
\<close>

theorem stopRun_basic:
  assumes "isRunning s" and "\<not> useAI s \<or> aiCoach s = None" and "hasSpeechSynthesis (caps s)"
  shows "runHistory (stopRun now s) = slice_last RUN_HISTORY_CAP (runHistory s @ [run_record now s])
    \<and> said (stopRun now s) = said s @
      [basic_summary (totalDistance s) (calculateTimeElapsed now s)
         (calculatePace (totalDistance s) (calculateTimeElapsed now s))]
    \<and> \<not> startBtnDisabled (stopRun now s) \<and> stopBtnDisabled (stopRun now s)"
  using assms
  by (auto simp: stopRun_def Let_def stopRun_finish_def saveRunHistory_def run_record_def
      calculateTimeElapsed_def said_def speak_def clearWatch_def stopVoiceMonitoring_def
      split: option.split)

theorem stopRun_basic_witness:
  "runHistory (stopRun 301000 at_one_km) =
     [\<lparr>date = 301000, distance = 102 / 100, run_time = 300000, pace = ''4:54''\<rparr>] \<and>
   said (stopRun 301000 at_one_km) = [''Run completed! 1.02 km in 05:00. Pace: 4:54/km.'']"
proof -
  have r: "run_record 301000 at_one_km =
      \<lparr>date = 301000, distance = 102 / 100, run_time = 300000, pace = ''4:54''\<rparr>"
    by (simp add: run_record_def round2_def at_one_km_fields js_defs Let_def)
  have b: "basic_summary (51 / 50) 300000 ''4:54'' = ''Run completed! 1.02 km in 05:00. Pace: 4:54/km.''"
    by (simp add: basic_summary_def js_defs Let_def)
  have p: "calculatePace (51 / 50) 300000 = ''4:54''"
    by (simp add: js_defs Let_def)
  from stopRun_basic [of at_one_km 301000] show ?thesis
    by (simp add: at_one_km_fields r b p said_def slice_last_def RUN_HISTORY_CAP_def)
qed

text \<open>
  C17. When the position asked for at the start arrives, the run begins from
  nothing: distance, step count and last announced kilometre are 0, the window
  holds the start position alone, the start time is the present, a new watch is
  made and stored, and the first tick of the display is set for a second later.
\<close>

theorem startRun_resume_resets:
  "isRunning (startRun_resume now c s) \<and>
   startTime (startRun_resume now c s) = Some now \<and>
   totalDistance (startRun_resume now c s) = 0 \<and>
   stepCount (startRun_resume now c s) = 0 \<and>
   lastAnnouncedKm (startRun_resume now c s) = 0 \<and>
   positions (startRun_resume now c s) = [newPos now c] \<and>
   watchId (startRun_resume now c s) = Some (nextWatchId s) \<and>
   watchers (startRun_resume now c s) = watchers s @ [(nextWatchId s, 0)] \<and>
   timers (startRun_resume now c s) = timers s @ [(now + 1000, Tick)]"
  by (simp add: startRun_resume_fields)

text \<open>
  The time saved with a run is measured when the run is saved. When the summary
  comes from the assistant, that is when its answer arrives, not when the run was
  stopped: the saved time exceeds the time the summary was asked for by the time
  the assistant took.
\<close>

theorem summary_reply_time:
  "run_time (last (runHistory (summary_reply now t r s))) = calculateTimeElapsed now s"
  by (simp add: summary_reply_def stopRun_finish_def saveRunHistory_last run_record_def
      calculateTimeElapsed_def split: sum.split)

text \<open>
  C40. With a key of more than ten characters configured and the network up, the
  page starts in assistant mode whatever preference was saved: the saved \<^verbatim>\<open>off\<close> is
  read first and overwritten.
\<close>

theorem boot_useAI:
  assumes "configApiKey c = Some key" and "10 < length key" and "net"
  shows "useAI (boot c pref hist net)"
  using assms
  by (auto simp: boot_def initialize_def initializeAI_def testAIConnection_def
      queryGemini_begin_def new_coach_def fixture_defs stored_page_def)

theorem boot_useAI_witness:
  "useAI (boot (full_caps\<lparr>configApiKey := Some ''k-0123456789''\<rparr>) (Some ''off'') [] True)"
  using boot_useAI [of "full_caps\<lparr>configApiKey := Some ''k-0123456789''\<rparr>" "''k-0123456789''" True]
  by simp

end
