(* ===== verification/Lifecycle.thy ===== *)
theory Lifecycle
  imports Session
begin

text \<open>
  The life cycle of a session as the specification gives it, \<open>Idle\<close>, \<open>Running\<close>,
  \<open>Stopped\<close>, as an abstract machine over the events of the page, and the proof that
  the handlers of \<^verbatim>\<open>src/app.js\<close> implement it: the phase of the state after an event
  is one the machine allows (\<open>step_lifecycle\<close>), from which the root theory derives
  that a sequence of events is a run of the machine. The phase of a state is read from \<^verbatim>\<open>isRunning\<close>
  and \<^verbatim>\<open>startTime\<close>; the script has no variable for it.

  The second part is about the timers. The display tick reschedules itself
  (\<^verbatim>\<open>updateTimer\<close>) and nothing cancels it: no event but the firing of a timer
  removes an entry of the queue (\<open>timers_never_cancelled\<close>). The tick ends because a
  timer that fires while no run is in progress schedules no other, so the queue
  of a stopped session drains; and a tick that fires during a run, whichever run
  started it, puts another in its place (\<open>ticks_timerDue_running\<close>).

  The machine is as permissive as the script: its rule \<open>stay\<close> lets every event keep
  the phase, so the arrival of a second awaited position during a run, which
  restarts the run where the specification forbids it, is a step of the machine.
  That defect is the subject of \<open>double_start_leak\<close> in the root theory, not of the
  refinement.
\<close>

section \<open>The machine of the specification\<close>

datatype phase = Idle | Running | Stopped

text \<open>
  The phase of a state: \<^verbatim>\<open>isRunning\<close> (lines 14, 251, 425), and \<^verbatim>\<open>startTime\<close> (lines 15,
  250), which is \<^verbatim>\<open>null\<close> until the first run starts and is never cleared.
\<close>

definition phase_of :: "app \<Rightarrow> phase" where
  "phase_of s = (if isRunning s then Running else if startTime s = None then Idle else Stopped)"

text \<open>
  The transitions: the arrival of the awaited position starts a run from \<open>Idle\<close> or
  \<open>Stopped\<close>; the stop button and the delayed stop of a voice command end it; every
  event may leave the phase as it is.
\<close>

inductive lifecycle :: "phase \<Rightarrow> event \<Rightarrow> phase \<Rightarrow> bool" where
  start: "p \<noteq> Running \<Longrightarrow> lifecycle p (FixArrived c) Running"
| stop: "lifecycle Running StopClicked Stopped"
| delayed_stop: "lifecycle Running (TimerDue k) Stopped"
| stay: "lifecycle p e p"

text \<open>A run of the machine over a sequence of events.\<close>

inductive lifecycle_run :: "phase \<Rightarrow> event list \<Rightarrow> phase \<Rightarrow> bool" where
  finished: "lifecycle_run p [] p"
| move: "lifecycle p e q \<Longrightarrow> lifecycle_run q es r \<Longrightarrow> lifecycle_run p (e # es) r"

text \<open>The display ticks that are pending.\<close>

definition ticks :: "app \<Rightarrow> nat" where
  "ticks s = length (filter (\<lambda>(due, a). a = Tick) (timers s))"

code_pred lifecycle .

code_pred lifecycle_run .

inductive_cases lifecycle_IdleE: "lifecycle p e Idle"
inductive_cases lifecycle_StoppedE: "lifecycle p e Stopped"
inductive_cases lifecycle_run_NilE: "lifecycle_run p [] q"
inductive_cases lifecycle_run_ConsE: "lifecycle_run p (e # es) q"

section \<open>The handlers implement the machine\<close>

lemma lifecycle_same:
  "isRunning s' = isRunning s \<Longrightarrow> startTime s' = startTime s \<Longrightarrow> lifecycle (phase_of s) e (phase_of s')"
  unfolding phase_of_def by (simp add: lifecycle.stay)

lemma lifecycle_Idle_iff: "lifecycle p e Idle \<longleftrightarrow> p = Idle"
  by (auto elim: lifecycle_IdleE intro: lifecycle.stay)

lemma lifecycle_run_Idle: "lifecycle_run p es Idle \<Longrightarrow> p = Idle"
  by (induction p es "Idle" rule: lifecycle_run.induct) (simp_all add: lifecycle_Idle_iff)

lemma phase_of_running: "isRunning s \<Longrightarrow> phase_of s = Running"
  by (simp add: phase_of_def)

lemma phase_of_stopRun:
  "session_inv s \<Longrightarrow> phase_of (stopRun now s) = (if isRunning s then Stopped else phase_of s)"
  by (cases "isRunning s") (simp_all add: stopRun_idle phase_of_def stopRun_fields session_inv_def)

lemma lifecycle_begin: "lifecycle p (FixArrived c) Running"
  by (cases "p = Running") (auto intro: lifecycle.intros)

lemma lifecycle_stopRun:
  assumes "session_inv s"
  shows "lifecycle (phase_of s) StopClicked (phase_of (stopRun now s))"
    and "lifecycle (phase_of s) (TimerDue k) (phase_of (stopRun now s))"
  using assms by (auto simp: phase_of_stopRun phase_of_running intro: lifecycle.intros)

lemma lifecycle_timerDue:
  assumes inv: "session_inv s"
  shows "lifecycle (phase_of s) (TimerDue k) (phase_of (timerDue now k s))"
proof -
  have 1: "session_inv (s\<lparr>timers := ts\<rparr>)" and 2: "phase_of (s\<lparr>timers := ts\<rparr>) = phase_of s" for ts
    using inv by (simp_all add: session_inv_def phase_of_def)
  have "lifecycle (phase_of s) (TimerDue k) (phase_of (stopRun now (s\<lparr>timers := ts\<rparr>)))" for ts
    using lifecycle_stopRun(2) [OF 1, of ts k now] by (simp add: 2)
  moreover have "lifecycle (phase_of s) (TimerDue k) (phase_of (restartVoice (s\<lparr>timers := ts\<rparr>)))"
    and "lifecycle (phase_of s) (TimerDue k) (phase_of (updateTimer now (s\<lparr>timers := ts\<rparr>)))" for ts
    by (simp_all add: lifecycle_same)
  ultimately show ?thesis
    by (simp add: timerDue_def Let_def lifecycle.stay split: prod.split timer_action.split)
qed

lemma step_lifecycle:
  assumes inv: "session_inv s"
  shows "lifecycle (phase_of s) e (phase_of (step now e s))"
proof (cases e)
  case (FixArrived c)
  have "phase_of (startRun_resume now c s') = Running" for s'
    by (simp add: startRun_resume_fields phase_of_running)
  then show ?thesis
    unfolding FixArrived by (simp add: lifecycle_begin lifecycle.stay)
next
  case StopClicked
  with inv show ?thesis by (simp add: lifecycle_stopRun lifecycle.stay)
next
  case (TimerDue k)
  with inv show ?thesis by (simp add: lifecycle_timerDue)
qed (simp_all add: lifecycle_same)

text \<open>
  Only the stop button and a timer lead to \<open>Stopped\<close>, and nothing leads back to
  \<open>Idle\<close>.
\<close>

lemma lifecycle_Stopped_iff:
  "lifecycle p e Stopped \<longleftrightarrow> p = Stopped \<or> p = Running \<and> (e = StopClicked \<or> (\<exists>k. e = TimerDue k))"
  by (auto elim: lifecycle_StoppedE intro: lifecycle.intros)

section \<open>The timers of a stopped session\<close>

lemma timerDue_idle:
  assumes "\<not> isRunning s"
  shows "timers (timerDue now k s) =
    (if k < length (timers s) \<and> fst (timers s ! k) \<le> now then remove_nth k (timers s) else timers s)"
    and "\<not> isRunning (timerDue now k s)"
  using assms
  by (simp_all add: timerDue_def Let_def stopRun_idle updateTimer_def split: prod.split timer_action.split)

text \<open>
  C20. The display tick ends after a stop. While no run is in progress a timer that
  fires schedules no other and starts no run, so when every pending timer is due,
  firing the first of them as many times as there are timers empties the queue.
\<close>

theorem timers_drain:
  assumes "\<not> isRunning s" and "\<forall>t \<in> set (timers s). fst t \<le> now"
  shows "timers (exec (replicate (length (timers s)) (now, TimerDue 0)) s) = []"
  using assms
proof (induction "length (timers s)" arbitrary: s)
  case 0
  then show ?case by simp
next
  case (Suc n)
  define s' where "s' = timerDue now 0 s"
  from Suc.hyps(2) obtain t ts where ts: "timers s = t # ts"
    by (cases "timers s") simp_all
  with Suc.prems have t: "timers s' = ts"
    by (simp add: s'_def timerDue_idle remove_nth_def)
  have "timers (exec (replicate (length (timers s')) (now, TimerDue 0)) s') = []"
  proof (rule Suc.hyps(1))
    show "n = length (timers s')" using Suc.hyps(2) by (simp add: t ts)
    show "\<not> isRunning s'" using Suc.prems(1) by (simp add: s'_def timerDue_idle)
    show "\<forall>t \<in> set (timers s'). fst t \<le> now" using Suc.prems(2) by (simp add: t ts)
  qed
  then show ?case
    by (simp add: t ts s'_def [symmetric])
qed

theorem timers_drain_witness:
  "timers (exec (replicate 3 (3000, TimerDue 0))
     (blank_page full_caps\<lparr>timers := [(2000, Tick), (2500, RestartVoice), (3000, DelayedStop)]\<rparr>)) = []"
  using timers_drain [of "blank_page full_caps\<lparr>timers := [(2000, Tick), (2500, RestartVoice), (3000, DelayedStop)]\<rparr>" 3000]
  by (simp add: blank_page_def numeral_3_eq_3)

section \<open>Nothing cancels a timer\<close>

text \<open>
  The script never calls \<^verbatim>\<open>clearTimeout\<close>. An event other than the firing of a timer
  leaves every pending timer where it is and at most adds new ones at the end.
\<close>

lemma prefix_timers_processVoiceCommand:
  "prefix (timers s) (timers (processVoiceCommand now command s))"
  by (simp add: processVoiceCommand_cases finish_command_timers split: sum.split)

lemma prefix_timers_command_reply:
  "prefix (timers s) (timers (command_reply now command r s))"
  by (cases r) (simp_all add: command_reply_def finish_command_timers)

lemma prefix_timers_settled: "prefix (timers s) (timers (settled now k r s))"
proof -
  have "prefix (timers s) (timers (command_reply now c res (s\<lparr>pendingAI := p, aiCoach := a\<rparr>)))"
    for c res p a
    using prefix_timers_command_reply [of "s\<lparr>pendingAI := p, aiCoach := a\<rparr>"] by simp
  then show ?thesis
    by (simp add: settled_def Let_def split: prod.split ai_cont.split option.split)
qed

lemma timers_never_cancelled:
  assumes "\<forall>k. e \<noteq> TimerDue k"
  shows "prefix (timers s) (timers (step now e s))"
proof (cases e)
  case (TimerDue k)
  with assms show ?thesis by simp
next
  case (FixArrived c)
  then show ?thesis by (simp add: startRun_resume_fields)
next
  case (RecResult i f t)
  then show ?thesis
    by (simp add: recResult_def onresult_def manual_onresult_def Let_def
        prefix_timers_processVoiceCommand)
next
  case (RecError i err)
  then show ?thesis by (simp add: recError_def onerror_timers)
next
  case (RecEnd i)
  then show ?thesis by (simp add: recEnd_def onend_timers)
next
  case (Settled k r)
  then show ?thesis by (simp add: prefix_timers_settled)
qed simp_all

text \<open>A tick that fires during a run is replaced by the next one.\<close>

lemma filter_remove_nth_Tick:
  assumes "k < length ts" and "snd (ts ! k) = Tick"
  shows "Suc (length (filter (\<lambda>(due, a). a = Tick) (remove_nth k ts))) =
    length (filter (\<lambda>(due, a). a = Tick) ts)"
proof -
  from assms(1) have "ts = take k ts @ ts ! k # drop (Suc k) ts"
    by (rule id_take_nth_drop)
  then have "filter (\<lambda>(due, a). a = Tick) ts =
      filter (\<lambda>(due, a). a = Tick) (take k ts) @ ts ! k # filter (\<lambda>(due, a). a = Tick) (drop (Suc k) ts)"
    using assms(2) by (metis (mono_tags, lifting) case_prod_unfold filter.simps(2) filter_append)
  then show ?thesis
    by (simp add: remove_nth_def)
qed

lemma ticks_timerDue_running:
  assumes "isRunning s" and "k < length (timers s)" and "snd (timers s ! k) = Tick"
    and "fst (timers s ! k) \<le> now"
  shows "ticks (timerDue now k s) = ticks s"
proof -
  obtain due a where e: "timers s ! k = (due, a)" by (cases "timers s ! k")
  with assms have "timers (timerDue now k s) = remove_nth k (timers s) @ [(now + 1000, Tick)]"
    by (simp add: timerDue_def Let_def updateTimer_timers)
  then show ?thesis
    using filter_remove_nth_Tick [OF assms(2,3)] by (simp add: ticks_def)
qed

lemma stopRun_basic_start:
  "isRunning s \<Longrightarrow> aiCoach s = None \<or> \<not> useAI s \<Longrightarrow> \<not> startBtnDisabled (stopRun now s)"
  by (auto simp: stopRun_def Let_def stopRun_finish_def saveRunHistory_def clearWatch_def
      stopVoiceMonitoring_def split: option.split)

lemma restart_timers:
  assumes "isRunning s" and "\<not> stopBtnDisabled s" and "pendingFix s = 0"
    and "hasGeolocation (caps s)" and "aiCoach s = None \<or> \<not> useAI s"
  shows "exec [(t1, StopClicked), (t2, StartClicked), (t3, FixArrived c)] s =
    startRun_resume t3 c ((startRun (stopRun t1 s))\<lparr>pendingFix := 0\<rparr>)"
  using assms by (simp add: stopRun_basic_start startRun_pending)


lemma restart_fields:
  assumes "isRunning s" and "\<not> stopBtnDisabled s" and "pendingFix s = 0"
    and "hasGeolocation (caps s)" and "aiCoach s = None \<or> \<not> useAI s"
  shows "isRunning (exec [(t1, StopClicked), (t2, StartClicked), (t3, FixArrived c)] s)"
    and "timers (exec [(t1, StopClicked), (t2, StartClicked), (t3, FixArrived c)] s) =
      timers s @ [(t3 + 1000, Tick)]"
  unfolding restart_timers [OF assms] by (simp_all add: startRun_resume_fields)

end
