(* ===== verification/ServiceWorker.thy ===== *)
theory ServiceWorker
  imports JS_String "HOL-Library.AList"
begin

text \<open>
  The service worker, \<^verbatim>\<open>src/sw.js\<close>: the handlers of \<^verbatim>\<open>install\<close>, \<^verbatim>\<open>activate\<close> and \<^verbatim>\<open>fetch\<close>
  over the cache storage of the browser. A cache is an association list from URLs
  to responses, the storage one from cache names to caches, in the order of their
  creation, which is the order \<^verbatim>\<open>caches.match\<close> searches them in. The network is an
  argument: what a request would be answered with, or nothing when it fails. The
  write to the cache that the fetch handler starts without waiting for it is taken
  as done when the handler has answered. The handler of \<^verbatim>\<open>sync\<close> only logs.

  The lemmas show that the strategy is cache first (a cached response is returned
  whatever the network says), that a response fetched once is served from the
  cache afterwards, what is answered when the network fails, that \<^verbatim>\<open>install\<close> caches
  all of the application shell or nothing, and that after \<^verbatim>\<open>activate\<close> only the
  current cache exists, which the fetch handler keeps so.
\<close>

section \<open>Definitions\<close>

text \<open>What the handlers read of a request and of a response.\<close>

record request =
  http_method :: string
  url :: string
  accept :: "string option"

record response =
  status :: nat
  rtype :: string
  body :: string

type_synonym cache = "(string \<times> response) list"
type_synonym storage = "(string \<times> cache) list"
type_synonym network = "string \<Rightarrow> response option"

text \<open>Lines 2-9.\<close>

definition CACHE_NAME :: string where
  "CACHE_NAME = ''runflow-v1.0''"

definition urlsToCache :: "string list" where
  "urlsToCache = [''./'', ''./index.html'', ''./style.css'', ''./app.js'', ''./manifest.json'']"

text \<open>\<^verbatim>\<open>caches.open(name)\<close> makes the cache if there is none of that name.\<close>

definition open_cache :: "string \<Rightarrow> storage \<Rightarrow> storage" where
  "open_cache name st = (if map_of st name = None then st @ [(name, [])] else st)"

text \<open>\<^verbatim>\<open>cache.put(request, response)\<close> on the cache of that name.\<close>

definition cache_put :: "string \<Rightarrow> string \<Rightarrow> response \<Rightarrow> storage \<Rightarrow> storage" where
  "cache_put name u r st = AList.map_entry name (AList.update u r) (open_cache name st)"

text \<open>\<^verbatim>\<open>caches.match(request)\<close>: the first cache, in the order of creation, that has the URL.\<close>

fun caches_match :: "string \<Rightarrow> storage \<Rightarrow> response option" where
  "caches_match u [] = None"
| "caches_match u ((name, c) # st) =
     (case map_of c u of Some r \<Rightarrow> Some r | None \<Rightarrow> caches_match u st)"

text \<open>\<^verbatim>\<open>response.ok\<close>.\<close>

definition ok :: "response \<Rightarrow> bool" where
  "ok r \<longleftrightarrow> 200 \<le> status r \<and> status r < 300"

text \<open>
  Lines 12-23. \<^verbatim>\<open>cache.addAll\<close> fetches every URL and stores the responses only if
  all of them arrived and are \<^verbatim>\<open>ok\<close>; otherwise the installation fails, with the
  cache opened and nothing added.
\<close>

definition addAll :: "network \<Rightarrow> string list \<Rightarrow> cache \<Rightarrow> cache option" where
  "addAll net us c =
     (if list_all (\<lambda>u. case net u of Some r \<Rightarrow> ok r | None \<Rightarrow> False) us
      then Some (fold (\<lambda>u. AList.update u (the (net u))) us c)
      else None)"

definition install :: "network \<Rightarrow> storage \<Rightarrow> bool \<times> storage" where
  "install net st =
     (let st1 = open_cache CACHE_NAME st
      in case addAll net urlsToCache (the (map_of st1 CACHE_NAME)) of
           Some c \<Rightarrow> (True, AList.update CACHE_NAME c st1)
         | None \<Rightarrow> (False, st1))"

text \<open>Lines 26-41: every cache of another name is deleted.\<close>

definition activate :: "storage \<Rightarrow> storage" where
  "activate st = filter (\<lambda>(name, c). name = CACHE_NAME) st"

text \<open>
  What becomes of a fetch event: the handler does not answer and the browser
  proceeds as without a worker, or it answers with a response, or the promise
  given to \<^verbatim>\<open>respondWith\<close> fails or yields no response, which is a network error.
\<close>

datatype outcome = Passthrough | Respond response | NetworkError

text \<open>Lines 82-88: the network has failed.\<close>

definition offline_fallback :: "request \<Rightarrow> storage \<Rightarrow> outcome" where
  "offline_fallback req st =
     (case accept req of
        None \<Rightarrow> NetworkError
      | Some a \<Rightarrow>
          if js_includes a ''text/html'' then
            (case caches_match ''./index.html'' st of
               Some r \<Rightarrow> Respond r
             | None \<Rightarrow> NetworkError)
          else NetworkError)"

text \<open>
  Lines 44-91. \<^verbatim>\<open>fetch\<close> resolves with a response or rejects, so the test
  \<^verbatim>\<open>!response\<close> of line 66 never holds and has no branch here.
\<close>

definition fetch_handler :: "network \<Rightarrow> request \<Rightarrow> storage \<Rightarrow> outcome \<times> storage" where
  "fetch_handler net req st =
     (if http_method req \<noteq> ''GET'' then (Passthrough, st)
      else if prefix ''chrome-extension://'' (url req) then (Passthrough, st)
      else case caches_match (url req) st of
        Some r \<Rightarrow> (Respond r, st)
      | None \<Rightarrow>
          (case net (url req) of
             Some r \<Rightarrow>
               if status r \<noteq> 200 \<or> rtype r \<noteq> ''basic'' then (Respond r, st)
               else (Respond r, cache_put CACHE_NAME (url req) r st)
           | None \<Rightarrow> (offline_fallback req st, st)))"

text \<open>Lines 94-104: the handler of \<^verbatim>\<open>sync\<close> logs and changes nothing.\<close>

definition sync :: "string \<Rightarrow> storage \<Rightarrow> storage" where
  "sync tag st = (if tag = ''sync-runs'' then st else st)"

text \<open>Only the current cache exists.\<close>

definition current_only :: "storage \<Rightarrow> bool" where
  "current_only st \<longleftrightarrow> list_all (\<lambda>(name, c). name = CACHE_NAME) st"

lemmas worker_defs [handler_defs] =
  open_cache_def cache_put_def ok_def addAll_def install_def activate_def offline_fallback_def
  fetch_handler_def sync_def

section \<open>The cache storage\<close>

lemma caches_match_append:
  "caches_match u (st @ st') =
     (case caches_match u st of Some r \<Rightarrow> Some r | None \<Rightarrow> caches_match u st')"
  by (induction st) (auto split: option.split)

lemma caches_match_Some_iff:
  "caches_match u st \<noteq> None \<longleftrightarrow> (\<exists>(name, c) \<in> set st. map_of c u \<noteq> None)"
  by (induction st) (auto split: option.splits)

lemma map_of_open_cache:
  "map_of (open_cache name st) n =
     (if n = name \<and> map_of st name = None then Some [] else map_of st n)"
  by (auto simp: open_cache_def map_add_def split: option.split)

lemma caches_match_open_cache [simp]: "caches_match u (open_cache name st) = caches_match u st"
  by (simp add: open_cache_def caches_match_append split: option.split)

lemma map_entry_present: "map_of st name = Some c \<Longrightarrow> map_of (AList.map_entry name f st) name = Some (f c)"
  by (induction st) auto

lemma caches_match_map_entry_miss:
  "caches_match u st = None \<Longrightarrow> map_of st name \<noteq> None \<Longrightarrow>
   caches_match u (AList.map_entry name (AList.update u r) st) = Some r"
  by (induction st) (auto simp: update_conv' split: option.splits)

lemma caches_match_map_entry_other:
  "u' \<noteq> u \<Longrightarrow>
   caches_match u' (AList.map_entry name (AList.update u r) st) = caches_match u' st"
  by (induction st) (auto simp: update_conv' split: option.splits)

lemma caches_match_cache_put_miss:
  "caches_match u st = None \<Longrightarrow> caches_match u (cache_put name u r st) = Some r"
  unfolding cache_put_def
  by (rule caches_match_map_entry_miss) (simp_all add: map_of_open_cache)

lemma caches_match_cache_put_other:
  "u' \<noteq> u \<Longrightarrow> caches_match u' (cache_put name u r st) = caches_match u' st"
  by (simp add: cache_put_def caches_match_map_entry_other)

lemma keys_map_entry [simp]: "map fst (AList.map_entry name f st) = map fst st"
  by (induction st) auto

lemma current_only_keys: "current_only st \<longleftrightarrow> set (map fst st) \<subseteq> {CACHE_NAME}"
  by (auto simp: current_only_def list_all_iff)

lemma current_only_open_cache: "current_only st \<Longrightarrow> current_only (open_cache CACHE_NAME st)"
  by (simp add: current_only_def open_cache_def)

lemma current_only_cache_put: "current_only st \<Longrightarrow> current_only (cache_put CACHE_NAME u r st)"
  unfolding current_only_keys cache_put_def keys_map_entry
  using current_only_open_cache [of st] by (simp add: current_only_keys)

lemma current_only_activate [simp]: "current_only (activate st)"
  by (auto simp: current_only_def activate_def list_all_iff)

lemma activate_keeps_current: "map_of (activate st) CACHE_NAME = map_of st CACHE_NAME"
  by (induction st) (auto simp: activate_def)

lemma activate_idem [simp]: "activate (activate st) = activate st"
  by (simp add: activate_def)

lemma current_only_activate_id: "current_only st \<Longrightarrow> activate st = st"
  by (induction st) (auto simp: current_only_def activate_def)

section \<open>Properties of the fetch strategy\<close>

lemma fetch_handler_hit:
  "http_method req = ''GET'' \<Longrightarrow> \<not> prefix ''chrome-extension://'' (url req) \<Longrightarrow>
   caches_match (url req) st = Some r \<Longrightarrow> fetch_handler net req st = (Respond r, st)"
  by (simp add: fetch_handler_def)

lemma fetch_handler_stores:
  "http_method req = ''GET'' \<Longrightarrow> \<not> prefix ''chrome-extension://'' (url req) \<Longrightarrow>
   caches_match (url req) st = None \<Longrightarrow> net (url req) = Some r \<Longrightarrow>
   status r = 200 \<Longrightarrow> rtype r = ''basic'' \<Longrightarrow>
   fetch_handler net req st = (Respond r, cache_put CACHE_NAME (url req) r st)"
  by (simp add: fetch_handler_def)

text \<open>A request for the page, a response worth caching, and a network that is down.\<close>

definition page_request :: request where
  "page_request = \<lparr>http_method = ''GET'', url = ''./index.html'', accept = Some ''text/html,*/*''\<rparr>"

definition page_response :: response where
  "page_response = \<lparr>status = 200, rtype = ''basic'', body = ''<html>''\<rparr>"

definition down :: network where
  "down = (\<lambda>u. None)"

definition up :: network where
  "up = (\<lambda>u. Some page_response)"

lemmas worker_fixtures = page_request_def page_response_def down_def up_def

text \<open>
  Cache first: a \<^verbatim>\<open>GET\<close> request whose URL is in a cache is answered with the
  cached response and leaves the storage as it is, whatever the network would
  answer.
\<close>

theorem fetch_handler_cache_first:
  assumes "http_method req = ''GET''" and "\<not> prefix ''chrome-extension://'' (url req)"
    and "caches_match (url req) st = Some r"
  shows "fetch_handler net req st = (Respond r, st)"
  using assms by (rule fetch_handler_hit)

theorem fetch_handler_cache_first_witness:
  "fetch_handler down page_request [(CACHE_NAME, [(''./index.html'', page_response)])] =
     (Respond page_response, [(CACHE_NAME, [(''./index.html'', page_response)])])"
  using fetch_handler_cache_first [of page_request "[(CACHE_NAME, [(''./index.html'', page_response)])]"
      page_response down]
  by (simp add: page_request_def)

text \<open>
  C28. A response fetched once is served from the cache afterwards: after a \<^verbatim>\<open>GET\<close>
  request that missed the cache was answered by the network with status 200 and
  type \<^verbatim>\<open>basic\<close>, the same request gets the same response whatever the network has
  become, and the storage no longer changes.
\<close>

theorem fetch_handler_round_trip:
  assumes "http_method req = ''GET''" and "\<not> prefix ''chrome-extension://'' (url req)"
    and "caches_match (url req) st = None" and "net (url req) = Some r"
    and "status r = 200" and "rtype r = ''basic''"
  shows "fetch_handler net' req (snd (fetch_handler net req st)) =
    (Respond r, snd (fetch_handler net req st))"
proof -
  from assms have "snd (fetch_handler net req st) = cache_put CACHE_NAME (url req) r st"
    by (simp add: fetch_handler_stores)
  moreover from assms(3) have "caches_match (url req) (cache_put CACHE_NAME (url req) r st) = Some r"
    by (rule caches_match_cache_put_miss)
  ultimately show ?thesis
    using assms(1,2) by (simp add: fetch_handler_hit)
qed

theorem fetch_handler_round_trip_witness:
  "fetch_handler down page_request (snd (fetch_handler up page_request [])) =
     (Respond page_response, [(CACHE_NAME, [(''./index.html'', page_response)])])"
  using fetch_handler_round_trip [of page_request "[]" up page_response down]
  by (simp add: worker_fixtures fetch_handler_def cache_put_def open_cache_def)

text \<open>
  After \<^verbatim>\<open>activate\<close> only the current cache exists, with the content it had; and
  the fetch handler keeps it so.
\<close>

theorem activate_current_only:
  "current_only (activate st) \<and> map_of (activate st) CACHE_NAME = map_of st CACHE_NAME \<and>
   current_only (snd (fetch_handler net req (activate st)))"
proof -
  have "current_only (snd (fetch_handler net req st'))" if "current_only st'" for st'
    using that by (simp add: fetch_handler_def current_only_cache_put split: option.split)
  then show ?thesis
    by (simp add: activate_keeps_current)
qed

lemma map_of_fold_update:
  "map_of (fold (\<lambda>u. AList.update u (f u)) us c) u = (if u \<in> set us then Some (f u) else map_of c u)"
  by (induction us arbitrary: c) (auto simp: update_conv')

lemma caches_match_update_hit:
  "map_of st name \<noteq> None \<Longrightarrow> map_of c u \<noteq> None \<Longrightarrow>
   caches_match u (AList.update name c st) \<noteq> None"
  by (induction st) (auto split: option.splits)

lemma addAll_Some_iff:
  "addAll net us c \<noteq> None \<longleftrightarrow> (\<forall>u \<in> set us. \<exists>r. net u = Some r \<and> ok r)"
  by (auto simp: addAll_def list_all_iff split: option.splits)

lemma install_fails:
  "\<not> fst (install net st) \<Longrightarrow> snd (install net st) = open_cache CACHE_NAME st"
  by (simp add: install_def Let_def split: option.splits)

lemma install_succeeds:
  assumes "fst (install net st)" and "u \<in> set urlsToCache"
  shows "caches_match u (snd (install net st)) \<noteq> None"
proof -
  let ?st1 = "open_cache CACHE_NAME st"
  let ?c = "the (map_of ?st1 CACHE_NAME)"
  from assms(1) obtain c' where a: "addAll net urlsToCache ?c = Some c'"
    and s: "snd (install net st) = AList.update CACHE_NAME c' ?st1"
    by (auto simp: install_def Let_def split: option.splits)
  from a have "c' = fold (\<lambda>u. AList.update u (the (net u))) urlsToCache ?c"
    by (simp add: addAll_def split: if_splits)
  with assms(2) have "map_of c' u \<noteq> None"
    by (simp add: map_of_fold_update)
  moreover have "map_of ?st1 CACHE_NAME \<noteq> None"
    by (simp add: map_of_open_cache)
  ultimately show ?thesis
    unfolding s by (intro caches_match_update_hit)
qed

text \<open>
  C29. The application opens without a network once it is installed. After a
  successful \<^verbatim>\<open>install\<close> the start page is cached, and a \<^verbatim>\<open>GET\<close> request that accepts
  HTML is answered when the network is down: with the cached response for its
  URL, or else with the cached start page. A request without an \<^verbatim>\<open>accept\<close> header
  whose URL is not cached ends in a network error: the handler throws on the
  missing header.
\<close>

theorem fetch_handler_offline:
  assumes "http_method req = ''GET''" and "\<not> prefix ''chrome-extension://'' (url req)"
    and "fst (install net st)"
  shows "\<exists>page. caches_match ''./index.html'' (snd (install net st)) = Some page \<and>
    (\<forall>a. accept req = Some a \<and> js_includes a ''text/html'' \<longrightarrow>
       fetch_handler down req (snd (install net st)) =
         (Respond (case caches_match (url req) (snd (install net st)) of
                     Some r \<Rightarrow> r | None \<Rightarrow> page),
          snd (install net st))) \<and>
    (accept req = None \<and> caches_match (url req) (snd (install net st)) = None \<longrightarrow>
       fetch_handler down req (snd (install net st)) = (NetworkError, snd (install net st)))"
proof -
  let ?st = "snd (install net st)"
  have "caches_match ''./index.html'' ?st \<noteq> None"
    using assms(3) by (rule install_succeeds) (simp add: urlsToCache_def)
  then obtain p where "caches_match ''./index.html'' ?st = Some p"
    by auto
  with assms(1,2) show ?thesis
    by (auto simp: fetch_handler_def offline_fallback_def down_def split: option.split)
qed

theorem fetch_handler_offline_witness:
  "fetch_handler down (page_request\<lparr>url := ''./run/7''\<rparr>) (snd (install up [])) =
     (Respond page_response, snd (install up []))"
proof -
  have i: "fst (install up [])"
    by (simp add: worker_fixtures worker_defs urlsToCache_def)
  have m: "caches_match ''./run/7'' (snd (install up [])) = None"
    "caches_match ''./index.html'' (snd (install up [])) = Some page_response"
    by (simp_all add: worker_fixtures worker_defs urlsToCache_def CACHE_NAME_def)
  from fetch_handler_offline [of "page_request\<lparr>url := ''./run/7''\<rparr>" up "[]", OF _ _ i]
  show ?thesis
    by (simp add: m page_request_def)
qed

text \<open>
  C30. \<^verbatim>\<open>install\<close> caches the whole application shell or nothing: it succeeds exactly
  when the network answers every URL of the shell with an \<^verbatim>\<open>ok\<close> response, and then
  each of them is served from the cache; when it fails, nothing is served that was
  not served before.
\<close>

theorem install_all_or_nothing:
  "(fst (install net st) \<longleftrightarrow> (\<forall>u \<in> set urlsToCache. \<exists>r. net u = Some r \<and> ok r)) \<and>
   (fst (install net st) \<longrightarrow> (\<forall>u \<in> set urlsToCache. caches_match u (snd (install net st)) \<noteq> None)) \<and>
   (\<not> fst (install net st) \<longrightarrow> caches_match u (snd (install net st)) = caches_match u st)"
proof (intro conjI impI ballI)
  show "fst (install net st) \<longleftrightarrow> (\<forall>u \<in> set urlsToCache. \<exists>r. net u = Some r \<and> ok r)"
    using addAll_Some_iff [of net urlsToCache "the (map_of (open_cache CACHE_NAME st) CACHE_NAME)"]
    by (auto simp: install_def Let_def split: option.splits)
  show "caches_match u' (snd (install net st)) \<noteq> None"
    if "fst (install net st)" and "u' \<in> set urlsToCache" for u'
    using that by (rule install_succeeds)
  show "caches_match u (snd (install net st)) = caches_match u st" if "\<not> fst (install net st)"
    using that by (simp add: install_fails)
qed

theorem install_all_or_nothing_witness:
  "fst (install up []) \<and> caches_match ''./app.js'' (snd (install up [])) \<noteq> None \<and>
   \<not> fst (install down []) \<and> caches_match ''./app.js'' (snd (install down [])) = None"
proof -
  have u: "fst (install up [])" and d: "\<not> fst (install down [])"
    by (simp_all add: worker_fixtures worker_defs urlsToCache_def)
  show ?thesis
    using install_all_or_nothing [of up "[]" "''./app.js''"]
      install_all_or_nothing [of down "[]" "''./app.js''"]
    by (simp add: u d urlsToCache_def)
qed

end
