(* ===== verification/Spec2Isabelle.thy ===== *)
theory Spec2Isabelle
  imports Lifecycle ServiceWorker
begin

text \<open>
  \<^bold>\<open>RunFlow\<close> is a run tracker for the browser: \<^verbatim>\<open>src/app.js\<close> (the application) and
  \<^verbatim>\<open>src/sw.js\<close> (a service worker that caches the assets). The two share no state:
  the worker answers the requests of the page for its own files, and the page does
  not observe which of the two, cache or network, has answered. This development
  models the application as the event-driven program it is: one state, the module-level
  variables of the script together with the browser-side resources its handlers
  create, and one function per handler, which maps the state before an event to the
  state after it. Every definition is translated from the source; the comment before
  it names the lines.

  \<^bold>\<open>Conventions.\<close> A handler runs to its end at one instant, the value \<open>now\<close> of
  \<^verbatim>\<open>Date.now()\<close>, which is an argument. An asynchronous function is split at each
  \<^verbatim>\<open>await\<close>: the part before it leaves a pending request in the state
  (\<open>pendingFix\<close>, \<open>pendingAI\<close> with the continuation of the caller), and the part after
  it is a handler of its own, run when the answer arrives. \<^verbatim>\<open>setTimeout\<close> adds an entry
  to \<open>timers\<close>. Finite numbers are reals (no rounding error); the one quotient that
  can have divisor zero is computed by \<open>js_div\<close>, which yields infinities and
  \<^verbatim>\<open>NaN\<close> as JavaScript does. Time stamps are integers, strings are lists of 8-bit
  characters. Errors are values: \<open>ai_error\<close> for the rejections of \<^verbatim>\<open>queryGemini\<close>,
  \<open>None\<close> for a \<^verbatim>\<open>start()\<close> that throws.

  \<^bold>\<open>Theories\<close>, in the order of their imports:

  \<^item> \<open>Runflow_Prelude\<close>: the names of the base types, the fact collections
    (\<open>js_defs\<close>, \<open>handler_defs\<close>, \<open>frame\<close>), and the two bounded-FIFO idioms of the
    script (\<open>push_shift\<close>, \<open>slice_last\<close>) with their lemmas, among them that the two
    agree on a window within its capacity.
  \<^item> \<open>JS_Number\<close>, \<open>JS_String\<close>: the operations of JavaScript the script relies on
    where they differ from HOL's: division, comparison with \<^verbatim>\<open>NaN\<close>, \<^verbatim>\<open>Math.round\<close>,
    \<^verbatim>\<open>%\<close>, \<^verbatim>\<open>toString\<close>, \<^verbatim>\<open>padStart\<close>, \<^verbatim>\<open>toFixed\<close>; \<^verbatim>\<open>includes\<close> (proved equal to the
    library's \<open>sublist\<close>), \<^verbatim>\<open>toLowerCase\<close>, \<^verbatim>\<open>trim\<close>, \<^verbatim>\<open>substring\<close>.
  \<^item> \<open>Haversine\<close>: \<^verbatim>\<open>calculateDistance\<close>. Range, symmetry, zero on equal points, the
    arc length along the equator and along a meridian, and the value for one degree;
    bounds on \<open>\<pi>\<close> are derived from the Taylor polynomial of the cosine.
  \<^item> \<open>App_State\<close>: the record \<open>app\<close> of the state, the records of its entries, the
    constants of the script, and the fixtures of the closed examples.
  \<^item> \<open>Metrics\<close>: \<^verbatim>\<open>calculateTimeElapsed\<close>, \<^verbatim>\<open>calculatePace\<close>, \<^verbatim>\<open>formatTime\<close>. The pace label
    encodes the pace rounded to seconds; its seconds field reads 60 exactly in the
    last half second of a minute.
  \<^item> \<open>Speech\<close>: \<^verbatim>\<open>speak\<close> and the choice of the voice; the utterances are recorded in
    \<open>spoken\<close>.
  \<^item> \<open>AICoach\<close>: the class \<^verbatim>\<open>AICoach\<close>: the checks before a request, the handling of
    the response with the conversation history of ten turns, and the prompts.
  \<^item> \<open>Display\<close>: \<^verbatim>\<open>updateUI\<close>, \<^verbatim>\<open>checkAudioCues\<close>, \<^verbatim>\<open>speakBasicMilestone\<close>. A kilometre
    is announced exactly when it is reached and once; \<open>milestone_inv\<close>.
  \<^item> \<open>Fusion\<close>: the geolocation watch and its callbacks, the step detector.
    \<open>verdict\<close> is the specification of the filter chain of a fix, and
    \<open>onPosition_verdict\<close> shows that the callback implements it; from it follow the
    branch lemmas, the bounds of an accepted step, and the bound of the window.
    \<open>handleMotion_counts\<close> does the same for a motion event; the lag of the distance
    behind the counted steps follows a geometric law over any sequence of blended
    steps.
  \<^item> \<open>Voice\<close>: the monitoring recogniser with its handlers and restart timers, the
    one-shot recogniser of the voice button (\<^verbatim>\<open>startManualVoiceCommand\<close>),
    \<^verbatim>\<open>processVoiceCommand\<close>, \<^verbatim>\<open>handleBasicCommand\<close>: routing, the classifier, the delayed
    stop, what the failure branch omits, and that the two recognisers handle a
    transcript alike.
  \<^item> \<open>History\<close>: \<^verbatim>\<open>saveRunHistory\<close>; the history keeps the fifty latest runs.
  \<^item> \<open>Session\<close>: the start of the page, \<^verbatim>\<open>startRun\<close>, \<^verbatim>\<open>stopRun\<close>, \<^verbatim>\<open>updateTimer\<close>, the
    toggle and the network events; the datatype \<open>event\<close> of what the browser delivers,
    \<open>step\<close> (the handler of an event), \<open>exec\<close> (a sequence of events) and the
    inductive predicate \<open>reachable\<close>. Five invariants (\<open>session_inv\<close>,
    \<open>registry_inv\<close>, \<open>bounded_inv\<close>, \<open>milestone_inv\<close>, \<open>unlocked\<close>) and \<open>anchored\<close> are
    each shown to hold on a loaded page and to be kept by every event, and so of
    every reachable state (\<open>reachable_app_inv\<close>).
  \<^item> \<open>Lifecycle\<close>: the machine \<open>Idle\<close>, \<open>Running\<close>, \<open>Stopped\<close> of the specification as an
    inductive relation over the events, the phase of a state, and the proof that
    every handler moves the phase as the machine allows. No event but a firing
    cancels a timer; the timers of a stopped session drain, and a tick that fires
    during a run is replaced.
  \<^item> \<open>ServiceWorker\<close>: the handlers of \<^verbatim>\<open>src/sw.js\<close> (\<^verbatim>\<open>install\<close>, \<^verbatim>\<open>activate\<close>, \<^verbatim>\<open>fetch\<close>,
    \<^verbatim>\<open>sync\<close>) over a cache storage of association lists, the network an argument.
    The strategy is cache first, a response fetched once is served from the cache
    afterwards, \<^verbatim>\<open>install\<close> caches the application shell or nothing, and after
    \<^verbatim>\<open>activate\<close> only the current cache exists.
  \<^item> This theory: the properties that span the components, stated of \<open>reachable\<close>,
    \<open>step\<close> and \<open>exec\<close>.

  \<^bold>\<open>Frames.\<close> The state has 33 fields and a handler changes few of them. Each
  handler has a lemma \<open>\<dots>_frame\<close> that lists the fields it leaves alone, declared to
  the simplifier; the proofs about composed handlers rest on these and on the field
  lemmas of start and stop, not on unfolding.

  \<^bold>\<open>The model of the browser.\<close> \<open>step\<close> ignores an event that cannot occur: a click
  on a disabled button, a callback of a cleared watch, an answer nobody waits for,
  a timer before it is due, an event of an idle recogniser. A recogniser gets the
  handlers it was made with, those of the run or those of the voice button. The order of events and
  their times are otherwise free: the clock need not advance, so the invariants
  hold under clock adjustments too. A page is loaded with whatever the browser has
  stored, with one assumption: the stored history holds at most fifty runs (rule
  \<open>loaded\<close> of \<open>reachable\<close>). The script reads it unchecked (line 965) and is the only
  writer of it, and it never writes more than fifty. No bound or fuel is needed: every handler is a
  total function, and the only recursion is over a list (\<open>exec\<close>, \<open>js_includes\<close>,
  \<open>caches_match\<close>) or over the digits of a number (\<open>show_nat\<close>). The loops of the
  script are chains of timers; that they end is a property of the queue
  (\<open>timers_drain\<close>).

  \<^bold>\<open>Not modelled.\<close> The DOM wiring and the debug log (creation and styling of
  elements, \<^verbatim>\<open>log\<close>, the microphone indicator and its timers) and the installation
  prompt (\<^verbatim>\<open>setupPWAInstall\<close>): they read and write nothing the handlers depend on.
  The HTTP exchange with the assistant: its outcome is the argument \<open>fetch_result\<close>
  of the event \<open>Settled\<close>. That the browser may refuse a second recogniser while one
  is listening: \<^verbatim>\<open>start()\<close> of a new recogniser is taken to succeed. Exponent
  notation of very large numbers, rounding error, and transcripts outside ASCII. Of the service worker, the headers of a request other than \<^verbatim>\<open>accept\<close> and the
  time a write to the cache takes.
\<close>

section \<open>A page, a run, and a double start\<close>

definition page0 :: app where
  "page0 = boot full_caps None [] True"

definition started :: app where
  "started = exec [(0, StartClicked), (1000, FixArrived (east 0))] page0"

definition leaked :: app where
  "leaked = exec [(0, StartClicked), (1, StartClicked), (900, FixArrived (east 0)),
                  (1000, FixArrived (east 0)), (5000, StopClicked)] page0"

definition restarted :: app where
  "restarted = exec [(1500, StopClicked), (1600, StartClicked), (1800, FixArrived (east 0))] started"

lemma reachable_page0: "reachable page0"
  unfolding page0_def by (rule reachable.loaded) (simp add: RUN_HISTORY_CAP_def)

lemma reachable_started: "reachable started"
  unfolding started_def by (rule reachable_exec) (rule reachable_page0)

lemma reachable_leaked: "reachable leaked"
  unfolding leaked_def by (rule reachable_exec) (rule reachable_page0)

lemma page0_fields:
  "\<not> startBtnDisabled page0" "hasGeolocation (caps page0)" "nextWatchId page0 = 0"
  "pendingFix page0 = 0" "watchers page0 = []" "aiCoach page0 = None"
  by (simp_all add: page0_def boot_fields boot_coach)
    (simp_all add: boot_def initialize_def fixture_defs stored_page_def checkPermissions_def
      addAIToggleButton_def)

lemma started_eq: "started = startRun_resume 1000 (east 0) ((startRun page0)\<lparr>pendingFix := 0\<rparr>)"
  by (simp add: started_def page0_fields startRun_pending)

lemma started_fields:
  "isRunning started" "positions started = [fix0]" "watchId started = Some 0"
  "watchers started = [(0, 0)]" "totalDistance started = 0"
  by (simp_all add: started_eq startRun_resume_fields page0_fields)
    (simp add: newPos_def east_def fix0_def)

text \<open>
  C7. In every state the page can reach, the window of positions holds at most
  twenty entries, the stored history at most fifty runs, and the conversation
  history of the assistant at most ten turns.
\<close>

theorem reachable_bounded:
  assumes "reachable s"
  shows "length (positions s) \<le> WINDOW_CAP \<and> length (runHistory s) \<le> RUN_HISTORY_CAP \<and>
    (\<forall>c \<in> set_option (aiCoach s). length (conversationHistory c) \<le> HISTORY_CAP)"
  using reachable_app_inv [OF assms] by (simp add: app_inv_def bounded_inv_def)

theorem reachable_bounded_witness:
  "length (positions started) \<le> WINDOW_CAP \<and> length (runHistory started) \<le> RUN_HISTORY_CAP"
  using reachable_bounded [OF reachable_started] by simp

text \<open>
  C15. In every state the page can reach, a run in progress has a start time, a
  position to measure from and a watch; and when no run is in progress the script
  holds no watch and no recogniser.
\<close>

theorem reachable_session:
  assumes "reachable s"
  shows "(isRunning s \<longrightarrow> startTime s \<noteq> None \<and> positions s \<noteq> [] \<and> watchId s \<noteq> None) \<and>
    (\<not> isRunning s \<longrightarrow> watchId s = None \<and> voiceRecognition s = None)"
  using reachable_app_inv [OF assms] by (simp add: app_inv_def session_inv_def split: if_splits)

theorem reachable_session_witness:
  "isRunning started \<and> startTime started \<noteq> None \<and> positions started \<noteq> [] \<and> watchId started \<noteq> None"
  using reachable_session [OF reachable_started] by (simp add: started_fields)

text \<open>
  C16. The references the script holds are well formed in every state the page can
  reach: the ids of the watches are distinct and below the next id, the id in
  \<^verbatim>\<open>watchId\<close> is the id of a registered watch, and the recogniser in
  \<^verbatim>\<open>voiceRecognition\<close> exists and is not one the voice button has made.
\<close>

theorem reachable_registry:
  assumes "reachable s"
  shows "distinct (map fst (watchers s)) \<and>
    (\<forall>i \<in> fst ` set (watchers s). i < nextWatchId s) \<and>
    (\<forall>w. watchId s = Some w \<longrightarrow> w \<in> fst ` set (watchers s)) \<and>
    (\<forall>i. voiceRecognition s = Some i \<longrightarrow>
       i < length (recognizers s) \<and> recognizers s ! i \<noteq> RecManual)"
  using reachable_app_inv [OF assms] by (auto simp: app_inv_def registry_inv_def list_all_iff)

theorem reachable_registry_witness:
  "watchId started = Some 0 \<and> 0 \<in> fst ` set (watchers started) \<and> 0 < nextWatchId started"
  using reachable_registry [OF reachable_started] by (simp add: started_fields)

text \<open>
  C14. In every state the page can reach, the distance is not negative and the last
  announced kilometre lies between 0 and the whole part of the distance.
\<close>

theorem reachable_milestone:
  assumes "reachable s"
  shows "0 \<le> totalDistance s \<and> 0 \<le> lastAnnouncedKm s \<and> lastAnnouncedKm s \<le> \<lfloor>totalDistance s\<rfloor>"
  using reachable_app_inv [OF assms] by (simp add: app_inv_def milestone_inv_def)

theorem reachable_milestone_witness:
  "0 \<le> totalDistance started \<and> 0 \<le> lastAnnouncedKm started \<and>
   lastAnnouncedKm started \<le> \<lfloor>totalDistance started\<rfloor>"
  using reachable_milestone [OF reachable_started] by simp

text \<open>
  The wake lock is never held: the script releases it at start and stop and
  requests it nowhere, so every reachable state has no lock.
\<close>

theorem reachable_unlocked:
  assumes "reachable s"
  shows "wakeLock s = None"
  using reachable_app_inv [OF assms] by (simp add: app_inv_def unlocked_def)

theorem reachable_unlocked_witness: "wakeLock started = None"
  using reachable_unlocked [OF reachable_started] .

text \<open>
  The branch of the fix callback that stores a first position unconditionally
  is never taken: a watch exists only once the start has put a position in the
  window, and the window is never emptied.
\<close>

theorem reachable_no_first_fix:
  assumes "reachable s"
  shows "verdict w now c s \<noteq> FirstFix"
  using reachable_app_inv [OF assms] by (simp add: app_inv_def anchored_verdict)

theorem reachable_no_first_fix_witness: "verdict 0 21000 (east (1 / 2000)) started \<noteq> FirstFix"
  using reachable_no_first_fix [OF reachable_started] .

text \<open>
  C4. No event lowers the distance, except the arrival of the position that starts
  a run, which resets it.
\<close>

theorem step_distance_monotone:
  assumes "\<forall>c. e \<noteq> FixArrived c"
  shows "totalDistance s \<le> totalDistance (step now e s)"
  using assms by (rule totalDistance_step)

theorem step_distance_monotone_witness:
  "totalDistance started \<le> totalDistance (step 21000 (WatchFix 0 (east (1 / 2000))) started)"
  using step_distance_monotone [of "WatchFix 0 (east (1 / 2000))" started 21000] by simp

text \<open>
  C38. The start button stays enabled while the first position is awaited. Two
  clicks on it, both answered, make two watches of which the script remembers the
  second; the stop that follows clears that one, and the first goes on delivering
  fixes to a session that is not running.
\<close>

theorem double_start_leak:
  assumes "\<not> startBtnDisabled s" and "hasGeolocation (caps s)" and "registry_inv s"
  shows "\<not> isRunning (exec [(t0, StartClicked), (t0', StartClicked), (t1, FixArrived c),
                          (t2, FixArrived c'), (t3, StopClicked)] s) \<and>
    map_of (watchers (exec [(t0, StartClicked), (t0', StartClicked), (t1, FixArrived c),
                            (t2, FixArrived c'), (t3, StopClicked)] s)) (nextWatchId s) = Some 0"
  using double_start [OF assms] by simp

theorem double_start_leak_witness:
  "\<not> isRunning leaked \<and> map_of (watchers leaked) 0 = Some 0"
proof -
  have "registry_inv page0"
    using reachable_app_inv [OF reachable_page0] by (simp add: app_inv_def)
  from double_start_leak [OF page0_fields(1,2) this, of 0 1 900 "east 0" 1000 "east 0" 5000]
  show ?thesis by (simp add: leaked_def page0_fields)
qed

lemma leaked_fields:
  "\<not> isRunning leaked" "map_of (watchers leaked) 0 = Some 0" "positions leaked = [fix0]"
  "totalDistance leaked = 0"
proof -
  have r: "registry_inv page0"
    using reachable_app_inv [OF reachable_page0] by (simp add: app_inv_def)
  from double_start [OF page0_fields(1,2) r, of 0 1 900 "east 0" 1000 "east 0" 5000]
  show "\<not> isRunning leaked" "map_of (watchers leaked) 0 = Some 0"
    by (simp_all add: leaked_def page0_fields)
  have e: "leaked = stopRun 5000 (startRun_resume 1000 (east 0)
      ((startRun_resume 900 (east 0) ((startRun (startRun page0))\<lparr>pendingFix := 1\<rparr>))\<lparr>pendingFix := 0\<rparr>))"
    by (simp add: leaked_def page0_fields startRun_pending startRun_resume_fields)
  show "positions leaked = [fix0]" "totalDistance leaked = 0"
    unfolding e by (simp_all add: startRun_resume_fields newPos_def east_def fix0_def)
qed

text \<open>
  After such a double start and a stop, a fix of the watch left behind is
  accepted and raises the distance of the stopped session: the callback does not
  ask whether a run is in progress.
\<close>

theorem leaked_watch_counts:
  "\<not> isRunning leaked \<and> totalDistance leaked = 0 \<and>
   \<not> isRunning (step 21000 (WatchFix 0 (east (1 / 2000))) leaked) \<and>
   totalDistance (step 21000 (WatchFix 0 (east (1 / 2000))) leaked) = 6371 * pi / 360000"
proof -
  have "verdict 0 21000 (east (1 / 2000)) leaked = Accepted (6371 * pi / 360000)"
    by (simp add: verdict_def leaked_fields last_opt_def plausible_east step_east_55m(1) const_defs)
      (simp add: east_def)
  then show ?thesis
    by (simp add: leaked_fields onPosition_totalDistance increment_def)
qed

section \<open>The session implements the life cycle of the specification\<close>

lemma phase_of_page0: "phase_of page0 = Idle"
  by (simp add: phase_of_def page0_def boot_fields)

text \<open>
  C11. The handlers implement the life cycle of the specification: from a state the
  page can reach, the phases before and after a sequence of events are joined by
  a run of the machine \<open>lifecycle\<close> over these events. So a run starts only by the
  arrival of the awaited position and ends only by the stop button or a timer,
  and no event leads back to \<open>Idle\<close>.
\<close>

theorem exec_refines_lifecycle:
  "reachable s \<Longrightarrow> lifecycle_run (phase_of s) (map snd es) (phase_of (exec es s))"
proof (induction es arbitrary: s)
  case Nil
  show ?case by (simp add: lifecycle_run.finished)
next
  case (Cons a es)
  obtain now e where a: "a = (now, e)" by (cases a)
  from Cons.prems have "session_inv s"
    using reachable_app_inv by (simp add: app_inv_def)
  then have "lifecycle (phase_of s) e (phase_of (step now e s))"
    by (rule step_lifecycle)
  moreover have "lifecycle_run (phase_of (step now e s)) (map snd es) (phase_of (exec es (step now e s)))"
    by (rule Cons.IH) (rule reachable.handled [OF Cons.prems])
  ultimately show ?case
    unfolding a by (simp add: lifecycle_run.move)
qed

theorem exec_refines_lifecycle_witness:
  "lifecycle_run Idle [StartClicked, FixArrived (east 0)] Running"
proof -
  have "phase_of (exec [(0, StartClicked), (1000, FixArrived (east 0))] page0) = Running"
    unfolding started_def [symmetric] by (simp add: phase_of_running started_fields)
  with exec_refines_lifecycle [OF reachable_page0, of "[(0, StartClicked), (1000, FixArrived (east 0))]"]
  show ?thesis
    by (simp add: phase_of_page0 del: exec.simps)
qed

lemma started_more:
  "timers started = [(2000, Tick)]" "\<not> stopBtnDisabled started" "aiCoach started = None"
  "pendingFix started = 0" "hasGeolocation (caps started)"
  by (simp_all add: started_eq startRun_resume_fields page0_fields)
    (simp_all add: page0_def boot_fields)

text \<open>
  C39. A stop cancels no timer, so the display tick of a run outlives it. Whenever
  a run is stopped and the next one started (here on the path without a summary
  from the assistant, which enables the start button at once), every timer that was
  pending is still pending, in its place, beside the tick of the new run; and when
  any pending tick fires in the new run, the old one included, it is replaced, so
  the number of pending ticks stays one above what it was. The ticks of the two
  runs go on side by side.
\<close>

theorem tick_chain_doubles:
  assumes "isRunning s" and "\<not> stopBtnDisabled s" and "pendingFix s = 0"
    and "hasGeolocation (caps s)" and "aiCoach s = None \<or> \<not> useAI s"
  shows "isRunning (exec [(t1, StopClicked), (t2, StartClicked), (t3, FixArrived c)] s) \<and>
    timers (exec [(t1, StopClicked), (t2, StartClicked), (t3, FixArrived c)] s) =
      timers s @ [(t3 + 1000, Tick)] \<and>
    (\<forall>k now. k < length (timers s) + 1 \<and>
        snd ((timers s @ [(t3 + 1000, Tick)]) ! k) = Tick \<and>
        fst ((timers s @ [(t3 + 1000, Tick)]) ! k) \<le> now \<longrightarrow>
      ticks (step now (TimerDue k) (exec [(t1, StopClicked), (t2, StartClicked), (t3, FixArrived c)] s)) =
        ticks s + 1)"
proof -
  let ?s = "exec [(t1, StopClicked), (t2, StartClicked), (t3, FixArrived c)] s"
  note f = restart_fields [OF assms, of t1 t2 t3 c]
  have "ticks ?s = ticks s + 1"
    unfolding ticks_def f by simp
  moreover have "ticks (step now (TimerDue k) ?s) = ticks ?s"
    if "k < length (timers ?s)" and "snd (timers ?s ! k) = Tick" and "fst (timers ?s ! k) \<le> now"
    for k now
    using ticks_timerDue_running [OF f(1) that] by simp
  ultimately show ?thesis
    using f by (simp del: exec.simps)
qed

theorem tick_chain_doubles_witness:
  "timers restarted = [(2000, Tick), (2800, Tick)] \<and> ticks (step 2000 (TimerDue 0) restarted) = 2"
  using tick_chain_doubles [of started 1500 1600 1800 "east 0", folded restarted_def]
  by (simp add: started_fields started_more ticks_def)

end
